theory Spec2Isabelle
  imports Complex_Main "HOL-Library.Word"
begin

unbundle bit_operations_syntax

section \<open>Python values and errors\<close>

text \<open>
  Python integers are unbounded and are modelled by \<^typ>\<open>int\<close>; \<open>|\<close>, \<open>&\<close>,
  \<open><<\<close> and \<open>>>\<close> are \<open>OR\<close>, \<open>AND\<close>, \<open>push_bit\<close> and \<open>drop_bit\<close>.
  Python floats are modelled by \<^typ>\<open>real\<close>.  Every exception the driver can raise
  is a value of \<open>error\<close>; a method that can raise returns \<open>error + 'a\<close>.
\<close>

datatype error = ValueError | IndexError | TypeError | ZeroDivisionError | UnboundLocalError

definition seq :: "error + 'a \<Rightarrow> ('a \<Rightarrow> error + 'b) \<Rightarrow> error + 'b" where
  "seq m f = (case m of Inl e \<Rightarrow> Inl e | Inr x \<Rightarrow> f x)"

definition is_byte :: "int \<Rightarrow> bool" where
  "is_byte v = (0 \<le> v \<and> v < 256)"

text \<open>\<open>bytearray(n)\<close> and the item assignment \<open>b[i] = v\<close> of a bytearray, which raises
  ValueError unless \<open>v\<close> is in \<open>range(0, 256)\<close>.\<close>

definition bytearray :: "nat \<Rightarrow> int list" where
  "bytearray n = replicate n 0"

definition bytearray_set :: "int list \<Rightarrow> nat \<Rightarrow> int \<Rightarrow> error + int list" where
  "bytearray_set b i v =
     (if length b \<le> i then Inl IndexError
      else if is_byte v then Inr (b[i := v])
      else Inl ValueError)"

section \<open>The constants module\<close>

text \<open>
  The driver reads every register address, bit index, mask and table entry from the module
  \<open>DW1000Constants\<close> (imported as \<open>C\<close>), which is not part of \<open>DW1000.py\<close>.  The
  module is a parameter \<open>C\<close> of every function of the model: \<open>C.READ\<close> is written
  \<open>READ C\<close>.  A theorem that depends on the value of a constant says so in a hypothesis.
\<close>

record transport_constants =
  READ :: int
  READ_SUB :: int
  WRITE :: int
  WRITE_SUB :: int
  RW_SUB_EXT :: int
  MASK_LS_BYTE :: int
  NO_SUB :: int
  JUNK :: int
  SYS_CTRL :: int
  SYS_MASK :: int
  SYS_STATUS :: int
  TX_FCTRL :: int
  PANADR :: int
  TX_BUFFER :: int
  DX_TIME :: int
  SYS_TIME :: int
  MRXFCE_BIT :: int
  MRXFCG_BIT :: int
  MRXDFR_BIT :: int
  MLDEDONE_BIT :: int
  HRBPT_BIT :: int
  HSRBP_BIT :: int
  ICRBP_BIT :: int
  TRXOFF_BIT :: int
  WAIT4RESP_BIT :: int
  TXSTRT_BIT :: int
  TXDLYS_BIT :: int
  RXDLYE_BIT :: int
  TXFRB_BIT :: int
  TXPRS_BIT :: int
  TXPHS_BIT :: int
  TXFRS_BIT :: int
  SYS_STATUS_ALL_TX :: "int list"
  SYS_STATUS_ALL_RX_ERR :: "int list"
  SYS_STATUS_ALL_RX_TO :: "int list"
  SYS_STATUS_ALL_RX_GOOD :: "int list"
  SET_DATA_MASK1 :: int
  SET_DATA_MASK2 :: int
  SET_DELAY_MASK :: int
  ANTENNA_DELAY :: int
  MICROSECONDS :: real
  TIME_RES_INV :: real
  TIME_OVERFLOW :: int

section \<open>The bus\<close>

text \<open>
  The chip is reached through \<open>spidev\<close> and \<open>RPi.GPIO\<close>.  Everything the driver does
  to them is appended to a trace of events.  The SPI device answers every one-byte transfer
  with one byte; it is modelled by a function \<open>spi\<close> from the events so far (the transfer
  included) to the answer, so that any deterministic chip is covered.
\<close>

datatype event = CS_LOW | CS_HIGH | XFER int | REMOVE_EVENT_DETECT

text \<open>Modelled from the spec: the class \<open>DW1000Register\<close> is not part of \<open>DW1000.py\<close>.
  A register is an address, a sub-address, a fixed size in bytes and a byte buffer of that
  size.\<close>

record register =
  address :: int
  subaddress :: int
  size_reg :: nat
  data :: "int list"

record operation_mode =
  dataRate :: "int option"
  pulseFrequency :: "int option"
  pacSize :: "int option"
  preambleLength :: "int option"
  channel :: "int option"
  preacode :: "int option"

text \<open>The fields of a \<open>DW1000\<close> object that the modelled methods use, with the SPI device
  and the trace of bus events.  \<open>operationMode\<close> is the six-element list
  \<open>[dataRate, pulseFrequency, pacSize, preambleLength, channel, preacode]\<close>; an element
  that was never set is Python's \<open>None\<close>.\<close>

record dw1000 =
  spi :: "event list \<Rightarrow> 8 word"
  trace :: "event list"
  dblbuffon :: bool
  sysctrl :: register
  sysmask :: register
  txfctrl :: register
  sysstatus :: register
  panadr :: register
  seqNum :: int
  operationMode :: operation_mode

definition xfer :: "int \<Rightarrow> dw1000 \<Rightarrow> int \<times> dw1000" where
  "xfer b s = (let t = trace s @ [XFER b] in (uint (spi s t), s\<lparr>trace := t\<rparr>))"

definition emit :: "event \<Rightarrow> dw1000 \<Rightarrow> dw1000" where
  "emit e s = s\<lparr>trace := trace s @ [e]\<rparr>"

definition xfer_all :: "int list \<Rightarrow> dw1000 \<Rightarrow> dw1000" where
  "xfer_all bs s = fold (\<lambda>b s. snd (xfer b s)) bs s"

section \<open>Register transactions\<close>

text \<open>The header of a read transaction (\<open>readBytes\<close>, the lines that fill \<open>header\<close> and
  \<open>headerLen\<close>); the result is \<open>header[0:headerLen]\<close>.\<close>

definition readHeader :: "'a transport_constants_scheme \<Rightarrow> int \<Rightarrow> int \<Rightarrow> error + int list" where
  "readHeader C cmd offset =
     (let header = bytearray 3; headerLen = (1::nat) in
      if offset = NO_SUB C then
        seq (bytearray_set header 0 (READ C OR cmd)) (\<lambda>header.
        Inr (take headerLen header))
      else
        seq (bytearray_set header 0 (READ_SUB C OR cmd)) (\<lambda>header.
        if offset < 128 then
          seq (bytearray_set header 1 offset) (\<lambda>header.
          Inr (take (headerLen + 1) header))
        else
          seq (bytearray_set header 1 ((RW_SUB_EXT C OR offset) AND MASK_LS_BYTE C)) (\<lambda>header.
          seq (bytearray_set header 2 (drop_bit 7 offset)) (\<lambda>header.
          Inr (take (headerLen + 2) header)))))"

text \<open>The header of a write transaction (\<open>writeBytes\<close>).\<close>

definition writeHeader :: "'a transport_constants_scheme \<Rightarrow> int \<Rightarrow> int \<Rightarrow> error + int list" where
  "writeHeader C cmd offset =
     (let header = bytearray 3; headerLen = (1::nat) in
      if offset = NO_SUB C then
        seq (bytearray_set header 0 (WRITE C OR cmd)) (\<lambda>header.
        Inr (take headerLen header))
      else
        seq (bytearray_set header 0 (WRITE_SUB C OR cmd)) (\<lambda>header.
        if offset < 128 then
          seq (bytearray_set header 1 offset) (\<lambda>header.
          Inr (take (headerLen + 1) header))
        else
          seq (bytearray_set header 1 ((RW_SUB_EXT C OR offset) AND MASK_LS_BYTE C)) (\<lambda>header.
          seq (bytearray_set header 2 (drop_bit 7 offset)) (\<lambda>header.
          Inr (take (headerLen + 2) header)))))"

text \<open>The loop \<open>for i in range(0, n): data[i] = self.spi.xfer([C.JUNK])[0]\<close>.  The buffer
  is a Python list or bytearray; a cell of a list may hold \<open>None\<close>.\<close>

fun readLoop :: "'a transport_constants_scheme \<Rightarrow> nat list \<Rightarrow> int option list \<Rightarrow> dw1000
    \<Rightarrow> error + (int option list \<times> dw1000)" where
  "readLoop C [] buf s = Inr (buf, s)"
| "readLoop C (i # is) buf s =
     (case xfer (JUNK C) s of (b, s') \<Rightarrow>
        if i < length buf then readLoop C is (buf[i := Some b]) s' else Inl IndexError)"

definition readBytes :: "'a transport_constants_scheme \<Rightarrow> int \<Rightarrow> int \<Rightarrow> int option list \<Rightarrow> nat
    \<Rightarrow> dw1000 \<Rightarrow> error + (int option list \<times> dw1000)" where
  "readBytes C cmd offset buf n s =
     seq (readHeader C cmd offset) (\<lambda>header.
     seq (readLoop C [0..<n] buf (xfer_all header (emit CS_LOW s))) (\<lambda>(buf, s).
     Inr (buf, emit CS_HIGH s)))"

text \<open>The loop \<open>for i in range(0, dataSize): if data[i] != None: self.spi.xfer([int(data[i])])\<close>.\<close>

fun writeLoop :: "nat list \<Rightarrow> int option list \<Rightarrow> dw1000 \<Rightarrow> error + dw1000" where
  "writeLoop [] buf s = Inr s"
| "writeLoop (i # is) buf s =
     (if i < length buf then
        (case buf ! i of
           None \<Rightarrow> writeLoop is buf s
         | Some b \<Rightarrow> writeLoop is buf (snd (xfer b s)))
      else Inl IndexError)"

definition writeBytes :: "'a transport_constants_scheme \<Rightarrow> int \<Rightarrow> int \<Rightarrow> int option list \<Rightarrow> nat
    \<Rightarrow> dw1000 \<Rightarrow> error + dw1000" where
  "writeBytes C cmd offset buf dataSize s =
     seq (writeHeader C cmd offset) (\<lambda>header.
     seq (writeLoop [0..<dataSize] buf (xfer_all header (emit CS_LOW s))) (\<lambda>s.
     Inr (emit CS_HIGH s)))"


section \<open>Timestamps\<close>

definition wrapTimestamp :: "'a transport_constants_scheme \<Rightarrow> int \<Rightarrow> int" where
  "wrapTimestamp C timestamp =
     (if timestamp < 0 then timestamp + TIME_OVERFLOW C else timestamp)"


section \<open>Registers\<close>

text \<open>Modelled from the spec: \<open>DW1000Register(address, subaddress, size)\<close>.  The
  specification does not say what a new register holds; a zero-filled buffer is taken.\<close>

definition DW1000Register :: "int \<Rightarrow> int \<Rightarrow> nat \<Rightarrow> register" where
  "DW1000Register a sub n = \<lparr>address = a, subaddress = sub, size_reg = n, data = replicate n 0\<rparr>"

section \<open>Construction\<close>

text \<open>\<open>__init__\<close>: the registers the model keeps, the sequence number drawn by
  \<open>randrange(0, 256)\<close> and an operation mode of six \<open>None\<close>.  The draw is the
  parameter \<open>r\<close>, a byte, since \<open>randrange(0, 256)\<close> returns an integer from 0 to 255.
  The SPI device, opened later by \<open>begin\<close>, is the parameter \<open>dev\<close>.\<close>

definition DW1000_init :: "'a transport_constants_scheme \<Rightarrow> (event list \<Rightarrow> 8 word) \<Rightarrow> 8 word
    \<Rightarrow> dw1000" where
  "DW1000_init C dev r =
     \<lparr>spi = dev, trace = [], dblbuffon = False,
      sysctrl = DW1000Register (SYS_CTRL C) (NO_SUB C) 4,
      sysmask = DW1000Register (SYS_MASK C) (NO_SUB C) 4,
      txfctrl = DW1000Register (TX_FCTRL C) (NO_SUB C) 5,
      sysstatus = DW1000Register (SYS_STATUS C) (NO_SUB C) 5,
      panadr = DW1000Register (PANADR C) (NO_SUB C) 4,
      seqNum = uint r,
      operationMode = \<lparr>dataRate = None, pulseFrequency = None, pacSize = None,
        preambleLength = None, channel = None, preacode = None\<rparr>\<rparr>"


section \<open>Further constants\<close>

text \<open>The constants of the ranging arithmetic and of the tuning tables, as extensions of
  the same module.\<close>

record ranging_constants = transport_constants +
  RX_FQUAL :: int
  CIR_PWR_SUB :: int
  RX_FINFO :: int
  A_16MHZ :: real
  CORRFAC_16MHZ :: real
  A_64MHZ :: real
  CORRFAC_64MHZ :: real
  PWR_COEFF :: real
  PWR_COEFF2 :: real
  TWOPOWER17 :: int
  BIAS_500_16 :: "int list"
  BIAS_500_64 :: "int list"
  BIAS_900_16 :: "int list"
  BIAS_900_64 :: "int list"
  BIAS_500_16_ZERO :: int
  BIAS_500_64_ZERO :: int
  BIAS_900_16_ZERO :: int
  BIAS_900_64_ZERO :: int
  DISTANCE_OF_RADIO_INV :: real
  ADJUSTMENT_TIME_FACTOR :: real
  TX_PULSE_FREQ_16MHZ :: int
  TX_PULSE_FREQ_64MHZ :: int
  CHANNEL_1 :: int
  CHANNEL_2 :: int
  CHANNEL_3 :: int
  CHANNEL_4 :: int
  CHANNEL_5 :: int
  CHANNEL_7 :: int

record tune_constants = ranging_constants +
  AGC_CTRL :: int
  AGC_TUNE1_SUB :: int
  AGC_TUNE2_SUB :: int
  AGC_TUNE3_SUB :: int
  DRX_CONF :: int
  DRX_TUNE0b_SUB :: int
  DRX_TUNE1a_SUB :: int
  DRX_TUNE1b_SUB :: int
  DRX_TUNE2_SUB :: int
  DRX_TUNE4H_SUB :: int
  RF_CONF :: int
  RF_RXCTRLH_SUB :: int
  RF_TXCTRL_SUB :: int
  TX_CAL :: int
  TC_PGDELAY_SUB :: int
  FS_CTRL :: int
  FS_PLLCFG_SUB :: int
  FS_PLLTUNE_SUB :: int
  LDE_CTRL :: int
  LDE_CFG1_SUB :: int
  LDE_CFG2_SUB :: int
  LDE_REPC_SUB :: int
  TX_POWER :: int
  FS_XTALT_SUB :: int
  OTP_IF :: int
  OTP_ADDR_SUB :: int
  OTP_CTRL_SUB :: int
  OTP_RDAT_SUB :: int
  OTP_STEP2 :: int
  OTP_STEP3 :: int
  OTP_STEP5 :: int
  OTP_XTAL_ADDRESS :: int
  TUNE_OPERATION :: int
  TUNE_MASK1 :: int
  TUNE_MASK2 :: int
  MASK_LS_2BYTES :: int
  TRX_RATE_110KBPS :: int
  TRX_RATE_850KBPS :: int
  TRX_RATE_6800KBPS :: int
  TX_PREAMBLE_LEN_64 :: int
  TX_PREAMBLE_LEN_1536 :: int
  TX_PREAMBLE_LEN_2048 :: int
  TX_PREAMBLE_LEN_4096 :: int
  PAC_SIZE_8 :: int
  PAC_SIZE_16 :: int
  PAC_SIZE_32 :: int
  PAC_SIZE_64 :: int
  PREAMBLE_CODE_16MHZ_1 :: int
  PREAMBLE_CODE_16MHZ_2 :: int
  PREAMBLE_CODE_16MHZ_3 :: int
  PREAMBLE_CODE_16MHZ_4 :: int
  PREAMBLE_CODE_16MHZ_5 :: int
  PREAMBLE_CODE_16MHZ_6 :: int
  PREAMBLE_CODE_16MHZ_7 :: int
  PREAMBLE_CODE_16MHZ_8 :: int
  PREAMBLE_CODE_64MHZ_9 :: int
  PREAMBLE_CODE_64MHZ_10 :: int
  PREAMBLE_CODE_64MHZ_11 :: int
  PREAMBLE_CODE_64MHZ_12 :: int
  PREAMBLE_CODE_64MHZ_17 :: int
  PREAMBLE_CODE_64MHZ_18 :: int
  PREAMBLE_CODE_64MHZ_19 :: int
  PREAMBLE_CODE_64MHZ_20 :: int
  AGC_TUNE1_16MHZ_OP :: int
  AGC_TUNE1_DEFAULT_OP :: int
  AGC_TUNE2_OP :: int
  AGC_TUNE3_OP :: int
  DRX_TUNE0b_110KBPS_NOSTD_OP :: int
  DRX_TUNE0b_850KBPS_NOSTD_OP :: int
  DRX_TUNE0b_6800KBPS_STD_OP :: int
  DRX_TUNE1a_16MHZ_OP :: int
  DRX_TUNE1a_64MHZ_OP :: int
  LDE_CFG2_16MHZ_OP :: int
  LDE_CFG2_64MHZ_OP :: int
  DRX_TUNE1b_M1024 :: int
  DRX_TUNE1b_L1024 :: int
  DRX_TUNE1b_64 :: int
  DRX_TUNE2_8_16MHZ :: int
  DRX_TUNE2_8_64MHZ :: int
  DRX_TUNE2_16_16MHZ :: int
  DRX_TUNE2_16_64MHZ :: int
  DRX_TUNE2_32_16MHZ :: int
  DRX_TUNE2_32_64MHZ :: int
  DRX_TUNE2_64_16MHZ :: int
  DRX_TUNE2_64_64MHZ :: int
  DRX_TUNE4H_64 :: int
  DRX_TUNE4H_128 :: int
  RF_RXCTRLH_1235 :: int
  RF_RXCTRLH_147 :: int
  RF_TXCTRL_1 :: int
  RF_TXCTRL_2 :: int
  RF_TXCTRL_3 :: int
  RF_TXCTRL_4 :: int
  RF_TXCTRL_5 :: int
  RF_TXCTRL_7 :: int
  TC_PGDELAY_1 :: int
  TC_PGDELAY_2 :: int
  TC_PGDELAY_3 :: int
  TC_PGDELAY_4 :: int
  TC_PGDELAY_5 :: int
  TC_PGDELAY_7 :: int
  FS_PLLCFG_1 :: int
  FS_PLLCFG_24 :: int
  FS_PLLCFG_3 :: int
  FS_PLLCFG_57 :: int
  FS_PLLTUNE_1 :: int
  FS_PLLTUNE_24 :: int
  FS_PLLTUNE_3 :: int
  FS_PLLTUNE_57 :: int
  TX_POWER_12_16MHZ :: int
  TX_POWER_12_64MHZ :: int
  TX_POWER_3_16MHZ :: int
  TX_POWER_3_64MHZ :: int
  TX_POWER_4_16MHZ :: int
  TX_POWER_4_64MHZ :: int
  TX_POWER_5_16MHZ :: int
  TX_POWER_5_64MHZ :: int
  TX_POWER_7_16MHZ :: int
  TX_POWER_7_64MHZ :: int
  LDE_CFG1_OP :: int
  LDE_REPC_1AND2 :: int
  LDE_REPC_3AND8 :: int
  LDE_REPC_4 :: int
  LDE_REPC_5 :: int
  LDE_REPC_6 :: int
  LDE_REPC_7 :: int
  LDE_REPC_9 :: int
  LDE_REPC_1017 :: int
  LDE_REPC_111321 :: int
  LDE_REPC_12 :: int
  LDE_REPC_14161819 :: int
  LDE_REPC_20 :: int


section \<open>Register operations\<close>

text \<open>Modelled from the spec: the methods of \<open>DW1000Register\<close>, which is not part of
  \<open>DW1000.py\<close>.  \<open>clear()\<close> zero-fills; \<open>setBit(index, value)\<close> and
  \<open>getBit(index)\<close> address the bit at byte \<open>index / 8\<close>, position \<open>index % 8\<close>;
  \<open>setBits(indices, value)\<close> applies the same value to a list of bit indices;
  \<open>setAll(byteValue)\<close> fills every byte; \<open>writeValue(n)\<close> scatters an integer
  little-endian across the buffer; \<open>reg[i]\<close> reads and writes a byte.  All indices are
  checked against the size, and an index out of range is an error.\<close>

definition clear :: "register \<Rightarrow> register" where
  "clear r = r\<lparr>data := replicate (size_reg r) 0\<rparr>"

definition setAll :: "register \<Rightarrow> int \<Rightarrow> register" where
  "setAll r byteValue = r\<lparr>data := replicate (size_reg r) byteValue\<rparr>"

definition bit_index :: "nat \<Rightarrow> int \<Rightarrow> bool" where
  "bit_index n index = (0 \<le> index \<and> index < 8 * int n)"

definition bit_update :: "int list \<Rightarrow> int \<Rightarrow> bool \<Rightarrow> int list" where
  "bit_update d index val =
     (let i = nat (index div 8); k = nat (index mod 8); b = d ! i in
      d[i := (if val then set_bit k b else unset_bit k b)])"

definition bit_of :: "int list \<Rightarrow> int \<Rightarrow> bool" where
  "bit_of d index = bit (d ! nat (index div 8)) (nat (index mod 8))"

definition setBit :: "register \<Rightarrow> int \<Rightarrow> bool \<Rightarrow> error + register" where
  "setBit r index val =
     (if bit_index (size_reg r) index then Inr (r\<lparr>data := bit_update (data r) index val\<rparr>)
      else Inl IndexError)"

definition getBit :: "register \<Rightarrow> int \<Rightarrow> error + bool" where
  "getBit r index =
     (if bit_index (size_reg r) index then Inr (bit_of (data r) index) else Inl IndexError)"

fun setBits :: "register \<Rightarrow> int list \<Rightarrow> bool \<Rightarrow> error + register" where
  "setBits r [] val = Inr r"
| "setBits r (index # indices) val = seq (setBit r index val) (\<lambda>r. setBits r indices val)"

definition writeValue :: "register \<Rightarrow> int \<Rightarrow> register" where
  "writeValue r n = r\<lparr>data := map (\<lambda>i. drop_bit (8 * i) n AND 0xFF) [0..<size_reg r]\<rparr>"

definition getitem :: "register \<Rightarrow> nat \<Rightarrow> error + int" where
  "getitem r i = (if i < size_reg r then Inr (data r ! i) else Inl IndexError)"

definition setitem :: "register \<Rightarrow> nat \<Rightarrow> int \<Rightarrow> error + register" where
  "setitem r i v = (if i < size_reg r then Inr (r\<lparr>data := (data r)[i := v]\<rparr>) else Inl IndexError)"

section \<open>Device control\<close>

text \<open>\<open>readRegister\<close> fills the buffer of the register it is given and \<open>writeRegister\<close>
  sends it.  A register is a value here, so \<open>readRegister\<close> returns the register it has
  filled and the caller stores it where the Python object lives.\<close>

definition readRegister :: "'a transport_constants_scheme \<Rightarrow> register \<Rightarrow> dw1000
    \<Rightarrow> error + (register \<times> dw1000)" where
  "readRegister C reg s =
     seq (readBytes C (address reg) (subaddress reg) (map Some (data reg)) (size_reg reg) s)
       (\<lambda>(buf, s). Inr (reg\<lparr>data := map the buf\<rparr>, s))"

definition writeRegister :: "'a transport_constants_scheme \<Rightarrow> register \<Rightarrow> dw1000
    \<Rightarrow> error + dw1000" where
  "writeRegister C reg s =
     writeBytes C (address reg) (subaddress reg) (map Some (data reg)) (size_reg reg) s"

definition toggleHSRBP :: "'a transport_constants_scheme \<Rightarrow> dw1000 \<Rightarrow> error + dw1000" where
  "toggleHSRBP C s =
     (if dblbuffon s then
        (let oldmask = data (sysmask s) in
         seq (setBits (sysmask s) [MRXFCE_BIT C, MRXFCG_BIT C, MRXDFR_BIT C, MLDEDONE_BIT C] False)
           (\<lambda>r. let s = s\<lparr>sysmask := r\<rparr> in
         seq (writeRegister C (sysmask s) s) (\<lambda>s.
         seq (setBit (sysctrl s) (HRBPT_BIT C) True) (\<lambda>r. let s = s\<lparr>sysctrl := r\<rparr> in
         seq (writeRegister C (sysctrl s) s) (\<lambda>s.
         let s = s\<lparr>sysmask := (sysmask s)\<lparr>data := oldmask\<rparr>\<rparr> in
         writeRegister C (sysmask s) s)))))
      else Inr s)"

definition syncHSRBP :: "'a transport_constants_scheme \<Rightarrow> dw1000 \<Rightarrow> error + dw1000" where
  "syncHSRBP C s =
     seq (readRegister C (sysstatus s) s) (\<lambda>(r, s). let s = s\<lparr>sysstatus := r\<rparr> in
     seq (getBit (sysstatus s) (HSRBP_BIT C)) (\<lambda>hsrbp.
     seq (getBit (sysstatus s) (ICRBP_BIT C)) (\<lambda>icrbp.
     if hsrbp = icrbp then toggleHSRBP C s else Inr s)))"

definition disableInterrupt :: "dw1000 \<Rightarrow> dw1000" where
  "disableInterrupt s = emit REMOVE_EVENT_DETECT s"

definition clearStatus :: "'a transport_constants_scheme \<Rightarrow> int list \<Rightarrow> dw1000 \<Rightarrow> error + dw1000" where
  "clearStatus C bits s =
     (let s = s\<lparr>sysstatus := clear (sysstatus s)\<rparr> in
      seq (setBits (sysstatus s) bits True) (\<lambda>r. let s = s\<lparr>sysstatus := r\<rparr> in
      writeRegister C (sysstatus s) s))"

definition forceTRxOff :: "'a transport_constants_scheme \<Rightarrow> dw1000 \<Rightarrow> error + dw1000" where
  "forceTRxOff C s =
     seq (readRegister C (sysmask s) s) (\<lambda>(r, s). let s = s\<lparr>sysmask := r\<rparr> in
     let mask = data (sysmask s) in
     let s = disableInterrupt s in
     let s = s\<lparr>sysmask := setAll (sysmask s) 0x00\<rparr> in
     seq (writeRegister C (sysmask s) s) (\<lambda>s.
     let s = s\<lparr>sysctrl := clear (sysctrl s)\<rparr> in
     seq (setBit (sysctrl s) (TRXOFF_BIT C) True) (\<lambda>r. let s = s\<lparr>sysctrl := r\<rparr> in
     seq (writeRegister C (sysctrl s) s) (\<lambda>s.
     seq (clearStatus C (SYS_STATUS_ALL_TX C @ SYS_STATUS_ALL_RX_ERR C @
            SYS_STATUS_ALL_RX_TO C @ SYS_STATUS_ALL_RX_GOOD C) s) (\<lambda>s.
     seq (syncHSRBP C s) (\<lambda>s.
     let s = s\<lparr>sysmask := (sysmask s)\<lparr>data := mask\<rparr>\<rparr> in
     seq (writeRegister C (sysmask s) s) (\<lambda>s.
     seq (setBit (sysctrl s) (WAIT4RESP_BIT C) False) (\<lambda>r.
     Inr (s\<lparr>sysctrl := r\<rparr>)))))))))"

definition idle :: "'a transport_constants_scheme \<Rightarrow> dw1000 \<Rightarrow> error + dw1000" where
  "idle C s =
     (let s = s\<lparr>sysctrl := clear (sysctrl s)\<rparr> in
      seq (setBit (sysctrl s) (TRXOFF_BIT C) True) (\<lambda>r. let s = s\<lparr>sysctrl := r\<rparr> in
      writeRegister C (sysctrl s) s))"

text \<open>The bus events of a transaction on a register without sub-address, as the
  specification describes them: chip-select low, the one-byte header, one transfer per
  payload byte, chip-select high.\<close>

definition read_transaction :: "'a transport_constants_scheme \<Rightarrow> int \<Rightarrow> nat \<Rightarrow> event list" where
  "read_transaction C cmd n =
     CS_LOW # XFER (READ C OR cmd) # replicate n (XFER (JUNK C)) @ [CS_HIGH]"

definition write_transaction :: "'a transport_constants_scheme \<Rightarrow> int \<Rightarrow> int list \<Rightarrow> event list" where
  "write_transaction C cmd bytes =
     CS_LOW # XFER (WRITE C OR cmd) # map XFER bytes @ [CS_HIGH]"

text \<open>A register object created by \<open>DW1000Register(a, C.NO_SUB, n)\<close>: the buffer keeps
  the size it was created with.\<close>

definition is_register :: "'a transport_constants_scheme \<Rightarrow> register \<Rightarrow> int \<Rightarrow> nat \<Rightarrow> bool" where
  "is_register C r a n =
     (address r = a \<and> subaddress r = NO_SUB C \<and> size_reg r = n \<and> length (data r) = n)"

definition attached :: "'a transport_constants_scheme \<Rightarrow> dw1000 \<Rightarrow> bool" where
  "attached C s =
     (is_register C (sysctrl s) (SYS_CTRL C) 4 \<and>
      is_register C (sysmask s) (SYS_MASK C) 4 \<and>
      is_register C (txfctrl s) (TX_FCTRL C) 5 \<and>
      is_register C (sysstatus s) (SYS_STATUS C) 5 \<and>
      is_register C (panadr s) (PANADR C) 4)"


section \<open>Describing bus traffic\<close>

text \<open>The bytes the SPI device \<open>dev\<close> answers to \<open>n\<close> consecutive \<open>C.JUNK\<close> transfers
  after the events \<open>t\<close>, and the value that a read transaction on a register without
  sub-address returns when it starts after the events \<open>t\<close>.\<close>

fun answers :: "'a transport_constants_scheme \<Rightarrow> (event list \<Rightarrow> 8 word) \<Rightarrow> nat \<Rightarrow> event list
    \<Rightarrow> int list" where
  "answers C dev 0 t = []"
| "answers C dev (Suc n) t = uint (dev (t @ [XFER (JUNK C)])) # answers C dev n (t @ [XFER (JUNK C)])"

definition read_value :: "'a transport_constants_scheme \<Rightarrow> int \<Rightarrow> nat \<Rightarrow> (event list \<Rightarrow> 8 word)
    \<Rightarrow> event list \<Rightarrow> int list" where
  "read_value C cmd n dev t = answers C dev n (t @ [CS_LOW, XFER (READ C OR cmd)])"

text \<open>The bytes of a buffer after \<open>setBits(indices, val)\<close>.\<close>

definition bits_update :: "int list \<Rightarrow> int list \<Rightarrow> bool \<Rightarrow> int list" where
  "bits_update d indices val = fold (\<lambda>index d. bit_update d index val) indices d"

text \<open>The constants that the device-control methods use are well formed: the header byte
  of each transaction is a byte and each bit index lies inside its register.\<close>

definition device_constants_ok :: "'a transport_constants_scheme \<Rightarrow> bool" where
  "device_constants_ok C =
     (is_byte (READ C OR SYS_MASK C) \<and> is_byte (WRITE C OR SYS_MASK C) \<and>
      is_byte (READ C OR SYS_STATUS C) \<and> is_byte (WRITE C OR SYS_STATUS C) \<and>
      is_byte (WRITE C OR SYS_CTRL C) \<and>
      bit_index 4 (MRXFCE_BIT C) \<and> bit_index 4 (MRXFCG_BIT C) \<and>
      bit_index 4 (MRXDFR_BIT C) \<and> bit_index 4 (MLDEDONE_BIT C) \<and>
      bit_index 4 (HRBPT_BIT C) \<and> bit_index 4 (TRXOFF_BIT C) \<and> bit_index 4 (WAIT4RESP_BIT C) \<and>
      bit_index 5 (HSRBP_BIT C) \<and> bit_index 5 (ICRBP_BIT C) \<and>
      list_all (bit_index 5) (SYS_STATUS_ALL_TX C @ SYS_STATUS_ALL_RX_ERR C @
        SYS_STATUS_ALL_RX_TO C @ SYS_STATUS_ALL_RX_GOOD C))"

text \<open>The events of \<open>toggleHSRBP\<close> when double buffering is on, for cached mask bytes
  \<open>oldmask\<close> and cached control bytes \<open>ctrl\<close>: the mask with the four receive interrupts
  disabled, the control register with the toggle bit set, the saved mask.\<close>

definition toggle_events :: "'a transport_constants_scheme \<Rightarrow> int list \<Rightarrow> int list \<Rightarrow> event list" where
  "toggle_events C oldmask ctrl =
     write_transaction C (SYS_MASK C)
       (bits_update oldmask [MRXFCE_BIT C, MRXFCG_BIT C, MRXDFR_BIT C, MLDEDONE_BIT C] False) @
     write_transaction C (SYS_CTRL C) (bit_update ctrl (HRBPT_BIT C) True) @
     write_transaction C (SYS_MASK C) oldmask"


text \<open>The events of \<open>forceTRxOff\<close> up to the clearing of the status bits: the read of
  the interrupt mask, the removal of the interrupt handler, the zeroed mask, the control
  register with only the transceiver-off bit, the status bits to clear.\<close>

definition forceTRxOff_head :: "'a transport_constants_scheme \<Rightarrow> event list" where
  "forceTRxOff_head C =
     read_transaction C (SYS_MASK C) 4 @
     [REMOVE_EVENT_DETECT] @
     write_transaction C (SYS_MASK C) (replicate 4 0) @
     write_transaction C (SYS_CTRL C) (bit_update (replicate 4 0) (TRXOFF_BIT C) True) @
     write_transaction C (SYS_STATUS C)
       (bits_update (replicate 5 0)
          (SYS_STATUS_ALL_TX C @ SYS_STATUS_ALL_RX_ERR C @ SYS_STATUS_ALL_RX_TO C @
           SYS_STATUS_ALL_RX_GOOD C) True)"


section \<open>Describing a transaction\<close>





section \<open>Tuning\<close>

text \<open>
  The tuning helpers read \<open>self.operationMode\<close> and fill the registers they are given; a
  register is a value here, so each helper returns the registers it has filled.  A mode
  field compared with a constant is equal to it only when it is set to that code.
\<close>

definition tuneAgcTune1 :: "tune_constants \<Rightarrow> dw1000 \<Rightarrow> register \<Rightarrow> register" where
  "tuneAgcTune1 C s agctune1 =
     (let pulseFrequency = pulseFrequency (operationMode s) in
      if pulseFrequency = Some (TX_PULSE_FREQ_16MHZ C) then
        writeValue agctune1 (AGC_TUNE1_16MHZ_OP C)
      else if pulseFrequency = Some (TX_PULSE_FREQ_64MHZ C) then
        writeValue agctune1 (AGC_TUNE1_DEFAULT_OP C)
      else agctune1)"

definition tuneDrxTune0b :: "tune_constants \<Rightarrow> dw1000 \<Rightarrow> register \<Rightarrow> register" where
  "tuneDrxTune0b C s drxtune0b =
     (let dataRate = dataRate (operationMode s) in
      if dataRate = Some (TRX_RATE_110KBPS C) then
        writeValue drxtune0b (DRX_TUNE0b_110KBPS_NOSTD_OP C)
      else if dataRate = Some (TRX_RATE_850KBPS C) then
        writeValue drxtune0b (DRX_TUNE0b_850KBPS_NOSTD_OP C)
      else if dataRate = Some (TRX_RATE_6800KBPS C) then
        writeValue drxtune0b (DRX_TUNE0b_6800KBPS_STD_OP C)
      else drxtune0b)"

definition tuneDrxTune1aAndldecfg2 :: "tune_constants \<Rightarrow> dw1000 \<Rightarrow> register \<Rightarrow> register
    \<Rightarrow> register \<times> register" where
  "tuneDrxTune1aAndldecfg2 C s drxtune1a ldecfg2 =
     (let pulseFrequency = pulseFrequency (operationMode s) in
      if pulseFrequency = Some (TX_PULSE_FREQ_16MHZ C) then
        (writeValue drxtune1a (DRX_TUNE1a_16MHZ_OP C), writeValue ldecfg2 (LDE_CFG2_16MHZ_OP C))
      else if pulseFrequency = Some (TX_PULSE_FREQ_64MHZ C) then
        (writeValue drxtune1a (DRX_TUNE1a_64MHZ_OP C), writeValue ldecfg2 (LDE_CFG2_64MHZ_OP C))
      else (drxtune1a, ldecfg2))"

text \<open>Modelled from the spec: the last branch of \<open>tuneDrxtune1b\<close> calls the register
  object, \<open>drxtune1b(C.DRX_TUNE1b_64)\<close>.  The operations the specification gives a
  register are \<open>clear\<close>, \<open>setBit\<close>, \<open>getBit\<close>, \<open>setBits\<close>, \<open>setAll\<close>,
  \<open>writeValue\<close> and indexing; it is not callable, and calling it raises TypeError.\<close>

definition call_register :: "register \<Rightarrow> int \<Rightarrow> error + register" where
  "call_register r v = Inl TypeError"

definition tuneDrxtune1b :: "tune_constants \<Rightarrow> dw1000 \<Rightarrow> register \<Rightarrow> error + register" where
  "tuneDrxtune1b C s drxtune1b =
     (let dataRate = dataRate (operationMode s);
          preambleLength = preambleLength (operationMode s) in
      if preambleLength = Some (TX_PREAMBLE_LEN_1536 C) \<or>
         preambleLength = Some (TX_PREAMBLE_LEN_2048 C) \<or>
         preambleLength = Some (TX_PREAMBLE_LEN_4096 C) then
        (if dataRate = Some (TRX_RATE_110KBPS C) then
           Inr (writeValue drxtune1b (DRX_TUNE1b_M1024 C))
         else Inr drxtune1b)
      else if preambleLength \<noteq> Some (TX_PREAMBLE_LEN_64 C) then
        (if dataRate = Some (TRX_RATE_850KBPS C) \<or> dataRate = Some (TRX_RATE_6800KBPS C) then
           Inr (writeValue drxtune1b (DRX_TUNE1b_L1024 C))
         else Inr drxtune1b)
      else
        (if dataRate = Some (TRX_RATE_6800KBPS C) then
           call_register drxtune1b (DRX_TUNE1b_64 C)
         else Inr drxtune1b))"

definition tuneDrxTune2 :: "tune_constants \<Rightarrow> dw1000 \<Rightarrow> register \<Rightarrow> register" where
  "tuneDrxTune2 C s drxtune2 =
     (let pacSize = pacSize (operationMode s);
          pulseFrequency = pulseFrequency (operationMode s) in
      if pacSize = Some (PAC_SIZE_8 C) then
        (if pulseFrequency = Some (TX_PULSE_FREQ_16MHZ C) then
           writeValue drxtune2 (DRX_TUNE2_8_16MHZ C)
         else if pulseFrequency = Some (TX_PULSE_FREQ_64MHZ C) then
           writeValue drxtune2 (DRX_TUNE2_8_64MHZ C)
         else drxtune2)
      else if pacSize = Some (PAC_SIZE_16 C) then
        (if pulseFrequency = Some (TX_PULSE_FREQ_16MHZ C) then
           writeValue drxtune2 (DRX_TUNE2_16_16MHZ C)
         else if pulseFrequency = Some (TX_PULSE_FREQ_64MHZ C) then
           writeValue drxtune2 (DRX_TUNE2_16_64MHZ C)
         else drxtune2)
      else if pacSize = Some (PAC_SIZE_32 C) then
        (if pulseFrequency = Some (TX_PULSE_FREQ_16MHZ C) then
           writeValue drxtune2 (DRX_TUNE2_32_16MHZ C)
         else if pulseFrequency = Some (TX_PULSE_FREQ_64MHZ C) then
           writeValue drxtune2 (DRX_TUNE2_32_64MHZ C)
         else drxtune2)
      else if pacSize = Some (PAC_SIZE_64 C) then
        (if pulseFrequency = Some (TX_PULSE_FREQ_16MHZ C) then
           writeValue drxtune2 (DRX_TUNE2_64_16MHZ C)
         else if pulseFrequency = Some (TX_PULSE_FREQ_64MHZ C) then
           writeValue drxtune2 (DRX_TUNE2_64_64MHZ C)
         else drxtune2)
      else drxtune2)"

text \<open>The transmit power of a channel: the two-way choice on the pulse frequency that
  ends each branch of \<open>tuneAccToChan\<close>.\<close>

definition txpower_for :: "tune_constants \<Rightarrow> dw1000 \<Rightarrow> register \<Rightarrow> int \<Rightarrow> int \<Rightarrow> register" where
  "txpower_for C s txpower p16 p64 =
     (let pulseFrequency = pulseFrequency (operationMode s) in
      if pulseFrequency = Some (TX_PULSE_FREQ_16MHZ C) then writeValue txpower p16
      else if pulseFrequency = Some (TX_PULSE_FREQ_64MHZ C) then writeValue txpower p64
      else txpower)"

definition tuneAccToChan :: "tune_constants \<Rightarrow> dw1000 \<Rightarrow> register \<Rightarrow> register \<Rightarrow> register
    \<Rightarrow> register \<Rightarrow> register \<Rightarrow> register \<times> register \<times> register \<times> register \<times> register" where
  "tuneAccToChan C s rftxctrl tcpgdelay fspllcfg fsplltune txpower =
     (let channel = channel (operationMode s) in
      if channel = Some (CHANNEL_1 C) then
        (writeValue rftxctrl (RF_TXCTRL_1 C), writeValue tcpgdelay (TC_PGDELAY_1 C),
         writeValue fspllcfg (FS_PLLCFG_1 C), writeValue fsplltune (FS_PLLTUNE_1 C),
         txpower_for C s txpower (TX_POWER_12_16MHZ C) (TX_POWER_12_64MHZ C))
      else if channel = Some (CHANNEL_2 C) then
        (writeValue rftxctrl (RF_TXCTRL_2 C), writeValue tcpgdelay (TC_PGDELAY_2 C),
         writeValue fspllcfg (FS_PLLCFG_24 C), writeValue fsplltune (FS_PLLTUNE_24 C),
         txpower_for C s txpower (TX_POWER_12_16MHZ C) (TX_POWER_12_64MHZ C))
      else if channel = Some (CHANNEL_3 C) then
        (writeValue rftxctrl (RF_TXCTRL_3 C), writeValue tcpgdelay (TC_PGDELAY_3 C),
         writeValue fspllcfg (FS_PLLCFG_3 C), writeValue fsplltune (FS_PLLTUNE_3 C),
         txpower_for C s txpower (TX_POWER_3_16MHZ C) (TX_POWER_3_64MHZ C))
      else if channel = Some (CHANNEL_4 C) then
        (writeValue rftxctrl (RF_TXCTRL_4 C), writeValue tcpgdelay (TC_PGDELAY_4 C),
         writeValue fspllcfg (FS_PLLCFG_24 C), writeValue fsplltune (FS_PLLTUNE_24 C),
         txpower_for C s txpower (TX_POWER_4_16MHZ C) (TX_POWER_4_64MHZ C))
      else if channel = Some (CHANNEL_5 C) then
        (writeValue rftxctrl (RF_TXCTRL_5 C), writeValue tcpgdelay (TC_PGDELAY_5 C),
         writeValue fspllcfg (FS_PLLCFG_57 C), writeValue fsplltune (FS_PLLTUNE_57 C),
         txpower_for C s txpower (TX_POWER_5_16MHZ C) (TX_POWER_5_64MHZ C))
      else if channel = Some (CHANNEL_7 C) then
        (writeValue rftxctrl (RF_TXCTRL_7 C), writeValue tcpgdelay (TC_PGDELAY_7 C),
         writeValue fspllcfg (FS_PLLCFG_57 C), writeValue fsplltune (FS_PLLTUNE_57 C),
         txpower_for C s txpower (TX_POWER_7_16MHZ C) (TX_POWER_7_64MHZ C))
      else (rftxctrl, tcpgdelay, fspllcfg, fsplltune, txpower))"

text \<open>The two-way choice on the data rate that each branch of \<open>tunelderepc\<close> makes.\<close>

definition lderepc_for :: "tune_constants \<Rightarrow> dw1000 \<Rightarrow> register \<Rightarrow> int \<Rightarrow> register" where
  "lderepc_for C s lderepc repc =
     (if dataRate (operationMode s) = Some (TRX_RATE_110KBPS C) then
        writeValue lderepc (drop_bit 3 repc AND MASK_LS_2BYTES C)
      else writeValue lderepc repc)"

definition tunelderepc :: "tune_constants \<Rightarrow> dw1000 \<Rightarrow> register \<Rightarrow> register" where
  "tunelderepc C s lderepc =
     (let preacode = preacode (operationMode s) in
      if preacode = Some (PREAMBLE_CODE_16MHZ_1 C) \<or> preacode = Some (PREAMBLE_CODE_16MHZ_2 C) then
        lderepc_for C s lderepc (LDE_REPC_1AND2 C)
      else if preacode = Some (PREAMBLE_CODE_16MHZ_3 C) \<or> preacode = Some (PREAMBLE_CODE_16MHZ_8 C) then
        lderepc_for C s lderepc (LDE_REPC_3AND8 C)
      else if preacode = Some (PREAMBLE_CODE_16MHZ_4 C) then
        lderepc_for C s lderepc (LDE_REPC_4 C)
      else if preacode = Some (PREAMBLE_CODE_16MHZ_5 C) then
        lderepc_for C s lderepc (LDE_REPC_5 C)
      else if preacode = Some (PREAMBLE_CODE_16MHZ_6 C) then
        lderepc_for C s lderepc (LDE_REPC_6 C)
      else if preacode = Some (PREAMBLE_CODE_16MHZ_7 C) then
        lderepc_for C s lderepc (LDE_REPC_7 C)
      else if preacode = Some (PREAMBLE_CODE_64MHZ_9 C) then
        lderepc_for C s lderepc (LDE_REPC_9 C)
      else if preacode = Some (PREAMBLE_CODE_64MHZ_10 C) \<or> preacode = Some (PREAMBLE_CODE_64MHZ_17 C) then
        lderepc_for C s lderepc (LDE_REPC_1017 C)
      else if preacode = Some (PREAMBLE_CODE_64MHZ_11 C) then
        lderepc_for C s lderepc (LDE_REPC_111321 C)
      else if preacode = Some (PREAMBLE_CODE_64MHZ_12 C) then
        lderepc_for C s lderepc (LDE_REPC_12 C)
      else if preacode = Some (PREAMBLE_CODE_64MHZ_18 C) \<or> preacode = Some (PREAMBLE_CODE_64MHZ_19 C) then
        lderepc_for C s lderepc (LDE_REPC_14161819 C)
      else if preacode = Some (PREAMBLE_CODE_64MHZ_20 C) then
        lderepc_for C s lderepc (LDE_REPC_20 C)
      else lderepc)"

text \<open>\<open>bytearray([v])\<close> raises ValueError unless \<open>v\<close> is in \<open>range(0, 256)\<close>.\<close>

definition bytearray_of :: "int list \<Rightarrow> error + int list" where
  "bytearray_of vs = (if list_all is_byte vs then Inr vs else Inl ValueError)"

definition readBytesOTP :: "tune_constants \<Rightarrow> int \<Rightarrow> int option list \<Rightarrow> dw1000
    \<Rightarrow> error + (int option list \<times> dw1000)" where
  "readBytesOTP C addr buf s =
     (let addressBytes = bytearray 2 in
      seq (bytearray_set addressBytes 0 (addr AND MASK_LS_BYTE C)) (\<lambda>addressBytes.
      seq (bytearray_set addressBytes 1 (drop_bit 8 addr AND MASK_LS_BYTE C)) (\<lambda>addressBytes.
      seq (writeBytes C (OTP_IF C) (OTP_ADDR_SUB C) (map Some addressBytes) 2 s) (\<lambda>s.
      seq (bytearray_of [OTP_STEP2 C]) (\<lambda>step2.
      seq (writeBytes C (OTP_IF C) (OTP_CTRL_SUB C) (map Some step2) 1 s) (\<lambda>s.
      seq (bytearray_of [OTP_STEP3 C]) (\<lambda>step3.
      seq (writeBytes C (OTP_IF C) (OTP_CTRL_SUB C) (map Some step3) 1 s) (\<lambda>s.
      seq (readBytes C (OTP_IF C) (OTP_RDAT_SUB C) buf 4 s) (\<lambda>(buf, s).
      seq (bytearray_of [OTP_STEP5 C]) (\<lambda>step5.
      seq (writeBytes C (OTP_IF C) (OTP_CTRL_SUB C) (map Some step5) 1 s) (\<lambda>s.
      Inr (buf, s))))))))))))"

text \<open>The first part of \<open>tune\<close>, up to \<open>self.tunelderepc(lderepc)\<close>: the seventeen
  registers that are filled from the operation mode, in the order in which \<open>tune\<close> writes
  them to the chip at its end.  (\<open>agctune2\<close> is written twice and \<open>agctune3\<close> never, as
  in the source.)\<close>

definition tune_registers :: "tune_constants \<Rightarrow> dw1000 \<Rightarrow> error + register list" where
  "tune_registers C s =
     (let agctune1 = DW1000Register (AGC_CTRL C) (AGC_TUNE1_SUB C) 2;
          agctune2 = DW1000Register (AGC_CTRL C) (AGC_TUNE2_SUB C) 4;
          agctune3 = DW1000Register (AGC_CTRL C) (AGC_TUNE3_SUB C) 2;
          drxtune0b = DW1000Register (DRX_CONF C) (DRX_TUNE0b_SUB C) 2;
          drxtune1a = DW1000Register (DRX_CONF C) (DRX_TUNE1a_SUB C) 2;
          drxtune1b = DW1000Register (DRX_CONF C) (DRX_TUNE1b_SUB C) 2;
          drxtune2 = DW1000Register (DRX_CONF C) (DRX_TUNE2_SUB C) 4;
          drxtune4H = DW1000Register (DRX_CONF C) (DRX_TUNE4H_SUB C) 2;
          rfrxctrlh = DW1000Register (RF_CONF C) (RF_RXCTRLH_SUB C) 1;
          rftxctrl = DW1000Register (RF_CONF C) (RF_TXCTRL_SUB C) 4;
          tcpgdelay = DW1000Register (TX_CAL C) (TC_PGDELAY_SUB C) 1;
          fspllcfg = DW1000Register (FS_CTRL C) (FS_PLLCFG_SUB C) 4;
          fsplltune = DW1000Register (FS_CTRL C) (FS_PLLTUNE_SUB C) 1;
          ldecfg1 = DW1000Register (LDE_CTRL C) (LDE_CFG1_SUB C) 1;
          ldecfg2 = DW1000Register (LDE_CTRL C) (LDE_CFG2_SUB C) 2;
          lderepc = DW1000Register (LDE_CTRL C) (LDE_REPC_SUB C) 2;
          txpower = DW1000Register (TX_POWER C) (NO_SUB C) 4;
          preambleLength = preambleLength (operationMode s);
          channel = channel (operationMode s);
          agctune1 = tuneAgcTune1 C s agctune1;
          agctune2 = writeValue agctune2 (AGC_TUNE2_OP C);
          agctune2 = writeValue agctune2 (AGC_TUNE3_OP C);
          drxtune0b = tuneDrxTune0b C s drxtune0b;
          (drxtune1a, ldecfg2) = tuneDrxTune1aAndldecfg2 C s drxtune1a ldecfg2
      in seq (tuneDrxtune1b C s drxtune1b) (\<lambda>drxtune1b.
         let drxtune2 = tuneDrxTune2 C s drxtune2;
             drxtune4H = (if preambleLength = Some (TX_PREAMBLE_LEN_64 C)
                          then writeValue drxtune4H (DRX_TUNE4H_64 C)
                          else writeValue drxtune4H (DRX_TUNE4H_128 C));
             rfrxctrlh = (if channel \<noteq> Some (CHANNEL_4 C) \<and> channel \<noteq> Some (CHANNEL_7 C)
                          then writeValue rfrxctrlh (RF_RXCTRLH_1235 C)
                          else writeValue rfrxctrlh (RF_RXCTRLH_147 C));
             (rftxctrl, tcpgdelay, fspllcfg, fsplltune, txpower) =
               tuneAccToChan C s rftxctrl tcpgdelay fspllcfg fsplltune txpower;
             ldecfg1 = writeValue ldecfg1 (LDE_CFG1_OP C);
             lderepc = tunelderepc C s lderepc
         in Inr [agctune1, agctune2, agctune3, drxtune0b, drxtune1a, drxtune1b, drxtune2,
                 drxtune4H, ldecfg1, ldecfg2, lderepc, txpower, rfrxctrlh, rftxctrl,
                 tcpgdelay, fsplltune, fspllcfg]))"

text \<open>The crystal-trim register: \<open>buf_otp[0] == 0\<close> selects the default, any other
  integer is used itself; \<open>None & C.TUNE_MASK1\<close> would raise TypeError.\<close>

definition tune_fsxtalt :: "tune_constants \<Rightarrow> int option list \<Rightarrow> error + register" where
  "tune_fsxtalt C buf_otp =
     (let fsxtalt = DW1000Register (FS_CTRL C) (FS_XTALT_SUB C) 1 in
      if length buf_otp = 0 then Inl IndexError
      else if buf_otp ! 0 = Some 0 then
        Inr (writeValue fsxtalt ((TUNE_OPERATION C AND TUNE_MASK1 C) OR TUNE_MASK2 C))
      else
        (case buf_otp ! 0 of
           None \<Rightarrow> Inl TypeError
         | Some b \<Rightarrow> Inr (writeValue fsxtalt ((b AND TUNE_MASK1 C) OR TUNE_MASK2 C))))"

text \<open>The eighteen calls of \<open>writeRegister\<close> that end \<open>tune\<close>.\<close>

fun writeRegisters :: "tune_constants \<Rightarrow> register list \<Rightarrow> dw1000 \<Rightarrow> error + dw1000" where
  "writeRegisters C [] s = Inr s"
| "writeRegisters C (reg # regs) s = seq (writeRegister C reg s) (writeRegisters C regs)"

definition tune :: "tune_constants \<Rightarrow> dw1000 \<Rightarrow> error + dw1000" where
  "tune C s =
     seq (tune_registers C s) (\<lambda>regs.
     let buf_otp = replicate 4 None in
     seq (readBytesOTP C (OTP_XTAL_ADDRESS C) buf_otp s) (\<lambda>(buf_otp, s).
     seq (tune_fsxtalt C buf_otp) (\<lambda>fsxtalt.
     writeRegisters C (regs @ [fsxtalt]) s)))"


section \<open>Describing the traffic of tune\<close>

text \<open>The events of \<open>writeRegister\<close> for a register whose header can be built and whose
  buffer has the register's size.\<close>

definition writable :: "'a transport_constants_scheme \<Rightarrow> register \<Rightarrow> bool" where
  "writable C r =
     (\<not> isl (writeHeader C (address r) (subaddress r)) \<and> length (data r) = size_reg r)"

definition register_events :: "'a transport_constants_scheme \<Rightarrow> register \<Rightarrow> event list" where
  "register_events C r =
     CS_LOW # map XFER (projr (writeHeader C (address r) (subaddress r))) @
     map XFER (data r) @ [CS_HIGH]"

text \<open>The constants of the OTP read are well formed: the address bytes and the three
  control steps are bytes and the three headers can be built.\<close>

definition otp_constants_ok :: "tune_constants \<Rightarrow> bool" where
  "otp_constants_ok C =
     (is_byte (OTP_XTAL_ADDRESS C AND MASK_LS_BYTE C) \<and>
      is_byte (drop_bit 8 (OTP_XTAL_ADDRESS C) AND MASK_LS_BYTE C) \<and>
      is_byte (OTP_STEP2 C) \<and> is_byte (OTP_STEP3 C) \<and> is_byte (OTP_STEP5 C) \<and>
      \<not> isl (writeHeader C (OTP_IF C) (OTP_ADDR_SUB C)) \<and>
      \<not> isl (writeHeader C (OTP_IF C) (OTP_CTRL_SUB C)) \<and>
      \<not> isl (readHeader C (OTP_IF C) (OTP_RDAT_SUB C)))"

text \<open>The events of \<open>readBytesOTP(C.OTP_XTAL_ADDRESS, ...)\<close> up to the header of the read,
  the four bytes the device then answers when the call starts after the events \<open>t\<close>, and
  all the events of the call.\<close>

definition otp_prefix :: "tune_constants \<Rightarrow> event list" where
  "otp_prefix C =
     CS_LOW # map XFER (projr (writeHeader C (OTP_IF C) (OTP_ADDR_SUB C))) @
       [XFER (OTP_XTAL_ADDRESS C AND MASK_LS_BYTE C),
        XFER (drop_bit 8 (OTP_XTAL_ADDRESS C) AND MASK_LS_BYTE C), CS_HIGH] @
     CS_LOW # map XFER (projr (writeHeader C (OTP_IF C) (OTP_CTRL_SUB C))) @
       [XFER (OTP_STEP2 C), CS_HIGH] @
     CS_LOW # map XFER (projr (writeHeader C (OTP_IF C) (OTP_CTRL_SUB C))) @
       [XFER (OTP_STEP3 C), CS_HIGH] @
     CS_LOW # map XFER (projr (readHeader C (OTP_IF C) (OTP_RDAT_SUB C)))"

definition otp_bytes :: "tune_constants \<Rightarrow> (event list \<Rightarrow> 8 word) \<Rightarrow> event list \<Rightarrow> int list" where
  "otp_bytes C dev t = answers C dev 4 (t @ otp_prefix C)"

definition otp_events :: "tune_constants \<Rightarrow> event list" where
  "otp_events C =
     otp_prefix C @ replicate 4 (XFER (JUNK C)) @ [CS_HIGH] @
     CS_LOW # map XFER (projr (writeHeader C (OTP_IF C) (OTP_CTRL_SUB C))) @
       [XFER (OTP_STEP5 C), CS_HIGH]"

text \<open>The constants of \<open>tune\<close> are well formed: those of the OTP read are, and the header
  of each of the eighteen tuning registers can be built.\<close>

definition tune_constants_ok :: "tune_constants \<Rightarrow> bool" where
  "tune_constants_ok C =
     (otp_constants_ok C \<and>
      list_all (\<lambda>(a, sub). \<not> isl (writeHeader C a sub))
        [(AGC_CTRL C, AGC_TUNE1_SUB C), (AGC_CTRL C, AGC_TUNE2_SUB C),
         (AGC_CTRL C, AGC_TUNE3_SUB C), (DRX_CONF C, DRX_TUNE0b_SUB C),
         (DRX_CONF C, DRX_TUNE1a_SUB C), (DRX_CONF C, DRX_TUNE1b_SUB C),
         (DRX_CONF C, DRX_TUNE2_SUB C), (DRX_CONF C, DRX_TUNE4H_SUB C),
         (RF_CONF C, RF_RXCTRLH_SUB C), (RF_CONF C, RF_TXCTRL_SUB C),
         (TX_CAL C, TC_PGDELAY_SUB C), (FS_CTRL C, FS_PLLCFG_SUB C),
         (FS_CTRL C, FS_PLLTUNE_SUB C), (LDE_CTRL C, LDE_CFG1_SUB C),
         (LDE_CTRL C, LDE_CFG2_SUB C), (LDE_CTRL C, LDE_REPC_SUB C),
         (TX_POWER C, NO_SUB C), (FS_CTRL C, FS_XTALT_SUB C)])"

text \<open>The crystal-trim value for a byte \<open>b\<close> stored in OTP memory, in the words of the
  specification: the nominal default when the stored byte is exactly zero, the stored byte
  otherwise, masked and OR-ed with the fixed mask.\<close>

definition crystal_trim :: "tune_constants \<Rightarrow> int \<Rightarrow> int" where
  "crystal_trim C b = ((if b = 0 then TUNE_OPERATION C else b) AND TUNE_MASK1 C) OR TUNE_MASK2 C"

text \<open>The outcome of \<open>tune\<close> seen from the bus: the exception it raises, or the events it
  adds.\<close>

definition committed :: "tune_constants \<Rightarrow> dw1000 \<Rightarrow> error + event list" where
  "committed C s = map_sum id (\<lambda>s'. drop (length (trace s)) (trace s')) (tune C s)"


section \<open>Receive power and timestamp correction\<close>

text \<open>The arithmetic of \<open>getReceivePower\<close>, from the choice of \<open>A\<close> and \<open>corrFac\<close> to
  the return, for the two integers \<open>cir\<close> and \<open>N\<close> assembled from the registers.  Floats
  are reals here; \<open>float(N) * float(N)\<close> is zero exactly when \<open>N\<close> is, and dividing by
  it raises ZeroDivisionError.\<close>

definition estimate_rx_power :: "'a ranging_constants_scheme \<Rightarrow> dw1000 \<Rightarrow> int \<Rightarrow> int
    \<Rightarrow> error + real" where
  "estimate_rx_power C s cir N =
     (let (A, corrFac) =
            (if pulseFrequency (operationMode s) = Some (TX_PULSE_FREQ_16MHZ C)
             then (A_16MHZ C, CORRFAC_16MHZ C)
             else (A_64MHZ C, CORRFAC_64MHZ C));
          estRXPower = 0
      in if real_of_int N * real_of_int N = 0 then Inl ZeroDivisionError
         else
           (let arg = (real_of_int cir * real_of_int (TWOPOWER17 C))
                        / (real_of_int N * real_of_int N);
                estRXPower = (if arg > 0 then PWR_COEFF2 C * log 10 arg - A else estRXPower)
            in if estRXPower \<le> - PWR_COEFF C then Inr estRXPower
               else Inr (estRXPower + (estRXPower + PWR_COEFF C) * corrFac)))"

definition getReceivePower :: "'a ranging_constants_scheme \<Rightarrow> dw1000 \<Rightarrow> error + (real \<times> dw1000)" where
  "getReceivePower C s =
     (let cirPwrBytes = DW1000Register (RX_FQUAL C) (CIR_PWR_SUB C) 2;
          rxFrameInfo = DW1000Register (RX_FINFO C) (NO_SUB C) 4 in
      seq (readRegister C cirPwrBytes s) (\<lambda>(cirPwrBytes, s).
      seq (readRegister C rxFrameInfo s) (\<lambda>(rxFrameInfo, s).
      seq (getitem cirPwrBytes 0) (\<lambda>c0.
      seq (getitem cirPwrBytes 1) (\<lambda>c1.
      let cir = c0 OR push_bit 8 c1 in
      seq (getitem rxFrameInfo 2) (\<lambda>f2.
      seq (getitem rxFrameInfo 3) (\<lambda>f3.
      let N = (drop_bit 4 f2 AND MASK_LS_BYTE C) OR push_bit 4 f3 in
      seq (estimate_rx_power C s cir N) (\<lambda>estRXPower.
      Inr (estRXPower, s)))))))))"

text \<open>The bracket of \<open>correctTimestamp\<close>: \<open>rxPowerBaseLow\<close> and \<open>rxPowerBaseHigh\<close>
  after the clamping.\<close>

definition bracket :: "real \<Rightarrow> int \<times> int" where
  "bracket rxPowerBase =
     (let rxPowerBaseLow = \<lfloor>rxPowerBase\<rfloor>;
          rxPowerBaseHigh = rxPowerBaseLow + 1
      in if rxPowerBaseLow < 0 then (0, 0)
         else if rxPowerBaseHigh > 17 then (17, 17)
         else (rxPowerBaseLow, rxPowerBaseHigh))"

text \<open>\<open>table[index]\<close> on a tuple or list of the constants module.  Python accepts an
  index from \<open>-len(table)\<close> to \<open>len(table) - 1\<close>, the negative ones addressing the
  table from its end, and raises IndexError for any other.\<close>

definition list_get :: "'a list \<Rightarrow> int \<Rightarrow> error + 'a" where
  "list_get table index =
     (if index < - int (length table) \<or> int (length table) \<le> index then Inl IndexError
      else if index < 0 then Inr (table ! nat (int (length table) + index))
      else Inr (table ! nat index))"

text \<open>One table look-up of \<open>correctTimestamp\<close>: the entry is negated below the table's
  zero marker and then shifted left by one.\<close>

definition signed_bias :: "int list \<Rightarrow> int \<Rightarrow> int \<Rightarrow> error + int" where
  "signed_bias table zero i =
     seq (list_get table i) (\<lambda>v. Inr (push_bit 1 (if i < zero then - v else v)))"

text \<open>The value of \<open>rangeBias\<close> in \<open>correctTimestamp\<close> for a bracket index
  \<open>rxPowerBase\<close>.  With a pulse frequency that is neither 16 nor 64 MHz no branch assigns
  \<open>rangeBiasLow\<close>, and reading it raises UnboundLocalError.\<close>

definition rangeBias :: "'a ranging_constants_scheme \<Rightarrow> dw1000 \<Rightarrow> real \<Rightarrow> error + real" where
  "rangeBias C s rxPowerBase =
     (let (rxPowerBaseLow, rxPowerBaseHigh) = bracket rxPowerBase;
          channel = channel (operationMode s);
          pulseFrequency = pulseFrequency (operationMode s);
          interpolate = (\<lambda>table zero.
            seq (signed_bias table zero rxPowerBaseHigh) (\<lambda>rangeBiasHigh.
            seq (signed_bias table zero rxPowerBaseLow) (\<lambda>rangeBiasLow.
            Inr (real_of_int rangeBiasLow +
                 (rxPowerBase - real_of_int rxPowerBaseLow)
                   * real_of_int (rangeBiasHigh - rangeBiasLow)))))
      in if channel = Some (CHANNEL_4 C) \<or> channel = Some (CHANNEL_7 C) then
           (if pulseFrequency = Some (TX_PULSE_FREQ_16MHZ C) then
              interpolate (BIAS_900_16 C) (BIAS_900_16_ZERO C)
            else if pulseFrequency = Some (TX_PULSE_FREQ_64MHZ C) then
              interpolate (BIAS_900_64 C) (BIAS_900_64_ZERO C)
            else Inl UnboundLocalError)
         else
           (if pulseFrequency = Some (TX_PULSE_FREQ_16MHZ C) then
              interpolate (BIAS_500_16 C) (BIAS_500_16_ZERO C)
            else if pulseFrequency = Some (TX_PULSE_FREQ_64MHZ C) then
              interpolate (BIAS_500_64 C) (BIAS_500_64_ZERO C)
            else Inl UnboundLocalError))"

definition correctTimestamp :: "'a ranging_constants_scheme \<Rightarrow> dw1000 \<Rightarrow> int
    \<Rightarrow> error + (real \<times> dw1000)" where
  "correctTimestamp C s timestamp =
     seq (getReceivePower C s) (\<lambda>(power, s).
     let rxPowerBase = - (power + 61.0) * 0.5 in
     seq (rangeBias C s rxPowerBase) (\<lambda>rangeBias.
     let adjustmentTimeTS = rangeBias * DISTANCE_OF_RADIO_INV C * ADJUSTMENT_TIME_FACTOR C in
     Inr (real_of_int timestamp + adjustmentTimeTS, s)))"

text \<open>The bias table and zero marker that \<open>correctTimestamp\<close> selects for an operation
  mode whose pulse frequency is 16 or 64 MHz.\<close>

definition bias_table :: "'a ranging_constants_scheme \<Rightarrow> dw1000 \<Rightarrow> int list \<times> int" where
  "bias_table C s =
     (if channel (operationMode s) = Some (CHANNEL_4 C) \<or>
         channel (operationMode s) = Some (CHANNEL_7 C) then
        (if pulseFrequency (operationMode s) = Some (TX_PULSE_FREQ_16MHZ C)
         then (BIAS_900_16 C, BIAS_900_16_ZERO C) else (BIAS_900_64 C, BIAS_900_64_ZERO C))
      else
        (if pulseFrequency (operationMode s) = Some (TX_PULSE_FREQ_16MHZ C)
         then (BIAS_500_16 C, BIAS_500_16_ZERO C) else (BIAS_500_64 C, BIAS_500_64_ZERO C)))"


section \<open>Transmission\<close>

definition clearTransmitStatus :: "'a transport_constants_scheme \<Rightarrow> dw1000 \<Rightarrow> error + dw1000" where
  "clearTransmitStatus C s =
     clearStatus C [TXFRB_BIT C, TXPRS_BIT C, TXPHS_BIT C, TXFRS_BIT C] s"

definition newTransmit :: "'a transport_constants_scheme \<Rightarrow> dw1000 \<Rightarrow> error + dw1000" where
  "newTransmit C s =
     seq (idle C s) (\<lambda>s.
     let s = s\<lparr>sysctrl := clear (sysctrl s)\<rparr> in
     clearTransmitStatus C s)"

definition startTransmit :: "'a transport_constants_scheme \<Rightarrow> bool \<Rightarrow> dw1000 \<Rightarrow> error + dw1000" where
  "startTransmit C wait4resp s =
     seq (writeRegister C (txfctrl s) s) (\<lambda>s.
     seq (setBit (sysctrl s) (WAIT4RESP_BIT C) wait4resp) (\<lambda>r. let s = s\<lparr>sysctrl := r\<rparr> in
     seq (setBit (sysctrl s) (TXSTRT_BIT C) True) (\<lambda>r. let s = s\<lparr>sysctrl := r\<rparr> in
     writeRegister C (sysctrl s) s)))"

text \<open>\<open>setData\<close> writes the message to the transmit buffer, reads it back into the same
  bytearray and records the frame length, two CRC bytes included, in \<open>txfctrl\<close>.\<close>

definition setData :: "'a transport_constants_scheme \<Rightarrow> int list \<Rightarrow> nat \<Rightarrow> dw1000 \<Rightarrow> error + dw1000" where
  "setData C msg dataLength s =
     seq (writeBytes C (TX_BUFFER C) (NO_SUB C) (map Some msg) dataLength s) (\<lambda>s.
     seq (readBytes C (TX_BUFFER C) (NO_SUB C) (map Some msg) dataLength s) (\<lambda>(msg, s).
     let dataLength = int dataLength + 2 in
     seq (setitem (txfctrl s) 0 (dataLength AND MASK_LS_BYTE C)) (\<lambda>r. let s = s\<lparr>txfctrl := r\<rparr> in
     seq (getitem (txfctrl s) 1) (\<lambda>b.
     seq (setitem (txfctrl s) 1 (b AND SET_DATA_MASK1 C)) (\<lambda>r. let s = s\<lparr>txfctrl := r\<rparr> in
     seq (getitem (txfctrl s) 1) (\<lambda>b.
     seq (setitem (txfctrl s) 1 (b OR (drop_bit 8 dataLength AND SET_DATA_MASK2 C))) (\<lambda>r.
     Inr (s\<lparr>txfctrl := r\<rparr>))))))))"

text \<open>\<open>str.lower\<close> on ASCII letters, \<open>int(x)\<close> on a float (truncation towards zero) and
  the two five-byte loops of \<open>setDelay\<close>.\<close>

definition lower :: "string \<Rightarrow> string" where
  "lower str = map (\<lambda>c. let n = (of_char c :: nat) in
                          if 65 \<le> n \<and> n \<le> 90 then char_of (n + 32) else c) str"

definition int_of_float :: "real \<Rightarrow> int" where
  "int_of_float x = (if 0 \<le> x then \<lfloor>x\<rfloor> else \<lceil>x\<rceil>)"

fun assemble :: "register \<Rightarrow> nat list \<Rightarrow> int \<Rightarrow> error + int" where
  "assemble reg [] futureTimeTS = Inr futureTimeTS"
| "assemble reg (i # rest) futureTimeTS =
     seq (getitem reg i) (\<lambda>b. assemble reg rest (futureTimeTS OR push_bit (i * 8) b))"

fun scatter :: "'a transport_constants_scheme \<Rightarrow> register \<Rightarrow> nat list \<Rightarrow> int \<Rightarrow> error + register" where
  "scatter C reg [] futureTimeTS = Inr reg"
| "scatter C reg (i # rest) futureTimeTS =
     seq (setitem reg i (drop_bit (i * 8) futureTimeTS AND MASK_LS_BYTE C))
       (\<lambda>reg. scatter C reg rest futureTimeTS)"

definition setDelay :: "'a transport_constants_scheme \<Rightarrow> real \<Rightarrow> real \<Rightarrow> string \<Rightarrow> dw1000
    \<Rightarrow> error + (int \<times> dw1000)" where
  "setDelay C delay unit mode s =
     seq (if lower mode = ''tx'' then
            seq (setBit (sysctrl s) (TXDLYS_BIT C) True) (\<lambda>r. Inr (s\<lparr>sysctrl := r\<rparr>))
          else if lower mode = ''rx'' then
            seq (setBit (sysctrl s) (RXDLYE_BIT C) True) (\<lambda>r. Inr (s\<lparr>sysctrl := r\<rparr>))
          else Inr s) (\<lambda>s.
     let delayReg = DW1000Register (DX_TIME C) (NO_SUB C) 5;
         sysTimeReg = DW1000Register (SYS_TIME C) (NO_SUB C) 5 in
     seq (readRegister C sysTimeReg s) (\<lambda>(sysTimeReg, s).
     seq (assemble sysTimeReg [0..<5] 0) (\<lambda>futureTimeTS.
     let futureTimeTS = futureTimeTS + int_of_float (delay * unit * TIME_RES_INV C);
         delayReg = clear delayReg in
     seq (scatter C delayReg [0..<5] futureTimeTS) (\<lambda>delayReg.
     seq (setitem delayReg 0 0) (\<lambda>delayReg.
     seq (getitem delayReg 1) (\<lambda>b.
     seq (setitem delayReg 1 (b AND SET_DELAY_MASK C)) (\<lambda>delayReg.
     seq (writeRegister C delayReg s) (\<lambda>s.
     seq (assemble delayReg [0..<5] 0) (\<lambda>futureTimeTS.
     Inr (futureTimeTS + ANTENNA_DELAY C, s))))))))))"

text \<open>Modelled from the spec: the module \<open>MAC\<close> is not part of \<open>DW1000.py\<close>, and the
  specification treats the link-layer header as an opaque codec.  A header is the record
  of the fields that \<open>sendMessage\<close> assigns; the three constants and the method
  \<open>encode\<close> are parameters.\<close>

record frame_control =
  frameType :: int
  secEnable :: int
  framePending :: int
  ackRequest :: bool
  panCompression :: int
  destAddrMode :: int
  frameVersion :: int
  srcAddrMode :: int

record mac_header =
  frameControl :: frame_control
  seqNumber :: int
  destPAN :: int
  destAddr :: int
  srcAddr :: "int list"

record mac_module =
  FT_DATA :: int
  AD_SAD :: int
  IEEE802_15_4_2003 :: int
  encode :: "mac_header \<Rightarrow> error + int list"

text \<open>The header that \<open>sendMessage\<close> fills before it encodes it.\<close>

definition sendMessage_header :: "mac_module \<Rightarrow> dw1000 \<Rightarrow> int \<Rightarrow> int \<Rightarrow> bool \<Rightarrow> mac_header" where
  "sendMessage_header M s dstAddr dstPAN ackReq =
     (let srcAddr = take 2 (data (panadr s)) in
      \<lparr>frameControl =
         \<lparr>frameType = FT_DATA M, secEnable = 0, framePending = 0, ackRequest = ackReq,
          panCompression = 1, destAddrMode = AD_SAD M, frameVersion = IEEE802_15_4_2003 M,
          srcAddrMode = AD_SAD M\<rparr>,
       seqNumber = seqNum s, destPAN = dstPAN, destAddr = dstAddr, srcAddr = srcAddr\<rparr>)"

definition sendMessage :: "mac_module \<Rightarrow> 'a transport_constants_scheme \<Rightarrow> int \<Rightarrow> int \<Rightarrow> int list
    \<Rightarrow> bool \<Rightarrow> bool \<Rightarrow> real option \<Rightarrow> dw1000 \<Rightarrow> error + dw1000" where
  "sendMessage M C dstAddr dstPAN payload ackReq wait4resp delay s =
     (let header = sendMessage_header M s dstAddr dstPAN ackReq in
      seq (encode M header) (\<lambda>headerEnc.
      seq (bytearray_of (headerEnc @ payload)) (\<lambda>message.
      seq (newTransmit C s) (\<lambda>s.
      seq (setData C message (length message) s) (\<lambda>s.
      seq (case delay of
             None \<Rightarrow> Inr s
           | Some d \<Rightarrow>
               if d \<noteq> 0 then seq (setDelay C d (MICROSECONDS C) ''tx'' s) (\<lambda>(t, s). Inr s)
               else Inr s) (\<lambda>s.
      seq (startTransmit C wait4resp s) (\<lambda>s.
      Inr (s\<lparr>seqNum := (seqNum s + 1) mod 256\<rparr>))))))))"

section \<open>Sequences of operations\<close>

text \<open>The methods of the model that change a \<open>DW1000\<close> object, as commands, and the
  execution of a list of commands, which stops at the first exception.\<close>

datatype operation =
    ToggleHSRBP
  | SyncHSRBP
  | ForceTRxOff
  | Tune
  | GetReceivePower
  | CorrectTimestamp int
  | SendMessage int int "int list" bool bool "real option"

fun perform :: "mac_module \<Rightarrow> tune_constants \<Rightarrow> operation \<Rightarrow> dw1000 \<Rightarrow> error + dw1000" where
  "perform M C ToggleHSRBP s = toggleHSRBP C s"
| "perform M C SyncHSRBP s = syncHSRBP C s"
| "perform M C ForceTRxOff s = forceTRxOff C s"
| "perform M C Tune s = tune C s"
| "perform M C GetReceivePower s = seq (getReceivePower C s) (\<lambda>(power, s). Inr s)"
| "perform M C (CorrectTimestamp timestamp) s =
     seq (correctTimestamp C s timestamp) (\<lambda>(corrected, s). Inr s)"
| "perform M C (SendMessage dstAddr dstPAN payload ackReq wait4resp delay) s =
     sendMessage M C dstAddr dstPAN payload ackReq wait4resp delay s"

fun run :: "mac_module \<Rightarrow> tune_constants \<Rightarrow> operation list \<Rightarrow> dw1000 \<Rightarrow> error + dw1000" where
  "run M C [] s = Inr s"
| "run M C (operation # operations) s = seq (perform M C operation s) (run M C operations)"

text \<open>The state \<open>s'\<close> comes from \<open>s\<close> by bus traffic and changes of the cached
  registers only.\<close>

definition extends :: "dw1000 \<Rightarrow> dw1000 \<Rightarrow> bool" where
  "extends s s' =
     (seqNum s' = seqNum s \<and> operationMode s' = operationMode s \<and> spi s' = spi s \<and>
      dblbuffon s' = dblbuffon s \<and> panadr s' = panadr s \<and>
      (\<exists>ev. trace s' = trace s @ ev))"


text \<open>The constants that \<open>sendMessage\<close> uses without a delay are well formed: the
  header byte of each transaction is a byte and each bit index lies inside its
  register.\<close>

definition transmit_constants_ok :: "'a transport_constants_scheme \<Rightarrow> bool" where
  "transmit_constants_ok C =
     (is_byte (WRITE C OR SYS_CTRL C) \<and> is_byte (WRITE C OR SYS_STATUS C) \<and>
      is_byte (WRITE C OR TX_BUFFER C) \<and> is_byte (READ C OR TX_BUFFER C) \<and>
      is_byte (WRITE C OR TX_FCTRL C) \<and>
      bit_index 4 (TRXOFF_BIT C) \<and> bit_index 4 (WAIT4RESP_BIT C) \<and>
      bit_index 4 (TXSTRT_BIT C) \<and>
      list_all (bit_index 5) [TXFRB_BIT C, TXPRS_BIT C, TXPHS_BIT C, TXFRS_BIT C])"


section \<open>A constants table for evaluation\<close>

text \<open>A constants table used where a theorem is evaluated at a concrete input: the
  register map, bit positions and tuning values of the DW1000 user manual, and the
  calibration factors of the manufacturer's reference driver.  The theorems themselves hold
  for every table that satisfies their hypotheses.\<close>

definition user_manual :: tune_constants where
  "user_manual = \<lparr>
     READ = 0x00, READ_SUB = 0x40, WRITE = 0x80, WRITE_SUB = 0xC0, RW_SUB_EXT = 0x80,
     MASK_LS_BYTE = 0xFF, NO_SUB = 0xFF, JUNK = 0x00,
     SYS_CTRL = 0x0D, SYS_MASK = 0x0E, SYS_STATUS = 0x0F, TX_FCTRL = 0x08, PANADR = 0x03,
     TX_BUFFER = 0x09, DX_TIME = 0x0A, SYS_TIME = 0x06,
     MRXFCE_BIT = 15, MRXFCG_BIT = 14, MRXDFR_BIT = 13, MLDEDONE_BIT = 10,
     HRBPT_BIT = 24, HSRBP_BIT = 30, ICRBP_BIT = 31, TRXOFF_BIT = 6, WAIT4RESP_BIT = 7,
     TXSTRT_BIT = 1, TXDLYS_BIT = 2, RXDLYE_BIT = 9,
     TXFRB_BIT = 4, TXPRS_BIT = 5, TXPHS_BIT = 6, TXFRS_BIT = 7,
     SYS_STATUS_ALL_TX = [3, 4, 5, 6, 7],
     SYS_STATUS_ALL_RX_ERR = [12, 15, 16, 26, 29, 18],
     SYS_STATUS_ALL_RX_TO = [17, 21],
     SYS_STATUS_ALL_RX_GOOD = [13, 14, 8, 9, 11, 10],
     SET_DATA_MASK1 = 0xE0, SET_DATA_MASK2 = 0x03, SET_DELAY_MASK = 0xFE,
     ANTENNA_DELAY = 16384, MICROSECONDS = 1, TIME_RES_INV = 63897.6,
     TIME_OVERFLOW = 1099511627776,
     RX_FQUAL = 0x12, CIR_PWR_SUB = 0x06, RX_FINFO = 0x10,
     A_16MHZ = 113.77, CORRFAC_16MHZ = 2.3334, A_64MHZ = 121.74, CORRFAC_64MHZ = 1.1667,
     PWR_COEFF = 88, PWR_COEFF2 = 10, TWOPOWER17 = 131072,
     BIAS_500_16 = [198, 187, 179, 163, 143, 127, 109, 84, 59, 31, 0, 36, 65, 84, 97, 106, 110, 112],
     BIAS_500_64 = [110, 105, 100, 93, 82, 69, 51, 27, 0, 21, 35, 42, 49, 62, 71, 76, 81, 86],
     BIAS_900_16 = [137, 122, 105, 88, 69, 47, 25, 0, 21, 48, 79, 105, 127, 147, 160, 169, 178, 197],
     BIAS_900_64 = [147, 133, 117, 99, 75, 50, 29, 0, 24, 45, 63, 76, 87, 98, 116, 122, 132, 142],
     BIAS_500_16_ZERO = 10, BIAS_500_64_ZERO = 8, BIAS_900_16_ZERO = 7, BIAS_900_64_ZERO = 7,
     DISTANCE_OF_RADIO_INV = 213.139451293, ADJUSTMENT_TIME_FACTOR = 0.001,
     TX_PULSE_FREQ_16MHZ = 0x01, TX_PULSE_FREQ_64MHZ = 0x02,
     CHANNEL_1 = 1, CHANNEL_2 = 2, CHANNEL_3 = 3, CHANNEL_4 = 4, CHANNEL_5 = 5, CHANNEL_7 = 7,
     AGC_CTRL = 0x23, AGC_TUNE1_SUB = 0x04, AGC_TUNE2_SUB = 0x0C, AGC_TUNE3_SUB = 0x12,
     DRX_CONF = 0x27, DRX_TUNE0b_SUB = 0x02, DRX_TUNE1a_SUB = 0x04, DRX_TUNE1b_SUB = 0x06,
     DRX_TUNE2_SUB = 0x08, DRX_TUNE4H_SUB = 0x26,
     RF_CONF = 0x28, RF_RXCTRLH_SUB = 0x0B, RF_TXCTRL_SUB = 0x0C,
     TX_CAL = 0x2A, TC_PGDELAY_SUB = 0x0B,
     FS_CTRL = 0x2B, FS_PLLCFG_SUB = 0x07, FS_PLLTUNE_SUB = 0x0B,
     LDE_CTRL = 0x2E, LDE_CFG1_SUB = 0x0806, LDE_CFG2_SUB = 0x1806, LDE_REPC_SUB = 0x2804,
     TX_POWER = 0x1E, FS_XTALT_SUB = 0x0E,
     OTP_IF = 0x2D, OTP_ADDR_SUB = 0x04, OTP_CTRL_SUB = 0x06, OTP_RDAT_SUB = 0x0A,
     OTP_STEP2 = 0x03, OTP_STEP3 = 0x01, OTP_STEP5 = 0x00, OTP_XTAL_ADDRESS = 0x01E,
     TUNE_OPERATION = 0x10, TUNE_MASK1 = 0x1F, TUNE_MASK2 = 0x60, MASK_LS_2BYTES = 0xFFFF,
     TRX_RATE_110KBPS = 0x00, TRX_RATE_850KBPS = 0x01, TRX_RATE_6800KBPS = 0x02,
     TX_PREAMBLE_LEN_64 = 0x01, TX_PREAMBLE_LEN_1536 = 0x06, TX_PREAMBLE_LEN_2048 = 0x0A,
     TX_PREAMBLE_LEN_4096 = 0x03,
     PAC_SIZE_8 = 8, PAC_SIZE_16 = 16, PAC_SIZE_32 = 32, PAC_SIZE_64 = 64,
     PREAMBLE_CODE_16MHZ_1 = 1, PREAMBLE_CODE_16MHZ_2 = 2, PREAMBLE_CODE_16MHZ_3 = 3,
     PREAMBLE_CODE_16MHZ_4 = 4, PREAMBLE_CODE_16MHZ_5 = 5, PREAMBLE_CODE_16MHZ_6 = 6,
     PREAMBLE_CODE_16MHZ_7 = 7, PREAMBLE_CODE_16MHZ_8 = 8,
     PREAMBLE_CODE_64MHZ_9 = 9, PREAMBLE_CODE_64MHZ_10 = 10, PREAMBLE_CODE_64MHZ_11 = 11,
     PREAMBLE_CODE_64MHZ_12 = 12, PREAMBLE_CODE_64MHZ_17 = 17, PREAMBLE_CODE_64MHZ_18 = 18,
     PREAMBLE_CODE_64MHZ_19 = 19, PREAMBLE_CODE_64MHZ_20 = 20,
     AGC_TUNE1_16MHZ_OP = 0x8870, AGC_TUNE1_DEFAULT_OP = 0x889B,
     AGC_TUNE2_OP = 0x2502A907, AGC_TUNE3_OP = 0x0035,
     DRX_TUNE0b_110KBPS_NOSTD_OP = 0x0016, DRX_TUNE0b_850KBPS_NOSTD_OP = 0x0006,
     DRX_TUNE0b_6800KBPS_STD_OP = 0x0001,
     DRX_TUNE1a_16MHZ_OP = 0x0087, DRX_TUNE1a_64MHZ_OP = 0x008D,
     LDE_CFG2_16MHZ_OP = 0x1607, LDE_CFG2_64MHZ_OP = 0x0607,
     DRX_TUNE1b_M1024 = 0x0064, DRX_TUNE1b_L1024 = 0x0020, DRX_TUNE1b_64 = 0x0010,
     DRX_TUNE2_8_16MHZ = 0x311A002D, DRX_TUNE2_8_64MHZ = 0x313B006B,
     DRX_TUNE2_16_16MHZ = 0x331A0052, DRX_TUNE2_16_64MHZ = 0x333B00BE,
     DRX_TUNE2_32_16MHZ = 0x351A009A, DRX_TUNE2_32_64MHZ = 0x353B015E,
     DRX_TUNE2_64_16MHZ = 0x371A011D, DRX_TUNE2_64_64MHZ = 0x373B0296,
     DRX_TUNE4H_64 = 0x0010, DRX_TUNE4H_128 = 0x0028,
     RF_RXCTRLH_1235 = 0xD8, RF_RXCTRLH_147 = 0xBC,
     RF_TXCTRL_1 = 0x00005C40, RF_TXCTRL_2 = 0x00045CA0, RF_TXCTRL_3 = 0x00086CC0,
     RF_TXCTRL_4 = 0x00045C80, RF_TXCTRL_5 = 0x001E3FE0, RF_TXCTRL_7 = 0x001E7DE0,
     TC_PGDELAY_1 = 0xC9, TC_PGDELAY_2 = 0xC2, TC_PGDELAY_3 = 0xC5, TC_PGDELAY_4 = 0x95,
     TC_PGDELAY_5 = 0xC0, TC_PGDELAY_7 = 0x93,
     FS_PLLCFG_1 = 0x09000407, FS_PLLCFG_24 = 0x08400508, FS_PLLCFG_3 = 0x08401009,
     FS_PLLCFG_57 = 0x0800041D,
     FS_PLLTUNE_1 = 0x1E, FS_PLLTUNE_24 = 0x26, FS_PLLTUNE_3 = 0x56, FS_PLLTUNE_57 = 0xBE,
     TX_POWER_12_16MHZ = 0x75757575, TX_POWER_12_64MHZ = 0x67676767,
     TX_POWER_3_16MHZ = 0x6F6F6F6F, TX_POWER_3_64MHZ = 0x8B8B8B8B,
     TX_POWER_4_16MHZ = 0x5F5F5F5F, TX_POWER_4_64MHZ = 0x9A9A9A9A,
     TX_POWER_5_16MHZ = 0x48484848, TX_POWER_5_64MHZ = 0x85858585,
     TX_POWER_7_16MHZ = 0x92929292, TX_POWER_7_64MHZ = 0xD1D1D1D1,
     LDE_CFG1_OP = 0x6D,
     LDE_REPC_1AND2 = 0x5998, LDE_REPC_3AND8 = 0x51EA, LDE_REPC_4 = 0x428E,
     LDE_REPC_5 = 0x451E, LDE_REPC_6 = 0x2E14, LDE_REPC_7 = 0x8000, LDE_REPC_9 = 0x28F4,
     LDE_REPC_1017 = 0x3332, LDE_REPC_111321 = 0x3AE0, LDE_REPC_12 = 0x3D70,
     LDE_REPC_14161819 = 0x35C2, LDE_REPC_20 = 0x47AE\<rparr>"

text \<open>An SPI device that answers every transfer with the same byte.\<close>

definition constant_device :: "8 word \<Rightarrow> event list \<Rightarrow> 8 word" where
  "constant_device b t = b"

text \<open>A fully set operation mode: 6.8 Mbps, 16 MHz pulse frequency, PAC size 8, preamble
  length 128 (code 5), channel 5, preamble code 4.  The second mode differs in the
  preamble length only, which is 64 (code 1).\<close>

definition mode_128 :: operation_mode where
  "mode_128 = \<lparr>dataRate = Some 2, pulseFrequency = Some 1, pacSize = Some 8,
     preambleLength = Some 5, channel = Some 5, preacode = Some 4\<rparr>"

definition mode_64 :: operation_mode where
  "mode_64 = \<lparr>dataRate = Some 2, pulseFrequency = Some 1, pacSize = Some 8,
     preambleLength = Some 1, channel = Some 5, preacode = Some 4\<rparr>"

text \<open>An SPI device that answers 0 during the first six bus events and \<open>b\<close> afterwards:
  the first register read of two bytes returns zeros, later reads return \<open>b\<close>.\<close>

definition late_device :: "8 word \<Rightarrow> event list \<Rightarrow> 8 word" where
  "late_device b t = (if length t \<le> 6 then 0 else b)"

text \<open>A link-layer codec for evaluation: the header is encoded as the two bytes of a
  data-frame control field followed by the sequence number.\<close>

definition example_mac :: mac_module where
  "example_mac = \<lparr>FT_DATA = 1, AD_SAD = 2, IEEE802_15_4_2003 = 0,
     encode = (\<lambda>header. Inr [0x41, 0x88, seqNumber header])\<rparr>"

text \<open>A table that differs from \<open>user_manual\<close> in the constant \<open>A_16MHZ\<close> only, which
  is a whole number here, and an SPI device that answers 125 at the fourth bus event, 8 at
  the twelfth and 0 at every other: the CIR power field reads 125 and the accumulator
  count reads 128, so that the logarithm argument of \<open>getReceivePower\<close> is 1000.\<close>

definition whole_loss :: tune_constants where
  "whole_loss = user_manual\<lparr>A_16MHZ := 119\<rparr>"

definition ranging_device :: "event list \<Rightarrow> 8 word" where
  "ranging_device t = (if length t = 4 then 125 else if length t = 12 then 8 else 0)"


section \<open>Basic facts\<close>

lemma seq_Inr [simp]: "seq (Inr x) f = f x"
  by (simp add: seq_def)

lemma seq_Inl [simp]: "seq (Inl e) f = Inl e"
  by (simp add: seq_def)

lemma seq_eq_Inr: "seq m f = Inr y \<longleftrightarrow> (\<exists>x. m = Inr x \<and> f x = Inr y)"
  by (cases m) simp_all

lemma bytearray_3: "bytearray 3 = [0, 0, 0]"
  by (simp add: bytearray_def numeral_3_eq_3)








section \<open>Headers\<close>

lemma readHeader_none:
  "offset = NO_SUB C \<Longrightarrow> is_byte (READ C OR cmd) \<Longrightarrow> readHeader C cmd offset = Inr [READ C OR cmd]"
  by (simp add: readHeader_def bytearray_3 bytearray_set_def)



lemma writeHeader_none:
  "offset = NO_SUB C \<Longrightarrow> is_byte (WRITE C OR cmd) \<Longrightarrow> writeHeader C cmd offset = Inr [WRITE C OR cmd]"
  by (simp add: writeHeader_def bytearray_3 bytearray_set_def)



section \<open>Transactions on the bus\<close>

lemma xfer_all_trace: "xfer_all bs s = s\<lparr>trace := trace s @ map XFER bs\<rparr>"
  unfolding xfer_all_def
  by (induction bs arbitrary: s) (simp_all add: xfer_def Let_def)

lemma xfer_snd: "snd (xfer b s) = s\<lparr>trace := trace s @ [XFER b]\<rparr>"
  by (simp add: xfer_def Let_def)

lemma writeLoop_indices:
  "\<forall>i\<in>set js. i < length bs \<Longrightarrow>
   writeLoop js (map Some bs) s = Inr (s\<lparr>trace := trace s @ map (\<lambda>i. XFER (bs ! i)) js\<rparr>)"
proof (induction js arbitrary: s)
  case Nil
  show ?case by simp
next
  case (Cons j js)
  have j: "j < length bs" using Cons.prems by simp
  have rest: "\<forall>i\<in>set js. i < length bs" using Cons.prems by simp
  have "writeLoop (j # js) (map Some bs) s = writeLoop js (map Some bs) (snd (xfer (bs ! j) s))"
    using j by simp
  also have "\<dots> = Inr ((snd (xfer (bs ! j) s))\<lparr>trace := trace (snd (xfer (bs ! j) s)) @ map (\<lambda>i. XFER (bs ! i)) js\<rparr>)"
    by (rule Cons.IH [OF rest])
  also have "\<dots> = Inr (s\<lparr>trace := trace s @ map (\<lambda>i. XFER (bs ! i)) (j # js)\<rparr>)"
    by (simp add: xfer_snd)
  finally show ?case .
qed

lemma writeLoop_all:
  "writeLoop [0..<length bs] (map Some bs) s = Inr (s\<lparr>trace := trace s @ map XFER bs\<rparr>)"
proof -
  have "map (\<lambda>i. XFER (bs ! i)) [0..<length bs] = map XFER (map ((!) bs) [0..<length bs])"
    by (simp add: comp_def)
  then have "map (\<lambda>i. XFER (bs ! i)) [0..<length bs] = map XFER bs"
    by (simp only: map_nth)
  then show ?thesis
    by (simp add: writeLoop_indices)
qed

lemma answers_length [simp]: "length (answers C dev n t) = n"
  by (induction n arbitrary: t) simp_all

lemma read_value_length [simp]: "length (read_value C a n dev t) = n"
  by (simp add: read_value_def)

lemma readLoop_range:
  "k + n \<le> length buf \<Longrightarrow>
   readLoop C [k..<k + n] buf s
     = Inr (take k buf @ map Some (answers C (spi s) n (trace s)) @ drop (k + n) buf,
            s\<lparr>trace := trace s @ replicate n (XFER (JUNK C))\<rparr>)"
proof (induction n arbitrary: k buf s)
  case 0
  then show ?case by simp
next
  case (Suc n)
  obtain b s' where x: "xfer (JUNK C) s = (b, s')"
    by (cases "xfer (JUNK C) s")
  then have s': "s' = s\<lparr>trace := trace s @ [XFER (JUNK C)]\<rparr>"
    and b: "b = uint (spi s (trace s @ [XFER (JUNK C)]))"
    by (auto simp add: xfer_def Let_def)
  have up: "[k..<k + Suc n] = k # [Suc k..<Suc k + n]"
    by (simp add: upt_conv_Cons)
  have len: "Suc k + n \<le> length (buf[k := Some b])"
    using Suc.prems by simp
  have k: "k < length buf"
    using Suc.prems by simp
  show ?case
    unfolding up
    using k x Suc.IH [OF len, of s']
    by (simp add: s' b take_Suc_conv_app_nth replicate_app_Cons_same)
qed

lemma readLoop_all:
  "readLoop C [0..<length buf] buf s
     = Inr (map Some (answers C (spi s) (length buf) (trace s)),
            s\<lparr>trace := trace s @ replicate (length buf) (XFER (JUNK C))\<rparr>)"
  using readLoop_range [of 0 "length buf" buf C s] by simp

lemma writeRegister_eq:
  assumes "is_register C r a n" and "is_byte (WRITE C OR a)"
  shows "writeRegister C r s = Inr (s\<lparr>trace := trace s @ write_transaction C a (data r)\<rparr>)"
proof -
  have h: "writeHeader C a (NO_SUB C) = Inr [WRITE C OR a]"
    using assms by (simp add: writeHeader_none)
  have "writeLoop [0..<length (data r)] (map Some (data r)) (xfer_all [WRITE C OR a] (emit CS_LOW s))
      = Inr (s\<lparr>trace := trace s @ CS_LOW # XFER (WRITE C OR a) # map XFER (data r)\<rparr>)"
    by (simp add: writeLoop_all xfer_all_trace emit_def)
  then show ?thesis
    using assms h
    by (simp add: writeRegister_def writeBytes_def is_register_def write_transaction_def emit_def)
qed

lemma readRegister_eq:
  assumes "is_register C r a n" and "is_byte (READ C OR a)"
  shows "readRegister C r s
     = Inr (r\<lparr>data := read_value C a n (spi s) (trace s)\<rparr>, s\<lparr>trace := trace s @ read_transaction C a n\<rparr>)"
proof -
  have h: "readHeader C a (NO_SUB C) = Inr [READ C OR a]"
    using assms by (simp add: readHeader_none)
  have "readLoop C [0..<length (map Some (data r))] (map Some (data r))
          (xfer_all [READ C OR a] (emit CS_LOW s))
      = Inr (map Some (read_value C a (length (data r)) (spi s) (trace s)),
             s\<lparr>trace := trace s @ CS_LOW # XFER (READ C OR a) # replicate (length (data r)) (XFER (JUNK C))\<rparr>)"
    unfolding readLoop_all by (simp add: xfer_all_trace emit_def read_value_def)
  then show ?thesis
    using assms h
    by (simp add: readRegister_def readBytes_def is_register_def read_transaction_def emit_def
        comp_def)
qed









section \<open>Registers and the receive-buffer pointer\<close>

lemma length_bit_update [simp]: "length (bit_update d i v) = length d"
  by (simp add: bit_update_def Let_def)

lemma length_bits_update [simp]: "length (bits_update d js v) = length d"
  unfolding bits_update_def
  by (induction js arbitrary: d) simp_all

lemma bits_update_Cons: "bits_update d (j # js) v = bits_update (bit_update d j v) js v"
  by (simp add: bits_update_def)

lemma bits_update_Nil [simp]: "bits_update d [] v = d"
  by (simp add: bits_update_def)

lemma setBit_eq:
  "bit_index (size_reg r) i \<Longrightarrow> setBit r i v = Inr (r\<lparr>data := bit_update (data r) i v\<rparr>)"
  by (simp add: setBit_def)

lemma setBits_eq:
  "list_all (bit_index (size_reg r)) js \<Longrightarrow>
   setBits r js v = Inr (r\<lparr>data := bits_update (data r) js v\<rparr>)"
proof (induction js arbitrary: r)
  case Nil
  show ?case by simp
next
  case (Cons j js)
  then have j: "bit_index (size_reg r) j"
    and js: "list_all (bit_index (size_reg (r\<lparr>data := bit_update (data r) j v\<rparr>))) js"
    by simp_all
  show ?case
    using Cons.IH [OF js] j by (simp add: setBit_eq bits_update_Cons)
qed

lemma getBit_eq: "bit_index (size_reg r) i \<Longrightarrow> getBit r i = Inr (bit_of (data r) i)"
  by (simp add: getBit_def)

lemma is_register_data [simp]:
  "is_register C (r\<lparr>data := d\<rparr>) a n \<longleftrightarrow>
     address r = a \<and> subaddress r = NO_SUB C \<and> size_reg r = n \<and> length d = n"
  by (auto simp add: is_register_def)

lemma is_registerD:
  "is_register C r a n \<Longrightarrow> address r = a \<and> subaddress r = NO_SUB C \<and> size_reg r = n \<and> length (data r) = n"
  by (simp add: is_register_def)

lemma toggleHSRBP_off: "\<not> dblbuffon s \<Longrightarrow> toggleHSRBP C s = Inr s"
  by (simp add: toggleHSRBP_def)

lemma toggleHSRBP_on:
  assumes ok: "device_constants_ok C"
    and ctrl: "is_register C (sysctrl s) (SYS_CTRL C) 4"
    and msk: "is_register C (sysmask s) (SYS_MASK C) 4"
    and on: "dblbuffon s"
  shows "toggleHSRBP C s
     = Inr (s\<lparr>sysctrl := (sysctrl s)\<lparr>data := bit_update (data (sysctrl s)) (HRBPT_BIT C) True\<rparr>,
              trace := trace s @ toggle_events C (data (sysmask s)) (data (sysctrl s))\<rparr>)"
proof -
  note c = is_registerD [OF ctrl] and m = is_registerD [OF msk]
  have bytes: "is_byte (WRITE C OR SYS_MASK C)" "is_byte (WRITE C OR SYS_CTRL C)"
    and bits: "list_all (bit_index 4) [MRXFCE_BIT C, MRXFCG_BIT C, MRXDFR_BIT C, MLDEDONE_BIT C]"
       "bit_index 4 (HRBPT_BIT C)"
    using ok by (simp_all add: device_constants_ok_def)
  show ?thesis
    unfolding toggleHSRBP_def
    using on bits bytes c m ctrl msk
    by (simp add: Let_def setBit_eq toggle_events_def bits_update_Cons
        writeRegister_eq [where a = "SYS_MASK C" and n = 4]
        writeRegister_eq [where a = "SYS_CTRL C" and n = 4])
qed


lemma syncHSRBP_eq:
  assumes ok: "device_constants_ok C"
    and ctrl: "is_register C (sysctrl s) (SYS_CTRL C) 4"
    and msk: "is_register C (sysmask s) (SYS_MASK C) 4"
    and stat: "is_register C (sysstatus s) (SYS_STATUS C) 5"
  shows "syncHSRBP C s =
     (let st = read_value C (SYS_STATUS C) 5 (spi s) (trace s);
          s1 = s\<lparr>trace := trace s @ read_transaction C (SYS_STATUS C) 5,
                 sysstatus := (sysstatus s)\<lparr>data := st\<rparr>\<rparr>
      in if bit_of st (HSRBP_BIT C) = bit_of st (ICRBP_BIT C) \<and> dblbuffon s
         then Inr (s1\<lparr>sysctrl := (sysctrl s)\<lparr>data := bit_update (data (sysctrl s)) (HRBPT_BIT C) True\<rparr>,
                     trace := trace s1 @ toggle_events C (data (sysmask s)) (data (sysctrl s))\<rparr>)
         else Inr s1)"
proof -
  define st where "st = read_value C (SYS_STATUS C) 5 (spi s) (trace s)"
  define s1 where "s1 = s\<lparr>trace := trace s @ read_transaction C (SYS_STATUS C) 5,
                 sysstatus := (sysstatus s)\<lparr>data := st\<rparr>\<rparr>"
  note t = is_registerD [OF stat]
  have bytes: "is_byte (READ C OR SYS_STATUS C)"
    and bits: "bit_index 5 (HSRBP_BIT C)" "bit_index 5 (ICRBP_BIT C)"
    using ok by (simp_all add: device_constants_ok_def)
  have rd: "readRegister C (sysstatus s) s
      = Inr ((sysstatus s)\<lparr>data := st\<rparr>, s\<lparr>trace := trace s @ read_transaction C (SYS_STATUS C) 5\<rparr>)"
    unfolding st_def using stat bytes by (rule readRegister_eq)
  have s1: "sysctrl s1 = sysctrl s" "sysmask s1 = sysmask s" "dblbuffon s1 = dblbuffon s"
    by (simp_all add: s1_def)
  have sync: "syncHSRBP C s = (if bit_of st (HSRBP_BIT C) = bit_of st (ICRBP_BIT C)
      then toggleHSRBP C s1 else Inr s1)"
    unfolding syncHSRBP_def rd
    using bits t by (simp add: getBit_eq s1_def)
  have tog: "toggleHSRBP C s1 = (if dblbuffon s
      then Inr (s1\<lparr>sysctrl := (sysctrl s)\<lparr>data := bit_update (data (sysctrl s)) (HRBPT_BIT C) True\<rparr>,
                     trace := trace s1 @ toggle_events C (data (sysmask s)) (data (sysctrl s))\<rparr>)
      else Inr s1)"
    using toggleHSRBP_on [OF ok, of s1] toggleHSRBP_off [of s1 C] ctrl msk
    by (simp add: s1)
  show ?thesis
    unfolding sync tog Let_def st_def [symmetric] s1_def [symmetric] by simp
qed


lemma clearStatus_eq:
  assumes "is_byte (WRITE C OR SYS_STATUS C)"
    and "is_register C (sysstatus s) (SYS_STATUS C) 5"
    and "list_all (bit_index 5) bits"
  shows "clearStatus C bits s
     = Inr (s\<lparr>trace := trace s @ write_transaction C (SYS_STATUS C) (bits_update (replicate 5 0) bits True),
              sysstatus := (sysstatus s)\<lparr>data := bits_update (replicate 5 0) bits True\<rparr>\<rparr>)"
  using assms is_registerD [OF assms(2)]
  by (simp add: clearStatus_def Let_def clear_def setBits_eq
      writeRegister_eq [where a = "SYS_STATUS C" and n = 5])

lemma forceTRxOff_eq:
  assumes ok: "device_constants_ok C"
    and ctrl: "is_register C (sysctrl s) (SYS_CTRL C) 4"
    and msk: "is_register C (sysmask s) (SYS_MASK C) 4"
    and stat: "is_register C (sysstatus s) (SYS_STATUS C) 5"
  shows "\<exists>s'. forceTRxOff C s = Inr s' \<and>
     trace s' = trace s @ forceTRxOff_head C @ read_transaction C (SYS_STATUS C) 5 @
       (let st = read_value C (SYS_STATUS C) 5 (spi s) (trace s @ forceTRxOff_head C) in
        if bit_of st (HSRBP_BIT C) = bit_of st (ICRBP_BIT C) \<and> dblbuffon s
        then toggle_events C (replicate 4 0) (bit_update (replicate 4 0) (TRXOFF_BIT C) True)
        else []) @
       write_transaction C (SYS_MASK C) (read_value C (SYS_MASK C) 4 (spi s) (trace s)) \<and>
     data (sysmask s') = read_value C (SYS_MASK C) 4 (spi s) (trace s) \<and>
     spi s' = spi s \<and> dblbuffon s' = dblbuffon s \<and> seqNum s' = seqNum s \<and>
     operationMode s' = operationMode s \<and> txfctrl s' = txfctrl s \<and> panadr s' = panadr s \<and>
     is_register C (sysctrl s') (SYS_CTRL C) 4 \<and> is_register C (sysmask s') (SYS_MASK C) 4 \<and>
     is_register C (sysstatus s') (SYS_STATUS C) 5"
proof -
  note c = is_registerD [OF ctrl] and m = is_registerD [OF msk] and t = is_registerD [OF stat]
  define mask where "mask = read_value C (SYS_MASK C) 4 (spi s) (trace s)"
  define bits where "bits = SYS_STATUS_ALL_TX C @ SYS_STATUS_ALL_RX_ERR C @
     SYS_STATUS_ALL_RX_TO C @ SYS_STATUS_ALL_RX_GOOD C"
  define s4 where "s4 = s\<lparr>trace := trace s @ forceTRxOff_head C,
     sysctrl := (sysctrl s)\<lparr>data := bit_update (replicate 4 0) (TRXOFF_BIT C) True\<rparr>,
     sysmask := (sysmask s)\<lparr>data := replicate 4 0\<rparr>,
     sysstatus := (sysstatus s)\<lparr>data := bits_update (replicate 5 0) bits True\<rparr>\<rparr>"
  define rest where "rest = (\<lambda>s. let s = s\<lparr>sysmask := (sysmask s)\<lparr>data := mask\<rparr>\<rparr> in
     seq (writeRegister C (sysmask s) s) (\<lambda>s.
     seq (setBit (sysctrl s) (WAIT4RESP_BIT C) False) (\<lambda>r.
     Inr (s\<lparr>sysctrl := r\<rparr>))))"
  have bytes: "is_byte (READ C OR SYS_MASK C)" "is_byte (WRITE C OR SYS_MASK C)"
      "is_byte (WRITE C OR SYS_STATUS C)" "is_byte (WRITE C OR SYS_CTRL C)"
    and bts: "bit_index 4 (TRXOFF_BIT C)" "bit_index 4 (WAIT4RESP_BIT C)" "list_all (bit_index 5) bits"
    using ok by (simp_all add: device_constants_ok_def bits_def)
  have rd: "readRegister C (sysmask s) s
      = Inr ((sysmask s)\<lparr>data := mask\<rparr>, s\<lparr>trace := trace s @ read_transaction C (SYS_MASK C) 4\<rparr>)"
    unfolding mask_def using msk bytes(1) by (rule readRegister_eq)
  have head: "forceTRxOff C s = seq (syncHSRBP C s4) rest"
    unfolding forceTRxOff_def rd bits_def [symmetric]
    using bytes bts c m t ctrl msk stat
    apply (simp add: Let_def disableInterrupt_def emit_def setAll_def clear_def setBit_eq
        clearStatus_eq rest_def forceTRxOff_head_def
        writeRegister_eq [where a = "SYS_MASK C" and n = 4]
        writeRegister_eq [where a = "SYS_CTRL C" and n = 4])
    apply (rule arg_cong2 [where f = seq])
     apply (rule arg_cong [where f = "syncHSRBP C"])
     apply (simp add: s4_def forceTRxOff_head_def bits_def)
    apply (rule refl)
    done
  have r4: "is_register C (sysctrl s4) (SYS_CTRL C) 4" "is_register C (sysmask s4) (SYS_MASK C) 4"
      "is_register C (sysstatus s4) (SYS_STATUS C) 5"
    using c m t by (simp_all add: s4_def)
  show ?thesis
    unfolding head syncHSRBP_eq [OF ok r4]
    using bytes bts c m t ctrl msk stat
    by (simp add: Let_def rest_def s4_def setBit_eq mask_def
        writeRegister_eq [where a = "SYS_MASK C" and n = 4])
qed


section \<open>The constants table and the initial state\<close>

lemma user_manual_transport [simp]:
  "READ user_manual = 0" "READ_SUB user_manual = 64" "WRITE user_manual = 128"
  "WRITE_SUB user_manual = 192" "RW_SUB_EXT user_manual = 128"
  "MASK_LS_BYTE user_manual = 255" "NO_SUB user_manual = 255" "JUNK user_manual = 0"
  by (simp_all add: user_manual_def)

lemma user_manual_device_ok: "device_constants_ok user_manual"
  by (simp add: device_constants_ok_def user_manual_def is_byte_def bit_index_def)

lemma attached_init: "attached C (DW1000_init C dev r)"
  by (simp add: attached_def DW1000_init_def DW1000Register_def is_register_def)

lemma user_manual_control [simp]:
  "SYS_CTRL user_manual = 13" "SYS_MASK user_manual = 14" "SYS_STATUS user_manual = 15"
  "HRBPT_BIT user_manual = 24" "HSRBP_BIT user_manual = 30" "ICRBP_BIT user_manual = 31"
  "MRXFCE_BIT user_manual = 15" "MRXFCG_BIT user_manual = 14" "MRXDFR_BIT user_manual = 13"
  "MLDEDONE_BIT user_manual = 10" "TRXOFF_BIT user_manual = 6" "WAIT4RESP_BIT user_manual = 7"
  by (simp_all add: user_manual_def)

lemma answers_constant: "answers C (constant_device b) n t = replicate n (uint b)"
  by (induction n arbitrary: t) (simp_all add: constant_device_def)


lemma replicate_4: "replicate 4 x = [x, x, x, x]"
  by (simp add: numeral_eq_Suc)

lemma replicate_5: "replicate 5 x = [x, x, x, x, x]"
  by (simp add: numeral_eq_Suc)


section \<open>The traffic of tune\<close>

lemma writeBytes_events:
  assumes "writeHeader C a sub = Inr h"
  shows "writeBytes C a sub (map Some bs) (length bs) s
     = Inr (s\<lparr>trace := trace s @ CS_LOW # map XFER h @ map XFER bs @ [CS_HIGH]\<rparr>)"
  using assms by (simp add: writeBytes_def writeLoop_all xfer_all_trace emit_def)

lemma readBytes_events:
  assumes "readHeader C a sub = Inr h"
  shows "readBytes C a sub buf (length buf) s
     = Inr (map Some (answers C (spi s) (length buf) (trace s @ CS_LOW # map XFER h)),
            s\<lparr>trace := trace s @ CS_LOW # map XFER h @ replicate (length buf) (XFER (JUNK C)) @ [CS_HIGH]\<rparr>)"
  using assms by (simp add: readBytes_def readLoop_all xfer_all_trace emit_def)

lemma writeRegister_events:
  assumes "writable C r"
  shows "writeRegister C r s = Inr (s\<lparr>trace := trace s @ register_events C r\<rparr>)"
proof -
  obtain h where h: "writeHeader C (address r) (subaddress r) = Inr h"
    using assms by (cases "writeHeader C (address r) (subaddress r)") (simp_all add: writable_def)
  have len: "size_reg r = length (data r)"
    using assms by (simp add: writable_def)
  show ?thesis
    unfolding writeRegister_def len
    by (simp add: writeBytes_events [OF h] register_events_def h)
qed

lemma writeRegisters_events:
  "list_all (writable C) rs \<Longrightarrow>
   writeRegisters C rs s = Inr (s\<lparr>trace := trace s @ concat (map (register_events C) rs)\<rparr>)"
  by (induction rs arbitrary: s) (simp_all add: writeRegister_events)

lemma readBytesOTP_eq:
  assumes ok: "otp_constants_ok C" and len: "length buf = 4"
  shows "readBytesOTP C (OTP_XTAL_ADDRESS C) buf s
     = Inr (map Some (otp_bytes C (spi s) (trace s)), s\<lparr>trace := trace s @ otp_events C\<rparr>)"
proof -
  obtain ha where ha: "writeHeader C (OTP_IF C) (OTP_ADDR_SUB C) = Inr ha"
    using ok by (cases "writeHeader C (OTP_IF C) (OTP_ADDR_SUB C)") (simp_all add: otp_constants_ok_def)
  obtain hc where hc: "writeHeader C (OTP_IF C) (OTP_CTRL_SUB C) = Inr hc"
    using ok by (cases "writeHeader C (OTP_IF C) (OTP_CTRL_SUB C)") (simp_all add: otp_constants_ok_def)
  obtain hr where hr: "readHeader C (OTP_IF C) (OTP_RDAT_SUB C) = Inr hr"
    using ok by (cases "readHeader C (OTP_IF C) (OTP_RDAT_SUB C)") (simp_all add: otp_constants_ok_def)
  have bytes: "is_byte (OTP_XTAL_ADDRESS C AND MASK_LS_BYTE C)"
    "is_byte (drop_bit 8 (OTP_XTAL_ADDRESS C) AND MASK_LS_BYTE C)"
    "is_byte (OTP_STEP2 C)" "is_byte (OTP_STEP3 C)" "is_byte (OTP_STEP5 C)"
    using ok by (simp_all add: otp_constants_ok_def)
  have w2: "\<And>a b s. writeBytes C (OTP_IF C) (OTP_ADDR_SUB C) [Some a, Some b] (Suc (Suc 0)) s
      = Inr (s\<lparr>trace := trace s @ CS_LOW # map XFER ha @ [XFER a, XFER b, CS_HIGH]\<rparr>)"
    using writeBytes_events [OF ha, of "[a, b]" for a b] by simp
  have w1: "\<And>a s. writeBytes C (OTP_IF C) (OTP_CTRL_SUB C) [Some a] (Suc 0) s
      = Inr (s\<lparr>trace := trace s @ CS_LOW # map XFER hc @ [XFER a, CS_HIGH]\<rparr>)"
    using writeBytes_events [OF hc, of "[a]" for a] by simp
  have r4: "\<And>s. readBytes C (OTP_IF C) (OTP_RDAT_SUB C) buf 4 s
     = Inr (map Some (answers C (spi s) 4 (trace s @ CS_LOW # map XFER hr)),
            s\<lparr>trace := trace s @ CS_LOW # map XFER hr @ replicate 4 (XFER (JUNK C)) @ [CS_HIGH]\<rparr>)"
    using readBytes_events [OF hr, of buf] len by simp
  show ?thesis
    unfolding readBytesOTP_def
    using bytes
    by (simp add: Let_def bytearray_def bytearray_set_def bytearray_of_def numeral_2_eq_2
        w2 w1 r4 otp_bytes_def otp_events_def otp_prefix_def ha hc hr)
qed


lemma writable_new:
  "\<not> isl (writeHeader C a sub) \<Longrightarrow> writable C (DW1000Register a sub n)"
  by (simp add: writable_def DW1000Register_def)

lemma writable_writeValue: "writable C r \<Longrightarrow> writable C (writeValue r v)"
  by (simp add: writable_def writeValue_def)

lemma writable_tuneAgcTune1: "writable C r \<Longrightarrow> writable C (tuneAgcTune1 C s r)"
  by (simp add: tuneAgcTune1_def Let_def writable_writeValue)

lemma writable_tuneDrxTune0b: "writable C r \<Longrightarrow> writable C (tuneDrxTune0b C s r)"
  by (simp add: tuneDrxTune0b_def Let_def writable_writeValue)

lemma writable_tuneDrxTune1aAndldecfg2:
  "writable C a \<Longrightarrow> writable C b \<Longrightarrow>
   writable C (fst (tuneDrxTune1aAndldecfg2 C s a b)) \<and>
   writable C (snd (tuneDrxTune1aAndldecfg2 C s a b))"
  by (simp add: tuneDrxTune1aAndldecfg2_def Let_def writable_writeValue)

lemma writable_tuneDrxtune1b:
  "writable C r \<Longrightarrow> tuneDrxtune1b C s r = Inr r' \<Longrightarrow> writable C r'"
  by (auto simp add: tuneDrxtune1b_def Let_def call_register_def writable_writeValue
      split: if_splits)

lemma writable_tuneDrxTune2: "writable C r \<Longrightarrow> writable C (tuneDrxTune2 C s r)"
  by (simp add: tuneDrxTune2_def Let_def writable_writeValue)

lemma writable_txpower_for: "writable C r \<Longrightarrow> writable C (txpower_for C s r p q)"
  by (simp add: txpower_for_def Let_def writable_writeValue)

lemma writable_tuneAccToChan:
  assumes "writable C a" "writable C b" "writable C c" "writable C d" "writable C e"
  shows "case tuneAccToChan C s a b c d e of (a', b', c', d', e') \<Rightarrow>
     writable C a' \<and> writable C b' \<and> writable C c' \<and> writable C d' \<and> writable C e'"
  using assms
  by (simp add: tuneAccToChan_def Let_def writable_writeValue writable_txpower_for)

lemma writable_lderepc_for: "writable C r \<Longrightarrow> writable C (lderepc_for C s r v)"
  by (simp add: lderepc_for_def writable_writeValue)

lemma writable_tunelderepc: "writable C r \<Longrightarrow> writable C (tunelderepc C s r)"
  by (simp add: tunelderepc_def Let_def writable_lderepc_for)

lemma tune_registers_writable:
  assumes ok: "tune_constants_ok C" and regs: "tune_registers C s = Inr regs"
  shows "list_all (writable C) regs"
proof -
  have h: "writable C (DW1000Register (AGC_CTRL C) (AGC_TUNE1_SUB C) 2)"
    "writable C (DW1000Register (AGC_CTRL C) (AGC_TUNE2_SUB C) 4)"
    "writable C (DW1000Register (AGC_CTRL C) (AGC_TUNE3_SUB C) 2)"
    "writable C (DW1000Register (DRX_CONF C) (DRX_TUNE0b_SUB C) 2)"
    "writable C (DW1000Register (DRX_CONF C) (DRX_TUNE1a_SUB C) 2)"
    "writable C (DW1000Register (DRX_CONF C) (DRX_TUNE1b_SUB C) 2)"
    "writable C (DW1000Register (DRX_CONF C) (DRX_TUNE2_SUB C) 4)"
    "writable C (DW1000Register (DRX_CONF C) (DRX_TUNE4H_SUB C) 2)"
    "writable C (DW1000Register (RF_CONF C) (RF_RXCTRLH_SUB C) 1)"
    "writable C (DW1000Register (RF_CONF C) (RF_TXCTRL_SUB C) 4)"
    "writable C (DW1000Register (TX_CAL C) (TC_PGDELAY_SUB C) 1)"
    "writable C (DW1000Register (FS_CTRL C) (FS_PLLCFG_SUB C) 4)"
    "writable C (DW1000Register (FS_CTRL C) (FS_PLLTUNE_SUB C) 1)"
    "writable C (DW1000Register (LDE_CTRL C) (LDE_CFG1_SUB C) 1)"
    "writable C (DW1000Register (LDE_CTRL C) (LDE_CFG2_SUB C) 2)"
    "writable C (DW1000Register (LDE_CTRL C) (LDE_REPC_SUB C) 2)"
    "writable C (DW1000Register (TX_POWER C) (NO_SUB C) 4)"
    using ok by (simp_all add: tune_constants_ok_def writable_new)
  obtain r1b where r1b: "tuneDrxtune1b C s (DW1000Register (DRX_CONF C) (DRX_TUNE1b_SUB C) 2) = Inr r1b"
    using regs
    by (cases "tuneDrxtune1b C s (DW1000Register (DRX_CONF C) (DRX_TUNE1b_SUB C) 2)")
      (simp_all add: tune_registers_def Let_def split_def)
  have w1b: "writable C r1b"
    using writable_tuneDrxtune1b [OF h(6) r1b] .
  have acc: "case tuneAccToChan C s (DW1000Register (RF_CONF C) (RF_TXCTRL_SUB C) 4)
      (DW1000Register (TX_CAL C) (TC_PGDELAY_SUB C) 1)
      (DW1000Register (FS_CTRL C) (FS_PLLCFG_SUB C) 4)
      (DW1000Register (FS_CTRL C) (FS_PLLTUNE_SUB C) 1)
      (DW1000Register (TX_POWER C) (NO_SUB C) 4) of (a', b', c', d', e') \<Rightarrow>
     writable C a' \<and> writable C b' \<and> writable C c' \<and> writable C d' \<and> writable C e'"
    by (rule writable_tuneAccToChan) (rule h)+
  have "regs = (let (drxtune1a, ldecfg2) = tuneDrxTune1aAndldecfg2 C s
          (DW1000Register (DRX_CONF C) (DRX_TUNE1a_SUB C) 2)
          (DW1000Register (LDE_CTRL C) (LDE_CFG2_SUB C) 2);
        (rftxctrl, tcpgdelay, fspllcfg, fsplltune, txpower) = tuneAccToChan C s
          (DW1000Register (RF_CONF C) (RF_TXCTRL_SUB C) 4)
          (DW1000Register (TX_CAL C) (TC_PGDELAY_SUB C) 1)
          (DW1000Register (FS_CTRL C) (FS_PLLCFG_SUB C) 4)
          (DW1000Register (FS_CTRL C) (FS_PLLTUNE_SUB C) 1)
          (DW1000Register (TX_POWER C) (NO_SUB C) 4)
      in [tuneAgcTune1 C s (DW1000Register (AGC_CTRL C) (AGC_TUNE1_SUB C) 2),
          writeValue (writeValue (DW1000Register (AGC_CTRL C) (AGC_TUNE2_SUB C) 4) (AGC_TUNE2_OP C)) (AGC_TUNE3_OP C),
          DW1000Register (AGC_CTRL C) (AGC_TUNE3_SUB C) 2,
          tuneDrxTune0b C s (DW1000Register (DRX_CONF C) (DRX_TUNE0b_SUB C) 2),
          drxtune1a, r1b,
          tuneDrxTune2 C s (DW1000Register (DRX_CONF C) (DRX_TUNE2_SUB C) 4),
          (if preambleLength (operationMode s) = Some (TX_PREAMBLE_LEN_64 C)
           then writeValue (DW1000Register (DRX_CONF C) (DRX_TUNE4H_SUB C) 2) (DRX_TUNE4H_64 C)
           else writeValue (DW1000Register (DRX_CONF C) (DRX_TUNE4H_SUB C) 2) (DRX_TUNE4H_128 C)),
          writeValue (DW1000Register (LDE_CTRL C) (LDE_CFG1_SUB C) 1) (LDE_CFG1_OP C),
          ldecfg2,
          tunelderepc C s (DW1000Register (LDE_CTRL C) (LDE_REPC_SUB C) 2),
          txpower,
          (if channel (operationMode s) \<noteq> Some (CHANNEL_4 C) \<and> channel (operationMode s) \<noteq> Some (CHANNEL_7 C)
           then writeValue (DW1000Register (RF_CONF C) (RF_RXCTRLH_SUB C) 1) (RF_RXCTRLH_1235 C)
           else writeValue (DW1000Register (RF_CONF C) (RF_RXCTRLH_SUB C) 1) (RF_RXCTRLH_147 C)),
          rftxctrl, tcpgdelay, fsplltune, fspllcfg])"
    using regs unfolding tune_registers_def Let_def r1b
    by (simp add: split_def)
  then show ?thesis
    using acc w1b h
      writable_tuneDrxTune1aAndldecfg2 [OF h(5) h(15), of s]
    by (simp add: split_def Let_def writable_writeValue writable_tuneAgcTune1
        writable_tuneDrxTune0b writable_tuneDrxTune2 writable_tunelderepc)
qed


lemma otp_bytes_length: "length (otp_bytes C dev t) = 4"
  by (simp add: otp_bytes_def)

lemma tune_fsxtalt_eq:
  "bs \<noteq> [] \<Longrightarrow>
   tune_fsxtalt C (map Some bs)
     = Inr (writeValue (DW1000Register (FS_CTRL C) (FS_XTALT_SUB C) 1) (crystal_trim C (hd bs)))"
  by (cases bs) (simp_all add: tune_fsxtalt_def crystal_trim_def Let_def)

lemma writable_fsxtalt:
  "tune_constants_ok C \<Longrightarrow>
   writable C (writeValue (DW1000Register (FS_CTRL C) (FS_XTALT_SUB C) 1) v)"
  by (simp add: tune_constants_ok_def writable_new writable_writeValue)

lemma tune_eq:
  assumes ok: "tune_constants_ok C" and regs: "tune_registers C s = Inr regs"
  shows "tune C s = Inr (s\<lparr>trace := trace s @ otp_events C @
           concat (map (register_events C) regs) @
           register_events C (writeValue (DW1000Register (FS_CTRL C) (FS_XTALT_SUB C) 1)
             (crystal_trim C (hd (otp_bytes C (spi s) (trace s)))))\<rparr>)"
proof -
  have otp: "otp_constants_ok C"
    using ok by (simp add: tune_constants_ok_def)
  have ne: "otp_bytes C (spi s) (trace s) \<noteq> []"
  proof
    assume e: "otp_bytes C (spi s) (trace s) = []"
    have "length (otp_bytes C (spi s) (trace s)) = 4"
      by (rule otp_bytes_length)
    with e show False
      by simp
  qed
  have all: "list_all (writable C) (regs @
      [writeValue (DW1000Register (FS_CTRL C) (FS_XTALT_SUB C) 1)
         (crystal_trim C (hd (otp_bytes C (spi s) (trace s))))])"
    using tune_registers_writable [OF ok regs] writable_fsxtalt [OF ok] by simp
  show ?thesis
    unfolding tune_def regs
    by (simp add: readBytesOTP_eq [OF otp] tune_fsxtalt_eq [OF ne] writeRegisters_events [OF all]
        del: One_nat_def)
qed

lemma tune_raises:
  "tune_registers C s = Inl e \<Longrightarrow> tune C s = Inl e"
  by (simp add: tune_def)

lemma tune_registers_mode:
  assumes "operationMode s1 = operationMode s2"
  shows "tune_registers C s1 = tune_registers C s2"
  unfolding tune_registers_def tuneAgcTune1_def tuneDrxTune0b_def tuneDrxTune1aAndldecfg2_def
    tuneDrxtune1b_def tuneDrxTune2_def tuneAccToChan_def txpower_for_def tunelderepc_def
    lderepc_for_def assms ..

lemma committed_eq:
  assumes ok: "tune_constants_ok C"
  shows "committed C s =
     (case tune_registers C s of
        Inl e \<Rightarrow> Inl e
      | Inr regs \<Rightarrow> Inr (otp_events C @ concat (map (register_events C) regs) @
          register_events C (writeValue (DW1000Register (FS_CTRL C) (FS_XTALT_SUB C) 1)
            (crystal_trim C (hd (otp_bytes C (spi s) (trace s)))))))"
proof (cases "tune_registers C s")
  case (Inl e)
  then show ?thesis
    by (simp add: committed_def tune_raises)
next
  case (Inr regs)
  then show ?thesis
    by (simp add: committed_def tune_eq [OF ok])
qed


section \<open>The constants table and tune\<close>

lemma user_manual_tune_ok: "tune_constants_ok user_manual"
  by (simp add: tune_constants_ok_def otp_constants_ok_def user_manual_def writeHeader_def
      readHeader_def bytearray_3 bytearray_set_def is_byte_def Let_def drop_bit_eq_div)

lemma user_manual_codes [simp]:
  "TX_PREAMBLE_LEN_64 user_manual = 1" "TX_PREAMBLE_LEN_1536 user_manual = 6"
  "TX_PREAMBLE_LEN_2048 user_manual = 10" "TX_PREAMBLE_LEN_4096 user_manual = 3"
  "TRX_RATE_110KBPS user_manual = 0" "TRX_RATE_850KBPS user_manual = 1"
  "TRX_RATE_6800KBPS user_manual = 2"
  by (simp_all add: user_manual_def)

lemma user_manual_trim [simp]:
  "FS_CTRL user_manual = 43" "FS_XTALT_SUB user_manual = 14" "TUNE_OPERATION user_manual = 16"
  "TUNE_MASK1 user_manual = 31" "TUNE_MASK2 user_manual = 96"
  by (simp_all add: user_manual_def)

lemma tune_registers_mode_128:
  "operationMode s = mode_128 \<Longrightarrow> \<exists>regs. tune_registers user_manual s = Inr regs"
  by (simp add: tune_registers_def tuneDrxtune1b_def mode_128_def Let_def split_def)

lemma otp_bytes_constant: "otp_bytes C (constant_device b) t = replicate 4 (uint b)"
  by (simp add: otp_bytes_def answers_constant)

lemma fsxtalt_events:
  "register_events user_manual (writeValue (DW1000Register 43 14 (Suc 0)) (numeral v))
     = [CS_LOW, XFER 235, XFER 14, XFER (numeral v AND 255), CS_HIGH]"
  by (simp add: register_events_def writeValue_def DW1000Register_def writeHeader_def
      bytearray_3 bytearray_set_def is_byte_def Let_def)


section \<open>Timestamp wrap-around (C5)\<close>

text \<open>
  C5: with \<open>C.TIME_OVERFLOW\<close> equal to \<open>2^40\<close>, for 40-bit timestamps \<open>a < b\<close> the
  value \<open>wrapTimestamp(a - b)\<close> is \<open>(a - b) + 2^40\<close>, which is non-negative and less
  than \<open>2^40\<close>; a non-negative argument is returned unchanged.
\<close>

theorem wrapTimestamp_spec:
  assumes "TIME_OVERFLOW C = 2 ^ 40"
  shows "(0 \<le> a \<and> a < 2 ^ 40 \<and> 0 \<le> b \<and> b < 2 ^ 40 \<and> a < b \<longrightarrow>
           wrapTimestamp C (a - b) = (a - b) + 2 ^ 40 \<and>
           0 \<le> wrapTimestamp C (a - b) \<and> wrapTimestamp C (a - b) < 2 ^ 40) \<and>
         (0 \<le> t \<longrightarrow> wrapTimestamp C t = t)"
  using assms by (simp add: wrapTimestamp_def)


theorem wrapTimestamp_spec_witness:
  "wrapTimestamp user_manual (5 - 7) = 1099511627774 \<and> wrapTimestamp user_manual 9 = 9"
  using wrapTimestamp_spec [of user_manual 5 7 9]
  by (simp add: user_manual_def)


section \<open>Receive-buffer pointer synchronisation (C9)\<close>

text \<open>
  C9: with well-formed constants and the registers \<open>__init__\<close> creates, \<open>syncHSRBP\<close>
  returns, and the events it adds to the bus are the read of the status register followed,
  exactly when the host-side and chip-side buffer-pointer bits of the value read are equal
  and double buffering is on, by the three writes of \<open>toggleHSRBP\<close> (mask, control
  register, mask); otherwise nothing follows the read, so no control register is written.
  With double buffering off \<open>toggleHSRBP\<close> changes nothing at all.
\<close>

theorem syncHSRBP_toggles:
  assumes "device_constants_ok C" and "attached C s"
  shows "(\<exists>s'. syncHSRBP C s = Inr s' \<and>
            trace s' = trace s @ read_transaction C (SYS_STATUS C) 5 @
              (let st = read_value C (SYS_STATUS C) 5 (spi s) (trace s) in
               if bit_of st (HSRBP_BIT C) = bit_of st (ICRBP_BIT C) \<and> dblbuffon s
               then toggle_events C (data (sysmask s)) (data (sysctrl s))
               else [])) \<and>
         (\<not> dblbuffon s \<longrightarrow> toggleHSRBP C s = Inr s)"
proof -
  have r: "is_register C (sysctrl s) (SYS_CTRL C) 4" "is_register C (sysmask s) (SYS_MASK C) 4"
    "is_register C (sysstatus s) (SYS_STATUS C) 5"
    using assms(2) by (simp_all add: attached_def)
  show ?thesis
    unfolding syncHSRBP_eq [OF assms(1) r]
    by (simp add: Let_def toggleHSRBP_off)
qed


theorem syncHSRBP_toggles_witness:
  "\<exists>s'. syncHSRBP user_manual ((DW1000_init user_manual (constant_device 0) 0)\<lparr>dblbuffon := True\<rparr>) = Inr s' \<and>
     trace s' = [CS_LOW, XFER 15, XFER 0, XFER 0, XFER 0, XFER 0, XFER 0, CS_HIGH,
                 CS_LOW, XFER 142, XFER 0, XFER 0, XFER 0, XFER 0, CS_HIGH,
                 CS_LOW, XFER 141, XFER 0, XFER 0, XFER 0, XFER 1, CS_HIGH,
                 CS_LOW, XFER 142, XFER 0, XFER 0, XFER 0, XFER 0, CS_HIGH]"
proof -
  let ?s = "(DW1000_init user_manual (constant_device 0) 0)\<lparr>dblbuffon := True\<rparr>"
  have a: "attached user_manual ?s"
    by (simp add: attached_def DW1000_init_def DW1000Register_def is_register_def)
  from syncHSRBP_toggles [OF user_manual_device_ok a]
  obtain s' where 1: "syncHSRBP user_manual ?s = Inr s'"
    and 2: "trace s' = trace ?s @ read_transaction user_manual (SYS_STATUS user_manual) 5 @
              (let st = read_value user_manual (SYS_STATUS user_manual) 5 (spi ?s) (trace ?s) in
               if bit_of st (HSRBP_BIT user_manual) = bit_of st (ICRBP_BIT user_manual) \<and> dblbuffon ?s
               then toggle_events user_manual (data (sysmask ?s)) (data (sysctrl ?s))
               else [])"
    by blast
  have "trace s' = [CS_LOW, XFER 15, XFER 0, XFER 0, XFER 0, XFER 0, XFER 0, CS_HIGH,
                 CS_LOW, XFER 142, XFER 0, XFER 0, XFER 0, XFER 0, CS_HIGH,
                 CS_LOW, XFER 141, XFER 0, XFER 0, XFER 0, XFER 1, CS_HIGH,
                 CS_LOW, XFER 142, XFER 0, XFER 0, XFER 0, XFER 0, CS_HIGH]"
    unfolding 2
    by (simp add: DW1000_init_def DW1000Register_def read_value_def constant_device_def
        read_transaction_def write_transaction_def toggle_events_def bit_of_def
        bits_update_def bit_update_def Let_def numeral_eq_Suc)
  with 1 show ?thesis
    by blast
qed


section \<open>Forcing the transceiver off (C4)\<close>

text \<open>
  C4: with well-formed constants and the registers \<open>__init__\<close> creates, \<open>forceTRxOff\<close>
  returns, and the events it adds to the bus are, in this order: the read of the interrupt
  mask register (the mask is saved), the removal of the interrupt handler, the write of a
  zeroed mask, the write of the control register with only the transceiver-off bit, the
  write of the status register with all TX, RX-error, RX-timeout and RX-good bits, the
  events of \<open>syncHSRBP\<close> (the read of the status register and, when the two pointer bits
  are equal and double buffering is on, the three writes of the toggle), and last the write
  of the mask register with the bytes that the first read returned.  The cached mask holds
  those bytes too.
\<close>

theorem forceTRxOff_sequence:
  assumes "device_constants_ok C" and "attached C s"
  shows "\<exists>s'. forceTRxOff C s = Inr s' \<and>
     trace s' = trace s @
       read_transaction C (SYS_MASK C) 4 @
       [REMOVE_EVENT_DETECT] @
       write_transaction C (SYS_MASK C) (replicate 4 0) @
       write_transaction C (SYS_CTRL C) (bit_update (replicate 4 0) (TRXOFF_BIT C) True) @
       write_transaction C (SYS_STATUS C)
         (bits_update (replicate 5 0)
            (SYS_STATUS_ALL_TX C @ SYS_STATUS_ALL_RX_ERR C @ SYS_STATUS_ALL_RX_TO C @
             SYS_STATUS_ALL_RX_GOOD C) True) @
       read_transaction C (SYS_STATUS C) 5 @
       (let st = read_value C (SYS_STATUS C) 5 (spi s) (trace s @ forceTRxOff_head C) in
        if bit_of st (HSRBP_BIT C) = bit_of st (ICRBP_BIT C) \<and> dblbuffon s
        then toggle_events C (replicate 4 0) (bit_update (replicate 4 0) (TRXOFF_BIT C) True)
        else []) @
       write_transaction C (SYS_MASK C) (read_value C (SYS_MASK C) 4 (spi s) (trace s)) \<and>
     data (sysmask s') = read_value C (SYS_MASK C) 4 (spi s) (trace s)"
proof -
  have r: "is_register C (sysctrl s) (SYS_CTRL C) 4" "is_register C (sysmask s) (SYS_MASK C) 4"
    "is_register C (sysstatus s) (SYS_STATUS C) 5"
    using assms(2) by (simp_all add: attached_def)
  from forceTRxOff_eq [OF assms(1) r] obtain s' where
    1: "forceTRxOff C s = Inr s'"
    and 2: "trace s' = trace s @ forceTRxOff_head C @ read_transaction C (SYS_STATUS C) 5 @
       (let st = read_value C (SYS_STATUS C) 5 (spi s) (trace s @ forceTRxOff_head C) in
        if bit_of st (HSRBP_BIT C) = bit_of st (ICRBP_BIT C) \<and> dblbuffon s
        then toggle_events C (replicate 4 0) (bit_update (replicate 4 0) (TRXOFF_BIT C) True)
        else []) @
       write_transaction C (SYS_MASK C) (read_value C (SYS_MASK C) 4 (spi s) (trace s))"
    and 3: "data (sysmask s') = read_value C (SYS_MASK C) 4 (spi s) (trace s)"
    by blast
  have "forceTRxOff_head C @ read_transaction C (SYS_STATUS C) 5 =
       read_transaction C (SYS_MASK C) 4 @
       [REMOVE_EVENT_DETECT] @
       write_transaction C (SYS_MASK C) (replicate 4 0) @
       write_transaction C (SYS_CTRL C) (bit_update (replicate 4 0) (TRXOFF_BIT C) True) @
       write_transaction C (SYS_STATUS C)
         (bits_update (replicate 5 0)
            (SYS_STATUS_ALL_TX C @ SYS_STATUS_ALL_RX_ERR C @ SYS_STATUS_ALL_RX_TO C @
             SYS_STATUS_ALL_RX_GOOD C) True) @
       read_transaction C (SYS_STATUS C) 5"
    by (simp add: forceTRxOff_head_def)
  with 1 2 3 show ?thesis
    by (metis append.assoc)
qed


theorem forceTRxOff_sequence_witness:
  "\<exists>s'. forceTRxOff user_manual (DW1000_init user_manual (constant_device 90) 0) = Inr s' \<and>
     data (sysmask s') = [90, 90, 90, 90] \<and>
     trace s' = [CS_LOW, XFER 14, XFER 0, XFER 0, XFER 0, XFER 0, CS_HIGH,
                 REMOVE_EVENT_DETECT,
                 CS_LOW, XFER 142, XFER 0, XFER 0, XFER 0, XFER 0, CS_HIGH,
                 CS_LOW, XFER 141, XFER 64, XFER 0, XFER 0, XFER 0, CS_HIGH,
                 CS_LOW, XFER 143, XFER 248, XFER 255, XFER 39, XFER 36, XFER 0, CS_HIGH,
                 CS_LOW, XFER 15, XFER 0, XFER 0, XFER 0, XFER 0, XFER 0, CS_HIGH,
                 CS_LOW, XFER 142, XFER 90, XFER 90, XFER 90, XFER 90, CS_HIGH]"
proof -
  let ?s = "DW1000_init user_manual (constant_device 90) 0"
  from forceTRxOff_sequence [OF user_manual_device_ok attached_init, of "constant_device 90" 0]
  obtain s' where 1: "forceTRxOff user_manual ?s = Inr s'"
    and 2: "trace s' = trace ?s @
       read_transaction user_manual (SYS_MASK user_manual) 4 @
       [REMOVE_EVENT_DETECT] @
       write_transaction user_manual (SYS_MASK user_manual) (replicate 4 0) @
       write_transaction user_manual (SYS_CTRL user_manual)
         (bit_update (replicate 4 0) (TRXOFF_BIT user_manual) True) @
       write_transaction user_manual (SYS_STATUS user_manual)
         (bits_update (replicate 5 0)
            (SYS_STATUS_ALL_TX user_manual @ SYS_STATUS_ALL_RX_ERR user_manual @
             SYS_STATUS_ALL_RX_TO user_manual @ SYS_STATUS_ALL_RX_GOOD user_manual) True) @
       read_transaction user_manual (SYS_STATUS user_manual) 5 @
       (let st = read_value user_manual (SYS_STATUS user_manual) 5 (spi ?s)
                   (trace ?s @ forceTRxOff_head user_manual) in
        if bit_of st (HSRBP_BIT user_manual) = bit_of st (ICRBP_BIT user_manual) \<and> dblbuffon ?s
        then toggle_events user_manual (replicate 4 0)
               (bit_update (replicate 4 0) (TRXOFF_BIT user_manual) True)
        else []) @
       write_transaction user_manual (SYS_MASK user_manual)
         (read_value user_manual (SYS_MASK user_manual) 4 (spi ?s) (trace ?s))"
    and 3: "data (sysmask s') = read_value user_manual (SYS_MASK user_manual) 4 (spi ?s) (trace ?s)"
    by blast
  have lists: "SYS_STATUS_ALL_TX user_manual = [3, 4, 5, 6, 7]"
    "SYS_STATUS_ALL_RX_ERR user_manual = [12, 15, 16, 26, 29, 18]"
    "SYS_STATUS_ALL_RX_TO user_manual = [17, 21]"
    "SYS_STATUS_ALL_RX_GOOD user_manual = [13, 14, 8, 9, 11, 10]"
    by (simp_all add: user_manual_def)
  have m: "read_value user_manual (SYS_MASK user_manual) 4 (spi ?s) (trace ?s) = [90, 90, 90, 90]"
    by (simp add: DW1000_init_def read_value_def answers_constant replicate_4)
  have t: "trace s' = [CS_LOW, XFER 14, XFER 0, XFER 0, XFER 0, XFER 0, CS_HIGH,
                 REMOVE_EVENT_DETECT,
                 CS_LOW, XFER 142, XFER 0, XFER 0, XFER 0, XFER 0, CS_HIGH,
                 CS_LOW, XFER 141, XFER 64, XFER 0, XFER 0, XFER 0, CS_HIGH,
                 CS_LOW, XFER 143, XFER 248, XFER 255, XFER 39, XFER 36, XFER 0, CS_HIGH,
                 CS_LOW, XFER 15, XFER 0, XFER 0, XFER 0, XFER 0, XFER 0, CS_HIGH,
                 CS_LOW, XFER 142, XFER 90, XFER 90, XFER 90, XFER 90, CS_HIGH]"
    unfolding 2 m
    by (simp add: DW1000_init_def read_value_def answers_constant lists
        read_transaction_def write_transaction_def bit_of_def
        bits_update_def bit_update_def Let_def replicate_4 replicate_5 set_bit_eq_or
        push_bit_eq_mult)
  from 1 3 m t show ?thesis
    by simp
qed


section \<open>The crystal trim (C6)\<close>

text \<open>
  C6: with well-formed constants, when the seventeen mode-dependent registers are computed
  without an exception, \<open>tune\<close> returns; the events it adds are those of the OTP read,
  the writes of the seventeen registers and, last, the write of the crystal-trim register
  \<open>fsxtalt\<close>.  The value written there comes from the first byte \<open>b\<close> read from OTP
  memory: it is \<open>(C.TUNE_OPERATION & C.TUNE_MASK1) | C.TUNE_MASK2\<close> when \<open>b\<close> is zero
  and \<open>(b & C.TUNE_MASK1) | C.TUNE_MASK2\<close> for every other byte.  The choice is made on
  the value alone.
\<close>

theorem crystal_trim_from_otp:
  assumes "tune_constants_ok C" and "tune_registers C s = Inr regs"
  shows "tune C s = Inr (s\<lparr>trace := trace s @ otp_events C @
           concat (map (register_events C) regs) @
           register_events C (writeValue (DW1000Register (FS_CTRL C) (FS_XTALT_SUB C) 1)
             (let b = hd (otp_bytes C (spi s) (trace s)) in
              if b = 0 then (TUNE_OPERATION C AND TUNE_MASK1 C) OR TUNE_MASK2 C
              else (b AND TUNE_MASK1 C) OR TUNE_MASK2 C))\<rparr>)"
  using tune_eq [OF assms] by (simp add: crystal_trim_def Let_def)


theorem crystal_trim_from_otp_witness:
  "(\<exists>s' pre. tune user_manual ((DW1000_init user_manual (constant_device 0) 0)\<lparr>operationMode := mode_128\<rparr>) = Inr s' \<and>
      trace s' = pre @ [CS_LOW, XFER 235, XFER 14, XFER 112, CS_HIGH]) \<and>
   (\<exists>s' pre. tune user_manual ((DW1000_init user_manual (constant_device 5) 0)\<lparr>operationMode := mode_128\<rparr>) = Inr s' \<and>
      trace s' = pre @ [CS_LOW, XFER 235, XFER 14, XFER 101, CS_HIGH])"
proof -
  have w: "\<exists>s' pre. tune user_manual ((DW1000_init user_manual (constant_device b) 0)\<lparr>operationMode := mode_128\<rparr>) = Inr s' \<and>
      trace s' = pre @ register_events user_manual (writeValue (DW1000Register 43 14 1)
             (let b = uint b in if b = 0 then 112 else (b AND 31) OR 96))" for b
  proof -
    let ?s = "(DW1000_init user_manual (constant_device b) 0)\<lparr>operationMode := mode_128\<rparr>"
    obtain regs where regs: "tune_registers user_manual ?s = Inr regs"
      using tune_registers_mode_128 [of ?s] by auto
    have spi: "spi ?s = constant_device b"
      by (simp add: DW1000_init_def)
    show ?thesis
      using crystal_trim_from_otp [OF user_manual_tune_ok regs]
      by (simp add: spi otp_bytes_constant replicate_4 Let_def)
  qed
  show ?thesis
    using w [of 0] w [of 5] by (simp add: fsxtalt_events)
qed


section \<open>tune with preamble length 64 at 6.8 Mbps (C2)\<close>

text \<open>
  C2 promises that \<open>tune\<close> completes for every fully set operation mode.  For the mode
  with preamble length 64 and data rate 6800 kbps (the code of length 64 being different
  from those of lengths 1536, 2048 and 4096) the last branch of \<open>tuneDrxtune1b\<close> is
  reached; it calls the register object instead of its \<open>writeValue\<close>, as every other
  branch does, and \<open>tune\<close> raises TypeError before anything is written.
\<close>

theorem tune_preamble_64_rate_6800:
  assumes "preambleLength (operationMode s) = Some (TX_PREAMBLE_LEN_64 C)"
    and "dataRate (operationMode s) = Some (TRX_RATE_6800KBPS C)"
    and "TX_PREAMBLE_LEN_64 C \<noteq> TX_PREAMBLE_LEN_1536 C"
    and "TX_PREAMBLE_LEN_64 C \<noteq> TX_PREAMBLE_LEN_2048 C"
    and "TX_PREAMBLE_LEN_64 C \<noteq> TX_PREAMBLE_LEN_4096 C"
  shows "tune C s = Inl TypeError"
proof -
  have "tuneDrxtune1b C s r = Inl TypeError" for r
    using assms by (simp add: tuneDrxtune1b_def call_register_def)
  then have "tune_registers C s = Inl TypeError"
    by (simp add: tune_registers_def Let_def split_def)
  then show ?thesis
    by (rule tune_raises)
qed


theorem tune_preamble_64_rate_6800_witness:
  "tune user_manual ((DW1000_init user_manual (constant_device 0) 0)\<lparr>operationMode := mode_64\<rparr>)
     = Inl TypeError"
  using tune_preamble_64_rate_6800
    [of "(DW1000_init user_manual (constant_device 0) 0)\<lparr>operationMode := mode_64\<rparr>" user_manual]
  by (simp add: mode_64_def)


section \<open>Determinism of tune (C7)\<close>

text \<open>
  C7, as the code has it: with well-formed constants, two runs of \<open>tune\<close> with the same
  six mode fields and the same first byte read from OTP memory have the same outcome on
  the bus (the same exception, or the same events added), whatever else the two states
  hold; and the seventeen registers other than the crystal trim depend on the six mode
  fields only.
\<close>

theorem tune_deterministic:
  assumes "tune_constants_ok C"
    and "operationMode s1 = operationMode s2"
    and "hd (otp_bytes C (spi s1) (trace s1)) = hd (otp_bytes C (spi s2) (trace s2))"
  shows "committed C s1 = committed C s2 \<and> tune_registers C s1 = tune_registers C s2"
  using assms(3) tune_registers_mode [OF assms(2), of C]
  by (simp add: committed_eq [OF assms(1)] split: sum.split)


theorem tune_deterministic_witness:
  "committed user_manual ((DW1000_init user_manual (constant_device 0) 0)\<lparr>operationMode := mode_128\<rparr>)
     = committed user_manual ((DW1000_init user_manual (constant_device 0) 7)
          \<lparr>trace := [REMOVE_EVENT_DETECT], dblbuffon := True, operationMode := mode_128\<rparr>)"
  using tune_deterministic [OF user_manual_tune_ok,
      of "(DW1000_init user_manual (constant_device 0) 0)\<lparr>operationMode := mode_128\<rparr>"
         "(DW1000_init user_manual (constant_device 0) 7)
          \<lparr>trace := [REMOVE_EVENT_DETECT], dblbuffon := True, operationMode := mode_128\<rparr>"]
  by (simp add: DW1000_init_def otp_bytes_constant)

text \<open>
  C7 as stated makes the register values a function of the six mode fields alone.  Two
  devices that differ only in the byte stored in OTP memory (0 and 1), with the same
  operation mode, are written different crystal-trim values.
\<close>

theorem tune_deterministic_counterexample:
  "operationMode ((DW1000_init user_manual (constant_device 0) 0)\<lparr>operationMode := mode_128\<rparr>)
     = operationMode ((DW1000_init user_manual (constant_device 1) 0)\<lparr>operationMode := mode_128\<rparr>) \<and>
   committed user_manual ((DW1000_init user_manual (constant_device 0) 0)\<lparr>operationMode := mode_128\<rparr>)
     \<noteq> committed user_manual ((DW1000_init user_manual (constant_device 1) 0)\<lparr>operationMode := mode_128\<rparr>)"
proof -
  let ?a = "(DW1000_init user_manual (constant_device 0) 0)\<lparr>operationMode := mode_128\<rparr>"
  let ?b = "(DW1000_init user_manual (constant_device 1) 0)\<lparr>operationMode := mode_128\<rparr>"
  obtain regs where regs: "tune_registers user_manual ?a = Inr regs"
    using tune_registers_mode_128 [of ?a] by auto
  have regs': "tune_registers user_manual ?b = Inr regs"
    using regs tune_registers_mode [of ?b ?a user_manual] by simp
  have spi: "spi ?a = constant_device 0" "spi ?b = constant_device 1"
    by (simp_all add: DW1000_init_def)
  have "committed user_manual ?a \<noteq> committed user_manual ?b"
    unfolding committed_eq [OF user_manual_tune_ok] regs regs'
    by (simp add: spi otp_bytes_constant replicate_4 crystal_trim_def fsxtalt_events)
  then show ?thesis
    by simp
qed


section \<open>Brackets and bias look-up\<close>

lemma bracket_range:
  "0 \<le> fst (bracket x) \<and> fst (bracket x) \<le> 17 \<and> 0 \<le> snd (bracket x) \<and> snd (bracket x) \<le> 17"
  by (simp add: bracket_def Let_def)

lemma bracket_int:
  "0 \<le> k \<Longrightarrow> k \<le> 17 \<Longrightarrow> fst (bracket (real_of_int k)) = k"
  by (simp add: bracket_def Let_def)

lemma signed_bias_eq:
  "0 \<le> i \<Longrightarrow> i < int (length table) \<Longrightarrow>
   signed_bias table zero i = Inr (push_bit 1 (if i < zero then - (table ! nat i) else table ! nat i))"
  by (simp add: signed_bias_def list_get_def Let_def)

lemma bracket_clamp:
  "bracket x = (max 0 (min 17 \<lfloor>x\<rfloor>), max 0 (min 17 (\<lfloor>x\<rfloor> + 1)))"
proof -
  define f where "f = \<lfloor>x\<rfloor>"
  have "(if f < 0 then (0, 0) else if f + 1 > 17 then (17, 17) else (f, f + 1))
      = (max 0 (min 17 f), max 0 (min 17 (f + 1)))"
    by (auto simp add: max_def min_def)
  then show ?thesis
    unfolding bracket_def Let_def f_def .
qed

lemma rangeBias_eq:
  assumes "length (BIAS_500_16 C) = 18" and "length (BIAS_500_64 C) = 18"
    and "length (BIAS_900_16 C) = 18" and "length (BIAS_900_64 C) = 18"
    and "pulseFrequency (operationMode s) = Some (TX_PULSE_FREQ_16MHZ C) \<or>
         pulseFrequency (operationMode s) = Some (TX_PULSE_FREQ_64MHZ C)"
    and b: "bracket x = (lo, hi)" and bt: "bias_table C s = (table, zero)"
  shows "rangeBias C s x =
           Inr (real_of_int (push_bit 1 (if lo < zero then - (table ! nat lo) else table ! nat lo)) +
                (x - real_of_int lo) *
                real_of_int (push_bit 1 (if hi < zero then - (table ! nat hi) else table ! nat hi) -
                             push_bit 1 (if lo < zero then - (table ! nat lo) else table ! nat lo)))"
proof -
  have r: "0 \<le> lo" "lo \<le> 17" "0 \<le> hi" "hi \<le> 17"
    using bracket_range [of x] b by simp_all
  have len: "length table = 18"
    using bt assms(1-4) by (auto simp add: bias_table_def split: if_splits)
  have sl: "signed_bias table zero lo
      = Inr (push_bit 1 (if lo < zero then - (table ! nat lo) else table ! nat lo))"
    using r len by (simp add: signed_bias_eq)
  have sh: "signed_bias table zero hi
      = Inr (push_bit 1 (if hi < zero then - (table ! nat hi) else table ! nat hi))"
    using r len by (simp add: signed_bias_eq)
  have rb: "rangeBias C s x =
       seq (signed_bias table zero hi) (\<lambda>rangeBiasHigh.
            seq (signed_bias table zero lo) (\<lambda>rangeBiasLow.
            Inr (real_of_int rangeBiasLow +
                 (x - real_of_int lo) * real_of_int (rangeBiasHigh - rangeBiasLow))))"
    unfolding rangeBias_def b
    using assms(5) bt by (auto simp add: Let_def bias_table_def split: if_splits)
  show ?thesis
    unfolding rb sh sl seq_Inr ..
qed


section \<open>What a read leaves unchanged\<close>

lemma readLoop_frame:
  "readLoop C js buf s = Inr (buf', s') \<Longrightarrow>
   (\<exists>ev. s' = s\<lparr>trace := trace s @ ev\<rparr>) \<and> length buf' = length buf"
proof (induction js arbitrary: buf s)
  case Nil
  then show ?case
    by (auto intro: exI [of _ "[]"])
next
  case (Cons j js)
  let ?s1 = "s\<lparr>trace := trace s @ [XFER (JUNK C)]\<rparr>"
  let ?b = "uint (spi s (trace s @ [XFER (JUNK C)]))"
  from Cons.prems have j: "j < length buf"
    and rec: "readLoop C js (buf[j := Some ?b]) ?s1 = Inr (buf', s')"
    by (auto simp add: xfer_def Let_def split: if_splits)
  from Cons.IH [OF rec] obtain ev where "s' = ?s1\<lparr>trace := trace ?s1 @ ev\<rparr>"
    and "length buf' = length buf"
    by auto
  then show ?case
    by (auto intro: exI [of _ "XFER (JUNK C) # ev"])
qed

lemma readBytes_frame:
  assumes "readBytes C a sub buf n s = Inr (buf', s')"
  shows "(\<exists>ev. s' = s\<lparr>trace := trace s @ ev\<rparr>) \<and> length buf' = length buf"
proof -
  from assms obtain h buf1 s1 where
    loop: "readLoop C [0..<n] buf (xfer_all h (emit CS_LOW s)) = Inr (buf1, s1)"
    and res: "buf' = buf1" "s' = emit CS_HIGH s1"
    by (auto simp add: readBytes_def seq_eq_Inr)
  from readLoop_frame [OF loop] obtain ev where
    "s1 = (xfer_all h (emit CS_LOW s))\<lparr>trace := trace (xfer_all h (emit CS_LOW s)) @ ev\<rparr>"
    and "length buf1 = length buf"
    by auto
  then show ?thesis
    using res
    by (auto simp add: xfer_all_trace emit_def intro: exI [of _ "CS_LOW # map XFER h @ ev @ [CS_HIGH]"])
qed

lemma readRegister_frame:
  assumes "readRegister C r s = Inr (r', s')"
  shows "(\<exists>ev. s' = s\<lparr>trace := trace s @ ev\<rparr>) \<and> address r' = address r \<and>
     subaddress r' = subaddress r \<and> size_reg r' = size_reg r \<and> length (data r') = length (data r)"
proof -
  from assms obtain buf' where
    rb: "readBytes C (address r) (subaddress r) (map Some (data r)) (size_reg r) s = Inr (buf', s')"
    and r': "r' = r\<lparr>data := map the buf'\<rparr>"
    by (auto simp add: readRegister_def seq_eq_Inr)
  from readBytes_frame [OF rb] r' show ?thesis
    by auto
qed

lemma estimate_nonpositive:
  assumes "N \<noteq> 0"
    and "real_of_int cir * real_of_int (TWOPOWER17 C) / (real_of_int N * real_of_int N) \<le> 0"
  shows "estimate_rx_power C s cir N =
     Inr (if 0 \<le> - PWR_COEFF C then 0
          else (0 + PWR_COEFF C) *
            (if pulseFrequency (operationMode s) = Some (TX_PULSE_FREQ_16MHZ C)
             then CORRFAC_16MHZ C else CORRFAC_64MHZ C))"
  using assms by (simp add: estimate_rx_power_def Let_def not_less)


section \<open>Reading the power registers of an example device\<close>

lemma readRegister_events:
  assumes "readHeader C (address r) (subaddress r) = Inr h" and "length (data r) = size_reg r"
  shows "readRegister C r s
     = Inr (r\<lparr>data := answers C (spi s) (size_reg r) (trace s @ CS_LOW # map XFER h)\<rparr>,
            s\<lparr>trace := trace s @ CS_LOW # map XFER h @ replicate (size_reg r) (XFER (JUNK C)) @ [CS_HIGH]\<rparr>)"
proof -
  have "readBytes C (address r) (subaddress r) (map Some (data r)) (length (map Some (data r))) s
     = Inr (map Some (answers C (spi s) (length (map Some (data r))) (trace s @ CS_LOW # map XFER h)),
            s\<lparr>trace := trace s @ CS_LOW # map XFER h @
                 replicate (length (map Some (data r))) (XFER (JUNK C)) @ [CS_HIGH]\<rparr>)"
    by (rule readBytes_events [OF assms(1)])
  then show ?thesis
    using assms(2) by (simp add: readRegister_def comp_def)
qed

lemma answers_2:
  "answers C dev 2 t = [uint (dev (t @ [XFER (JUNK C)])), uint (dev (t @ [XFER (JUNK C), XFER (JUNK C)]))]"
  by (simp add: numeral_2_eq_2)

lemma answers_4:
  "answers C dev 4 t =
     [uint (dev (t @ [XFER (JUNK C)])),
      uint (dev (t @ [XFER (JUNK C), XFER (JUNK C)])),
      uint (dev (t @ [XFER (JUNK C), XFER (JUNK C), XFER (JUNK C)])),
      uint (dev (t @ [XFER (JUNK C), XFER (JUNK C), XFER (JUNK C), XFER (JUNK C)]))]"
  by (simp add: numeral_eq_Suc)

lemma user_manual_power [simp]:
  "RX_FQUAL user_manual = 18" "CIR_PWR_SUB user_manual = 6" "RX_FINFO user_manual = 16"
  "TWOPOWER17 user_manual = 131072" "PWR_COEFF user_manual = 88"
  "CORRFAC_16MHZ user_manual = 2.3334" "CORRFAC_64MHZ user_manual = 1.1667"
  "TX_PULSE_FREQ_16MHZ user_manual = 1" "TX_PULSE_FREQ_64MHZ user_manual = 2"
  by (simp_all add: user_manual_def)

lemma late_device_reads:
  fixes m :: operation_mode
  defines "s \<equiv> (DW1000_init user_manual (late_device 16) 0)\<lparr>operationMode := m\<rparr>"
  defines "s1 \<equiv> s\<lparr>trace := [CS_LOW, XFER 82, XFER 6, XFER 0, XFER 0, CS_HIGH]\<rparr>"
  defines "s2 \<equiv> s\<lparr>trace := [CS_LOW, XFER 82, XFER 6, XFER 0, XFER 0, CS_HIGH,
                              CS_LOW, XFER 16, XFER 0, XFER 0, XFER 0, XFER 0, CS_HIGH]\<rparr>"
  shows "readRegister user_manual (DW1000Register 18 6 2) s
           = Inr ((DW1000Register 18 6 2)\<lparr>data := [0, 0]\<rparr>, s1)"
    and "readRegister user_manual (DW1000Register 16 255 4) s1
           = Inr ((DW1000Register 16 255 4)\<lparr>data := [16, 16, 16, 16]\<rparr>, s2)"
proof -
  have h1: "readHeader user_manual (address (DW1000Register 18 6 2)) (subaddress (DW1000Register 18 6 2))
      = Inr [82, 6]"
    by (simp add: DW1000Register_def readHeader_def bytearray_3 bytearray_set_def is_byte_def Let_def)
  have h2: "readHeader user_manual (address (DW1000Register 16 255 4)) (subaddress (DW1000Register 16 255 4))
      = Inr [16]"
    by (simp add: DW1000Register_def readHeader_def bytearray_3 bytearray_set_def is_byte_def Let_def)
  have l1: "length (data (DW1000Register 18 6 2)) = size_reg (DW1000Register 18 6 2)"
    and l2: "length (data (DW1000Register 16 255 4)) = size_reg (DW1000Register 16 255 4)"
    by (simp_all add: DW1000Register_def)
  show "readRegister user_manual (DW1000Register 18 6 2) s
           = Inr ((DW1000Register 18 6 2)\<lparr>data := [0, 0]\<rparr>, s1)"
    unfolding readRegister_events [OF h1 l1]
    by (simp add: s_def s1_def DW1000Register_def DW1000_init_def answers_2 late_device_def
        numeral_2_eq_2)
  show "readRegister user_manual (DW1000Register 16 255 4) s1
           = Inr ((DW1000Register 16 255 4)\<lparr>data := [16, 16, 16, 16]\<rparr>, s2)"
    unfolding readRegister_events [OF h2 l2]
    by (simp add: s_def s1_def s2_def DW1000Register_def DW1000_init_def answers_4 late_device_def
        replicate_4)
qed


section \<open>The guard of the receive power (C1)\<close>

text \<open>
  C1, as the code has it.  When the two register reads of \<open>getReceivePower\<close> return a
  CIR power \<open>cir\<close> and a non-zero accumulator count \<open>N\<close> for which the logarithm argument
  \<open>cir * C.TWOPOWER17 / N^2\<close> is not positive, the estimate keeps its initial value 0
  and the tail of the function is applied to it: the value returned is 0 when
  \<open>0 <= -C.PWR_COEFF\<close>, and otherwise \<open>(0 + C.PWR_COEFF) * corrFac\<close>, with \<open>corrFac\<close>
  chosen by the pulse frequency.
\<close>

theorem receive_power_guard:
  assumes "readRegister C (DW1000Register (RX_FQUAL C) (CIR_PWR_SUB C) 2) s = Inr (cirPwrBytes, s1)"
    and "readRegister C (DW1000Register (RX_FINFO C) (NO_SUB C) 4) s1 = Inr (rxFrameInfo, s2)"
    and "cir = data cirPwrBytes ! 0 OR push_bit 8 (data cirPwrBytes ! 1)"
    and "N = (drop_bit 4 (data rxFrameInfo ! 2) AND MASK_LS_BYTE C) OR push_bit 4 (data rxFrameInfo ! 3)"
    and "N \<noteq> 0"
    and "real_of_int cir * real_of_int (TWOPOWER17 C) / (real_of_int N * real_of_int N) \<le> 0"
  shows "getReceivePower C s =
     Inr (if 0 \<le> - PWR_COEFF C then 0
          else (0 + PWR_COEFF C) *
            (if pulseFrequency (operationMode s) = Some (TX_PULSE_FREQ_16MHZ C)
             then CORRFAC_16MHZ C else CORRFAC_64MHZ C), s2)"
proof -
  from readRegister_frame [OF assms(1)] have c: "size_reg cirPwrBytes = 2"
    and m1: "operationMode s1 = operationMode s"
    by (auto simp add: DW1000Register_def)
  from readRegister_frame [OF assms(2)] have f: "size_reg rxFrameInfo = 4"
    and m2: "operationMode s2 = operationMode s1"
    by (auto simp add: DW1000Register_def)
  have est: "estimate_rx_power C s2 cir N =
     Inr (if 0 \<le> - PWR_COEFF C then 0
          else (0 + PWR_COEFF C) *
            (if pulseFrequency (operationMode s) = Some (TX_PULSE_FREQ_16MHZ C)
             then CORRFAC_16MHZ C else CORRFAC_64MHZ C))"
    using estimate_nonpositive [OF assms(5,6), of s2] by (simp add: m1 m2)
  show ?thesis
    unfolding getReceivePower_def Let_def assms(1) seq_Inr prod.case assms(2)
    using est unfolding assms(3,4) by (simp add: getitem_def c f)
qed


theorem receive_power_guard_witness:
  "getReceivePower user_manual (DW1000_init user_manual (late_device 16) 0)
     = Inr (102.6696,
            (DW1000_init user_manual (late_device 16) 0)
              \<lparr>trace := [CS_LOW, XFER 82, XFER 6, XFER 0, XFER 0, CS_HIGH,
                         CS_LOW, XFER 16, XFER 0, XFER 0, XFER 0, XFER 0, CS_HIGH]\<rparr>)"
proof -
  let ?s = "DW1000_init user_manual (late_device 16) 0"
  let ?s1 = "?s\<lparr>trace := [CS_LOW, XFER 82, XFER 6, XFER 0, XFER 0, CS_HIGH]\<rparr>"
  let ?s2 = "?s\<lparr>trace := [CS_LOW, XFER 82, XFER 6, XFER 0, XFER 0, CS_HIGH,
                              CS_LOW, XFER 16, XFER 0, XFER 0, XFER 0, XFER 0, CS_HIGH]\<rparr>"
  let ?c = "(DW1000Register 18 6 2)\<lparr>data := [0, 0]\<rparr>"
  let ?f = "(DW1000Register 16 255 4)\<lparr>data := [16, 16, 16, 16]\<rparr>"
  have 1: "readRegister user_manual
      (DW1000Register (RX_FQUAL user_manual) (CIR_PWR_SUB user_manual) 2) ?s = Inr (?c, ?s1)"
    using late_device_reads(1) [of "operationMode ?s"] by simp
  have 2: "readRegister user_manual
      (DW1000Register (RX_FINFO user_manual) (NO_SUB user_manual) 4) ?s1 = Inr (?f, ?s2)"
    using late_device_reads(2) [of "operationMode ?s"] by simp
  have 3: "(0::int) = data ?c ! 0 OR push_bit 8 (data ?c ! 1)"
    by simp
  have 4: "(257::int) = (drop_bit 4 (data ?f ! 2) AND MASK_LS_BYTE user_manual) OR
      push_bit 4 (data ?f ! 3)"
    by (simp add: drop_bit_eq_div push_bit_eq_mult)
  have 5: "(257::int) \<noteq> 0"
    by simp
  have 6: "real_of_int 0 * real_of_int (TWOPOWER17 user_manual) / (real_of_int 257 * real_of_int 257) \<le> 0"
    by simp
  from receive_power_guard [OF 1 2 3 4 5 6] show ?thesis
    by (simp add: DW1000_init_def)
qed

text \<open>
  C1 as stated promises the value 0.  With the threshold constant 88 and the correction
  factor 2.3334 of the 16 MHz pulse frequency, a device whose CIR power field reads zero
  while the accumulator count reads 257 makes \<open>getReceivePower\<close> return 205.3392.
\<close>

theorem receive_power_guard_counterexample:
  "map_sum id fst (getReceivePower user_manual
      ((DW1000_init user_manual (late_device 16) 0)\<lparr>operationMode := mode_128\<rparr>))
     = Inr 205.3392"
proof -
  have e: "estimate_rx_power user_manual s 0 257 = Inr 205.3392"
    if "operationMode s = mode_128" for s
    using estimate_nonpositive [of 257 0 user_manual s] that
    by (simp add: mode_128_def)
  show ?thesis
    unfolding getReceivePower_def Let_def
    using late_device_reads [of mode_128]
    by (simp add: getitem_def DW1000Register_def e drop_bit_eq_div push_bit_eq_mult)
qed


section \<open>What the operations leave unchanged\<close>

lemma writeLoop_frame:
  "writeLoop js buf s = Inr s' \<Longrightarrow> \<exists>ev. s' = s\<lparr>trace := trace s @ ev\<rparr>"
proof (induction js arbitrary: s)
  case Nil
  then show ?case
    by (auto intro: exI [of _ "[]"])
next
  case (Cons j js)
  show ?case
  proof (cases "buf ! j")
    case None
    with Cons.prems have "writeLoop js buf s = Inr s'"
      by (auto split: if_splits)
    then show ?thesis
      by (rule Cons.IH)
  next
    case (Some b)
    let ?s1 = "s\<lparr>trace := trace s @ [XFER b]\<rparr>"
    from Some Cons.prems have "writeLoop js buf ?s1 = Inr s'"
      by (auto simp add: xfer_snd split: if_splits)
    from Cons.IH [OF this] obtain ev where "s' = ?s1\<lparr>trace := trace ?s1 @ ev\<rparr>"
      by auto
    then show ?thesis
      by (auto intro: exI [of _ "XFER b # ev"])
  qed
qed

lemma writeBytes_frame:
  assumes "writeBytes C a sub buf n s = Inr s'"
  shows "\<exists>ev. s' = s\<lparr>trace := trace s @ ev\<rparr>"
proof -
  from assms obtain h s1 where
    loop: "writeLoop [0..<n] buf (xfer_all h (emit CS_LOW s)) = Inr s1"
    and res: "s' = emit CS_HIGH s1"
    by (auto simp add: writeBytes_def seq_eq_Inr)
  from writeLoop_frame [OF loop] obtain ev where
    "s1 = (xfer_all h (emit CS_LOW s))\<lparr>trace := trace (xfer_all h (emit CS_LOW s)) @ ev\<rparr>"
    by auto
  then show ?thesis
    using res
    by (auto simp add: xfer_all_trace emit_def intro: exI [of _ "CS_LOW # map XFER h @ ev @ [CS_HIGH]"])
qed

lemma writeRegister_frame:
  "writeRegister C r s = Inr s' \<Longrightarrow> \<exists>ev. s' = s\<lparr>trace := trace s @ ev\<rparr>"
  unfolding writeRegister_def by (rule writeBytes_frame)

lemma readRegister_state:
  "readRegister C r s = Inr (r', s') \<Longrightarrow> \<exists>ev. s' = s\<lparr>trace := trace s @ ev\<rparr>"
  using readRegister_frame by blast

lemma extends_refl: "extends s s"
  by (simp add: extends_def)

lemma extends_trans: "extends s s1 \<Longrightarrow> extends s1 s2 \<Longrightarrow> extends s s2"
  by (auto simp add: extends_def)

lemma clearStatus_extends: "clearStatus C bits s = Inr s' \<Longrightarrow> extends s s'"
  by (auto simp add: clearStatus_def Let_def seq_eq_Inr extends_def dest!: writeRegister_frame)

lemma idle_extends: "idle C s = Inr s' \<Longrightarrow> extends s s'"
  by (auto simp add: idle_def Let_def seq_eq_Inr extends_def dest!: writeRegister_frame)

lemma toggleHSRBP_extends: "toggleHSRBP C s = Inr s' \<Longrightarrow> extends s s'"
  by (auto simp add: toggleHSRBP_def Let_def seq_eq_Inr extends_def
      dest!: writeRegister_frame split: if_splits)

lemma syncHSRBP_extends: "syncHSRBP C s = Inr s' \<Longrightarrow> extends s s'"
proof -
  assume a: "syncHSRBP C s = Inr s'"
  then obtain r s1 where rd: "readRegister C (sysstatus s) s = Inr (r, s1)"
    and rest: "toggleHSRBP C (s1\<lparr>sysstatus := r\<rparr>) = Inr s' \<or> s' = s1\<lparr>sysstatus := r\<rparr>"
    by (auto simp add: syncHSRBP_def Let_def seq_eq_Inr split: if_splits)
  from readRegister_state [OF rd] have 1: "extends s (s1\<lparr>sysstatus := r\<rparr>)"
    by (auto simp add: extends_def)
  from rest show ?thesis
    using 1 toggleHSRBP_extends extends_trans by blast
qed

lemma forceTRxOff_extends: "forceTRxOff C s = Inr s' \<Longrightarrow> extends s s'"
  by (auto simp add: forceTRxOff_def Let_def seq_eq_Inr disableInterrupt_def emit_def
      extends_def
      dest!: writeRegister_frame readRegister_state clearStatus_extends syncHSRBP_extends)


lemma writeRegisters_extends: "writeRegisters C regs s = Inr s' \<Longrightarrow> extends s s'"
proof (induction regs arbitrary: s)
  case Nil
  then show ?case
    by (simp add: extends_refl)
next
  case (Cons reg regs)
  then obtain s1 where w: "writeRegister C reg s = Inr s1"
    and rest: "writeRegisters C regs s1 = Inr s'"
    by (auto simp add: seq_eq_Inr)
  from writeRegister_frame [OF w] have "extends s s1"
    by (auto simp add: extends_def)
  with Cons.IH [OF rest] show ?case
    by (rule extends_trans [rotated])
qed

lemma readBytes_state:
  "readBytes C a sub buf n s = Inr (buf', s') \<Longrightarrow> \<exists>ev. s' = s\<lparr>trace := trace s @ ev\<rparr>"
  using readBytes_frame by blast

lemma readBytesOTP_extends: "readBytesOTP C a buf s = Inr (buf', s') \<Longrightarrow> extends s s'"
  by (auto simp add: readBytesOTP_def Let_def seq_eq_Inr extends_def
      dest!: writeBytes_frame readBytes_state)

lemma tune_extends: "tune C s = Inr s' \<Longrightarrow> extends s s'"
proof -
  assume "tune C s = Inr s'"
  then obtain regs buf s1 x where o: "readBytesOTP C (OTP_XTAL_ADDRESS C) (replicate 4 None) s = Inr (buf, s1)"
    and w: "writeRegisters C (regs @ [x]) s1 = Inr s'"
    by (auto simp add: tune_def Let_def seq_eq_Inr)
  from readBytesOTP_extends [OF o] writeRegisters_extends [OF w] show ?thesis
    by (rule extends_trans)
qed

lemma getReceivePower_extends: "getReceivePower C s = Inr (p, s') \<Longrightarrow> extends s s'"
  by (auto simp add: getReceivePower_def Let_def seq_eq_Inr extends_def dest!: readRegister_state)

lemma correctTimestamp_extends: "correctTimestamp C s t = Inr (p, s') \<Longrightarrow> extends s s'"
  by (auto simp add: correctTimestamp_def Let_def seq_eq_Inr dest!: getReceivePower_extends)

lemma newTransmit_extends: "newTransmit C s = Inr s' \<Longrightarrow> extends s s'"
proof -
  assume "newTransmit C s = Inr s'"
  then obtain s1 where i: "idle C s = Inr s1"
    and c: "clearStatus C [TXFRB_BIT C, TXPRS_BIT C, TXPHS_BIT C, TXFRS_BIT C]
              (s1\<lparr>sysctrl := clear (sysctrl s1)\<rparr>) = Inr s'"
    by (auto simp add: newTransmit_def clearTransmitStatus_def Let_def seq_eq_Inr)
  have "extends s1 (s1\<lparr>sysctrl := clear (sysctrl s1)\<rparr>)"
    by (simp add: extends_def)
  with idle_extends [OF i] clearStatus_extends [OF c] show ?thesis
    using extends_trans by blast
qed

lemma startTransmit_extends: "startTransmit C w s = Inr s' \<Longrightarrow> extends s s'"
  by (auto simp add: startTransmit_def Let_def seq_eq_Inr extends_def dest!: writeRegister_frame)

lemma writeHeader_none_Inr:
  "writeHeader C a (NO_SUB C) = Inr h \<Longrightarrow> h = [WRITE C OR a]"
  by (auto simp add: writeHeader_def bytearray_3 bytearray_set_def Let_def split: if_splits)

lemma writeBytes_no_sub:
  assumes "writeBytes C a (NO_SUB C) (map Some bs) (length bs) s = Inr s'"
  shows "s' = s\<lparr>trace := trace s @ write_transaction C a bs\<rparr>"
proof -
  from assms obtain h where h: "writeHeader C a (NO_SUB C) = Inr h"
    by (auto simp add: writeBytes_def seq_eq_Inr)
  from writeHeader_none_Inr [OF h] writeBytes_events [OF h, of bs s] assms show ?thesis
    by (simp add: write_transaction_def)
qed

lemma setData_extends:
  assumes "setData C msg (length msg) s = Inr s'"
  shows "extends s s' \<and> (\<exists>post. trace s' = trace s @ write_transaction C (TX_BUFFER C) msg @ post)"
  using assms
  by (auto simp add: setData_def Let_def seq_eq_Inr extends_def
      dest!: writeBytes_no_sub readBytes_state)

lemma setDelay_extends: "setDelay C d u m s = Inr (t, s') \<Longrightarrow> extends s s'"
  by (auto simp add: setDelay_def Let_def seq_eq_Inr extends_def
      dest!: writeRegister_frame readRegister_state split: if_splits)


lemma readBytes_events_Some:
  assumes "readHeader C a sub = Inr h"
  shows "readBytes C a sub (map Some bs) (length bs) s
     = Inr (map Some (answers C (spi s) (length bs) (trace s @ CS_LOW # map XFER h)),
            s\<lparr>trace := trace s @ CS_LOW # map XFER h @ replicate (length bs) (XFER (JUNK C)) @ [CS_HIGH]\<rparr>)"
  using readBytes_events [OF assms, of "map Some bs" s] by simp

lemma sendMessage_returns:
  assumes ok: "transmit_constants_ok C" and att: "attached C s"
    and enc: "encode M (sendMessage_header M s dstAddr dstPAN ackReq) = Inr headerEnc"
    and bytes: "list_all is_byte (headerEnc @ payload)"
  shows "\<exists>s'. sendMessage M C dstAddr dstPAN payload ackReq wait4resp None s = Inr s'"
proof -
  have r: "is_register C (sysctrl s) (SYS_CTRL C) 4" "is_register C (txfctrl s) (TX_FCTRL C) 5"
    "is_register C (sysstatus s) (SYS_STATUS C) 5"
    using att by (simp_all add: attached_def)
  note c = is_registerD [OF r(1)] and t = is_registerD [OF r(2)] and u = is_registerD [OF r(3)]
  have b: "is_byte (WRITE C OR SYS_CTRL C)" "is_byte (WRITE C OR SYS_STATUS C)"
    "is_byte (WRITE C OR TX_BUFFER C)" "is_byte (READ C OR TX_BUFFER C)"
    "is_byte (WRITE C OR TX_FCTRL C)"
    and i: "bit_index 4 (TRXOFF_BIT C)" "bit_index 4 (WAIT4RESP_BIT C)" "bit_index 4 (TXSTRT_BIT C)"
      "list_all (bit_index 5) [TXFRB_BIT C, TXPRS_BIT C, TXPHS_BIT C, TXFRS_BIT C]"
    using ok by (simp_all add: transmit_constants_ok_def)
  have wh: "writeHeader C (TX_BUFFER C) (NO_SUB C) = Inr [WRITE C OR TX_BUFFER C]"
    using b by (simp add: writeHeader_none)
  have rh: "readHeader C (TX_BUFFER C) (NO_SUB C) = Inr [READ C OR TX_BUFFER C]"
    using b by (simp add: readHeader_none)
  show ?thesis
    unfolding sendMessage_def newTransmit_def idle_def clearTransmitStatus_def setData_def
      startTransmit_def
    using b i c t u r bytes
    by (simp add: Let_def enc bytearray_of_def clear_def setBit_eq getitem_def setitem_def
        clearStatus_eq writeBytes_events [OF wh] readBytes_events_Some [OF rh]
        writeRegister_eq [where a = "SYS_CTRL C" and n = 4]
        writeRegister_eq [where a = "TX_FCTRL C" and n = 5])
qed

lemma bytearray_of_Inr: "bytearray_of xs = Inr ys \<Longrightarrow> ys = xs"
  by (auto simp add: bytearray_of_def split: if_splits)

lemma sendMessage_frame:
  assumes "sendMessage M C dstAddr dstPAN payload ackReq wait4resp delay s = Inr s'"
  shows "seqNum s' = (seqNum s + 1) mod 256 \<and>
    (\<exists>headerEnc pre post.
       encode M (sendMessage_header M s dstAddr dstPAN ackReq) = Inr headerEnc \<and>
       trace s' = trace s @ pre @ write_transaction C (TX_BUFFER C) (headerEnc @ payload) @ post)"
proof -
  from assms obtain headerEnc message s1 s2 s3 s4 where
      enc: "encode M (sendMessage_header M s dstAddr dstPAN ackReq) = Inr headerEnc"
    and msg: "bytearray_of (headerEnc @ payload) = Inr message"
    and n: "newTransmit C s = Inr s1"
    and d: "setData C message (length message) s1 = Inr s2"
    and w: "(case delay of None \<Rightarrow> Inr s2
             | Some d \<Rightarrow> if d \<noteq> 0 then seq (setDelay C d (MICROSECONDS C) ''tx'' s2) (\<lambda>(t, s). Inr s)
                 else Inr s2) = Inr s3"
    and t: "startTransmit C wait4resp s3 = Inr s4"
    and s': "s' = s4\<lparr>seqNum := (seqNum s4 + 1) mod 256\<rparr>"
    unfolding sendMessage_def Let_def seq_eq_Inr by blast
  have m: "message = headerEnc @ payload" using msg by (rule bytearray_of_Inr)
  have e1: "extends s s1" using n by (rule newTransmit_extends)
  from setData_extends [OF d] obtain post2 where e2: "extends s1 s2"
    and t2: "trace s2 = trace s1 @ write_transaction C (TX_BUFFER C) message @ post2" by blast
  have e3: "extends s2 s3"
    using w by (auto simp add: extends_refl seq_eq_Inr split: option.splits if_splits
        dest: setDelay_extends)
  have e4: "extends s3 s4" using t by (rule startTransmit_extends)
  from e1 obtain ev1 where t1: "trace s1 = trace s @ ev1" by (auto simp add: extends_def)
  from e3 obtain ev3 where t3: "trace s3 = trace s2 @ ev3" by (auto simp add: extends_def)
  from e4 obtain ev4 where t4: "trace s4 = trace s3 @ ev4" by (auto simp add: extends_def)
  have "seqNum s4 = seqNum s" using e1 e2 e3 e4 by (simp add: extends_def)
  moreover have "trace s' = trace s @ ev1 @ write_transaction C (TX_BUFFER C) (headerEnc @ payload)
      @ (post2 @ ev3 @ ev4)"
    by (simp add: s' t4 t3 t2 t1 m)
  ultimately show ?thesis using enc s' by auto
qed

lemma perform_seqNum:
  assumes "perform M C operation s = Inr s'" and "0 \<le> seqNum s \<and> seqNum s < 256"
  shows "0 \<le> seqNum s' \<and> seqNum s' < 256"
proof (cases operation)
  case ToggleHSRBP
  then have "extends s s'" using assms(1) by (simp add: toggleHSRBP_extends)
  then show ?thesis using assms(2) by (simp add: extends_def)
next
  case SyncHSRBP
  then have "extends s s'" using assms(1) by (simp add: syncHSRBP_extends)
  then show ?thesis using assms(2) by (simp add: extends_def)
next
  case ForceTRxOff
  then have "extends s s'" using assms(1) by (simp add: forceTRxOff_extends)
  then show ?thesis using assms(2) by (simp add: extends_def)
next
  case Tune
  then have "extends s s'" using assms(1) by (simp add: tune_extends)
  then show ?thesis using assms(2) by (simp add: extends_def)
next
  case GetReceivePower
  then have "extends s s'" using assms(1)
    by (auto simp add: seq_eq_Inr dest: getReceivePower_extends)
  then show ?thesis using assms(2) by (simp add: extends_def)
next
  case (CorrectTimestamp timestamp)
  then have "extends s s'" using assms(1)
    by (auto simp add: seq_eq_Inr dest: correctTimestamp_extends)
  then show ?thesis using assms(2) by (simp add: extends_def)
next
  case (SendMessage dstAddr dstPAN payload ackReq wait4resp delay)
  then have "sendMessage M C dstAddr dstPAN payload ackReq wait4resp delay s = Inr s'"
    using assms(1) by simp
  then have "seqNum s' = (seqNum s + 1) mod 256"
    by (simp add: sendMessage_frame)
  then show ?thesis by simp
qed

lemma run_seqNum:
  "run M C operations s = Inr s' \<Longrightarrow> 0 \<le> seqNum s \<and> seqNum s < 256
     \<Longrightarrow> 0 \<le> seqNum s' \<and> seqNum s' < 256"
proof (induction operations arbitrary: s)
  case Nil
  then show ?case by simp
next
  case (Cons operation operations)
  from Cons.prems(1) obtain s1 where p: "perform M C operation s = Inr s1"
    and r: "run M C operations s1 = Inr s'"
    by (auto simp add: seq_eq_Inr)
  from perform_seqNum [OF p Cons.prems(2)] Cons.IH [OF r] show ?case by blast
qed

lemma init_seqNum: "0 \<le> seqNum (DW1000_init C dev r) \<and> seqNum (DW1000_init C dev r) < 256"
  using uint_lt2p [of r] by (simp add: DW1000_init_def)


section \<open>The transmit sequence number (C10)\<close>

text \<open>
  C10: the sequence number that \<open>__init__\<close> draws lies in the range from 0 to 255, and it
  still does after every sequence of operations that returns.  A call of \<open>sendMessage\<close>
  that returns has put the current sequence number into the header it encodes, has
  written the encoded header followed by the payload to the transmit buffer, and leaves
  the sequence number at its former value plus one, modulo 256.
\<close>

theorem seqNum_invariant:
  "(0 \<le> seqNum (DW1000_init C dev r) \<and> seqNum (DW1000_init C dev r) < 256) \<and>
   (run M C operations (DW1000_init C dev r) = Inr s \<longrightarrow> 0 \<le> seqNum s \<and> seqNum s < 256) \<and>
   (sendMessage M C dstAddr dstPAN payload ackReq wait4resp delay s0 = Inr s1 \<longrightarrow>
      seqNumber (sendMessage_header M s0 dstAddr dstPAN ackReq) = seqNum s0 \<and>
      (\<exists>headerEnc pre post.
         encode M (sendMessage_header M s0 dstAddr dstPAN ackReq) = Inr headerEnc \<and>
         trace s1 = trace s0 @ pre @ write_transaction C (TX_BUFFER C) (headerEnc @ payload) @ post) \<and>
      seqNum s1 = (seqNum s0 + 1) mod 256)"
proof (intro conjI impI)
  show "0 \<le> seqNum (DW1000_init C dev r)" "seqNum (DW1000_init C dev r) < 256"
    using init_seqNum [of C dev r] by simp_all
next
  assume "run M C operations (DW1000_init C dev r) = Inr s"
  from run_seqNum [OF this init_seqNum]
  show "0 \<le> seqNum s" "seqNum s < 256" by simp_all
next
  show "seqNumber (sendMessage_header M s0 dstAddr dstPAN ackReq) = seqNum s0"
    by (simp add: sendMessage_header_def)
next
  assume a: "sendMessage M C dstAddr dstPAN payload ackReq wait4resp delay s0 = Inr s1"
  from sendMessage_frame [OF a]
  show "\<exists>headerEnc pre post.
         encode M (sendMessage_header M s0 dstAddr dstPAN ackReq) = Inr headerEnc \<and>
         trace s1 = trace s0 @ pre @ write_transaction C (TX_BUFFER C) (headerEnc @ payload) @ post"
    and "seqNum s1 = (seqNum s0 + 1) mod 256"
    by simp_all
qed

theorem seqNum_invariant_witness:
  "\<exists>s. run example_mac user_manual [SendMessage 4660 57034 [1, 2] True True None]
          (DW1000_init user_manual (constant_device 0) 255) = Inr s \<and>
        seqNum (DW1000_init user_manual (constant_device 0) 255) = 255 \<and>
        encode example_mac (sendMessage_header example_mac
          (DW1000_init user_manual (constant_device 0) 255) 4660 57034 True) = Inr [65, 136, 255] \<and>
        seqNum s = 0"
proof -
  let ?s = "DW1000_init user_manual (constant_device 0) 255"
  have ok: "transmit_constants_ok user_manual"
    by (simp add: transmit_constants_ok_def user_manual_def is_byte_def bit_index_def)
  have n: "seqNum ?s = 255"
    by (simp add: DW1000_init_def)
  have enc: "encode example_mac (sendMessage_header example_mac ?s 4660 57034 True)
      = Inr [65, 136, 255]"
    by (simp add: example_mac_def sendMessage_header_def n)
  have bytes: "list_all is_byte ([65, 136, 255] @ [1, 2])"
    by (simp add: is_byte_def)
  from sendMessage_returns [OF ok attached_init enc bytes, of True]
  obtain s where 1: "sendMessage example_mac user_manual 4660 57034 [1, 2] True True None ?s = Inr s"
    by blast
  then have 2: "run example_mac user_manual [SendMessage 4660 57034 [1, 2] True True None] ?s = Inr s"
    by simp
  from seqNum_invariant [of user_manual "constant_device 0" 255 example_mac
      "[SendMessage 4660 57034 [1, 2] True True None]" s 4660 57034 "[1, 2]" True True None ?s s] 1 2
  have "seqNum s = (seqNum ?s + 1) mod 256" "0 \<le> seqNum s"
    by simp_all
  then have "seqNum s = 0"
    by (simp add: n)
  with 2 n enc show ?thesis
    by blast
qed


section \<open>The receive power of an example device\<close>

lemma log_10_1000: "log 10 1000 = 3"
proof -
  have "log 10 ((10::real) ^ 3) = real 3 * log 10 10"
    by (rule log_nat_power) simp
  moreover have "(10::real) ^ 3 = 1000"
    by simp
  ultimately show ?thesis
    by simp
qed

lemma whole_loss_power [simp]:
  "RX_FQUAL whole_loss = 18" "CIR_PWR_SUB whole_loss = 6" "RX_FINFO whole_loss = 16"
  "NO_SUB whole_loss = 255" "MASK_LS_BYTE whole_loss = 255" "JUNK whole_loss = 0"
  "TWOPOWER17 whole_loss = 131072" "PWR_COEFF whole_loss = 88" "PWR_COEFF2 whole_loss = 10"
  "A_16MHZ whole_loss = 119" "TX_PULSE_FREQ_16MHZ whole_loss = 1"
  "TX_PULSE_FREQ_64MHZ whole_loss = 2"
  by (simp_all add: whole_loss_def user_manual_def)

lemma ranging_device_reads:
  defines "s \<equiv> (DW1000_init whole_loss ranging_device 0)\<lparr>operationMode := mode_128\<rparr>"
  defines "s1 \<equiv> s\<lparr>trace := [CS_LOW, XFER 82, XFER 6, XFER 0, XFER 0, CS_HIGH]\<rparr>"
  defines "s2 \<equiv> s\<lparr>trace := [CS_LOW, XFER 82, XFER 6, XFER 0, XFER 0, CS_HIGH,
                              CS_LOW, XFER 16, XFER 0, XFER 0, XFER 0, XFER 0, CS_HIGH]\<rparr>"
  shows "readRegister whole_loss (DW1000Register 18 6 2) s
           = Inr ((DW1000Register 18 6 2)\<lparr>data := [125, 0]\<rparr>, s1)"
    and "readRegister whole_loss (DW1000Register 16 255 4) s1
           = Inr ((DW1000Register 16 255 4)\<lparr>data := [0, 0, 0, 8]\<rparr>, s2)"
proof -
  have h1: "readHeader whole_loss (address (DW1000Register 18 6 2)) (subaddress (DW1000Register 18 6 2))
      = Inr [82, 6]"
    by (simp add: DW1000Register_def readHeader_def bytearray_3 bytearray_set_def is_byte_def Let_def
        whole_loss_def user_manual_def)
  have h2: "readHeader whole_loss (address (DW1000Register 16 255 4)) (subaddress (DW1000Register 16 255 4))
      = Inr [16]"
    by (simp add: DW1000Register_def readHeader_def bytearray_3 bytearray_set_def is_byte_def Let_def
        whole_loss_def user_manual_def)
  have l1: "length (data (DW1000Register 18 6 2)) = size_reg (DW1000Register 18 6 2)"
    and l2: "length (data (DW1000Register 16 255 4)) = size_reg (DW1000Register 16 255 4)"
    by (simp_all add: DW1000Register_def)
  have r2: "replicate 2 x = [x, x]" for x :: event
    by (simp add: numeral_2_eq_2)
  show "readRegister whole_loss (DW1000Register 18 6 2) s
           = Inr ((DW1000Register 18 6 2)\<lparr>data := [125, 0]\<rparr>, s1)"
    unfolding readRegister_events [OF h1 l1]
    by (simp add: s_def s1_def DW1000Register_def DW1000_init_def answers_2 ranging_device_def r2)
  show "readRegister whole_loss (DW1000Register 16 255 4) s1
           = Inr ((DW1000Register 16 255 4)\<lparr>data := [0, 0, 0, 8]\<rparr>, s2)"
    unfolding readRegister_events [OF h2 l2]
    by (simp add: s_def s1_def s2_def DW1000Register_def DW1000_init_def answers_4 ranging_device_def
        replicate_4)
qed

lemma whole_loss_estimate:
  assumes "pulseFrequency (operationMode s) = Some 1"
  shows "estimate_rx_power whole_loss s 125 128 = Inr (- 89)"
  using assms by (simp add: estimate_rx_power_def Let_def log_10_1000)

lemma whole_loss_receive_power:
  "getReceivePower whole_loss ((DW1000_init whole_loss ranging_device 0)\<lparr>operationMode := mode_128\<rparr>)
     = Inr (- 89, (DW1000_init whole_loss ranging_device 0)
         \<lparr>operationMode := mode_128,
           trace := [CS_LOW, XFER 82, XFER 6, XFER 0, XFER 0, CS_HIGH,
                     CS_LOW, XFER 16, XFER 0, XFER 0, XFER 0, XFER 0, CS_HIGH]\<rparr>)"
proof -
  have e: "estimate_rx_power whole_loss s 125 128 = Inr (- 89)"
    if "operationMode s = mode_128" for s
    using whole_loss_estimate [of s] that by (simp add: mode_128_def)
  show ?thesis
    unfolding getReceivePower_def Let_def
    using ranging_device_reads
    by (simp add: getitem_def DW1000Register_def e drop_bit_eq_div push_bit_eq_mult)
qed


section \<open>Transaction headers (C3)\<close>






section \<open>Bias at a bracket boundary (C8)\<close>

text \<open>
  C8: let \<open>correctTimestamp\<close> run in a state whose pulse frequency is 16 or 64 MHz, with
  bias tables of eighteen entries, and let \<open>getReceivePower\<close> return \<open>rxPower\<close>.  The
  bracket index is \<open>-(rxPower + 61) * 0.5\<close>; the bounds that the code uses are
  \<open>low = floor(index)\<close> and \<open>high = floor(index) + 1\<close>, each clamped into \<open>[0, 17]\<close>;
  the value returned is the timestamp plus the bias interpolated between the entries
  \<open>low\<close> and \<open>high\<close> of the selected table (an entry is negated below the table's zero
  marker and shifted left by one), times the two conversion constants.  When the index is
  exactly an integer \<open>k\<close> of \<open>[0, 17]\<close>, the interpolated bias is the entry \<open>k\<close>.
\<close>

theorem correctTimestamp_at_bracket:
  assumes "length (BIAS_500_16 C) = 18" and "length (BIAS_500_64 C) = 18"
    and "length (BIAS_900_16 C) = 18" and "length (BIAS_900_64 C) = 18"
    and "pulseFrequency (operationMode s) = Some (TX_PULSE_FREQ_16MHZ C) \<or>
         pulseFrequency (operationMode s) = Some (TX_PULSE_FREQ_64MHZ C)"
    and "getReceivePower C s = Inr (rxPower, s1)"
  shows "let rxPowerBase = - (rxPower + 61.0) * 0.5;
             low = max 0 (min 17 \<lfloor>rxPowerBase\<rfloor>);
             high = max 0 (min 17 (\<lfloor>rxPowerBase\<rfloor> + 1));
             (table, zero) = bias_table C s;
             entry = (\<lambda>i. real_of_int (push_bit 1 (if i < zero then - (table ! nat i) else table ! nat i)))
         in bracket rxPowerBase = (low, high) \<and>
            0 \<le> low \<and> low \<le> 17 \<and> 0 \<le> high \<and> high \<le> 17 \<and>
            correctTimestamp C s timestamp =
              Inr (real_of_int timestamp +
                   (entry low + (rxPowerBase - real_of_int low) * (entry high - entry low)) *
                   DISTANCE_OF_RADIO_INV C * ADJUSTMENT_TIME_FACTOR C, s1) \<and>
            (0 \<le> k \<and> k \<le> 17 \<and> rxPowerBase = real_of_int k \<longrightarrow>
               correctTimestamp C s timestamp =
                 Inr (real_of_int timestamp +
                      entry k * DISTANCE_OF_RADIO_INV C * ADJUSTMENT_TIME_FACTOR C, s1))"
proof -
  define x where "x = - (rxPower + 61.0) * 0.5"
  define lo where "lo = max 0 (min 17 \<lfloor>x\<rfloor>)"
  define hi where "hi = max 0 (min 17 (\<lfloor>x\<rfloor> + 1))"
  obtain table zero where bt: "bias_table C s = (table, zero)"
    by (cases "bias_table C s")
  define entry where
    "entry = (\<lambda>i. real_of_int (push_bit 1 (if i < zero then - (table ! nat i) else table ! nat i)))"
  have m: "operationMode s1 = operationMode s"
    using getReceivePower_extends [OF assms(6)] by (simp add: extends_def)
  have "bias_table C s1 = bias_table C s"
    by (simp add: bias_table_def m)
  then have bt1: "bias_table C s1 = (table, zero)"
    by (simp add: bt)
  have p1: "pulseFrequency (operationMode s1) = Some (TX_PULSE_FREQ_16MHZ C) \<or>
      pulseFrequency (operationMode s1) = Some (TX_PULSE_FREQ_64MHZ C)"
    using assms(5) by (simp add: m)
  have b: "bracket x = (lo, hi)"
    by (simp add: bracket_clamp lo_def hi_def)
  have r: "0 \<le> lo \<and> lo \<le> 17 \<and> 0 \<le> hi \<and> hi \<le> 17"
    by (simp add: lo_def hi_def)
  have rb: "rangeBias C s1 x = Inr (entry lo + (x - real_of_int lo) * (entry hi - entry lo))"
    unfolding rangeBias_eq [OF assms(1-4) p1 b bt1] entry_def by simp
  have c: "correctTimestamp C s timestamp =
      Inr (real_of_int timestamp +
           (entry lo + (x - real_of_int lo) * (entry hi - entry lo)) *
           DISTANCE_OF_RADIO_INV C * ADJUSTMENT_TIME_FACTOR C, s1)"
    unfolding correctTimestamp_def assms(6) seq_Inr prod.case Let_def x_def [symmetric] rb
    by simp
  have k: "correctTimestamp C s timestamp =
      Inr (real_of_int timestamp + entry k * DISTANCE_OF_RADIO_INV C * ADJUSTMENT_TIME_FACTOR C, s1)"
    if "0 \<le> k \<and> k \<le> 17 \<and> x = real_of_int k"
  proof -
    from that have "lo = k"
      by (simp add: lo_def)
    with that show ?thesis
      unfolding c by simp
  qed
  from b r c k show ?thesis
    unfolding Let_def bt prod.case x_def [symmetric] lo_def [symmetric] hi_def [symmetric]
      entry_def
    by blast
qed


theorem correctTimestamp_at_bracket_witness:
  "getReceivePower whole_loss ((DW1000_init whole_loss ranging_device 0)\<lparr>operationMode := mode_128\<rparr>)
     = Inr (- 89, (DW1000_init whole_loss ranging_device 0)
         \<lparr>operationMode := mode_128,
           trace := [CS_LOW, XFER 82, XFER 6, XFER 0, XFER 0, CS_HIGH,
                     CS_LOW, XFER 16, XFER 0, XFER 0, XFER 0, XFER 0, CS_HIGH]\<rparr>) \<and>
   bracket 14 = (14, 15) \<and>
   correctTimestamp whole_loss ((DW1000_init whole_loss ranging_device 0)\<lparr>operationMode := mode_128\<rparr>) 1000
     = Inr (1000 + 194 * 213.139451293 * 0.001, (DW1000_init whole_loss ranging_device 0)
         \<lparr>operationMode := mode_128,
           trace := [CS_LOW, XFER 82, XFER 6, XFER 0, XFER 0, CS_HIGH,
                     CS_LOW, XFER 16, XFER 0, XFER 0, XFER 0, XFER 0, CS_HIGH]\<rparr>)"
proof -
  let ?s = "(DW1000_init whole_loss ranging_device 0)\<lparr>operationMode := mode_128\<rparr>"
  let ?s2 = "(DW1000_init whole_loss ranging_device 0)
         \<lparr>operationMode := mode_128,
           trace := [CS_LOW, XFER 82, XFER 6, XFER 0, XFER 0, CS_HIGH,
                     CS_LOW, XFER 16, XFER 0, XFER 0, XFER 0, XFER 0, CS_HIGH]\<rparr>"
  have l: "length (BIAS_500_16 whole_loss) = 18" "length (BIAS_500_64 whole_loss) = 18"
    "length (BIAS_900_16 whole_loss) = 18" "length (BIAS_900_64 whole_loss) = 18"
    by (simp_all add: whole_loss_def user_manual_def)
  have p: "pulseFrequency (operationMode ?s) = Some (TX_PULSE_FREQ_16MHZ whole_loss) \<or>
      pulseFrequency (operationMode ?s) = Some (TX_PULSE_FREQ_64MHZ whole_loss)"
    by (simp add: mode_128_def)
  have g: "getReceivePower whole_loss ?s = Inr (- 89, ?s2)"
    by (rule whole_loss_receive_power)
  have t: "bias_table whole_loss ?s
      = ([198, 187, 179, 163, 143, 127, 109, 84, 59, 31, 0, 36, 65, 84, 97, 106, 110, 112], 10)"
    by (simp add: bias_table_def mode_128_def whole_loss_def user_manual_def)
  have c: "DISTANCE_OF_RADIO_INV whole_loss = 213.139451293"
    "ADJUSTMENT_TIME_FACTOR whole_loss = 0.001"
    by (simp_all add: whole_loss_def user_manual_def)
  have x: "- (- 89 + 61.0) * 0.5 = (14::real)"
    by simp
  from correctTimestamp_at_bracket [OF l p g, of 1000 14]
  have "bracket 14 = (14, 15) \<and>
      correctTimestamp whole_loss ?s 1000 = Inr (1000 + 194 * 213.139451293 * 0.001, ?s2)"
    unfolding Let_def x t prod.case c
    by (simp add: push_bit_eq_mult)
  with g show ?thesis
    by blast
qed


end
